theory Spec2Isabelle
  imports Main "HOL-Library.Word"
begin

unbundle bit_operations_syntax

section \<open>The log event serializer of xnumon (logevt.c)\<close>

text \<open>
  \<^verbatim>\<open>logevt.c\<close> drives a log format engine: every serializer is a sequence of calls
  through the function pointer table \<^verbatim>\<open>logfmt_t *fmt\<close> on a stream \<^verbatim>\<open>FILE *f\<close>. None
  of these calls returns anything the serializer looks at, so a serializer is modelled
  by the sequence of calls it issues, in order, together with its return value.
  The two name service lookups of libc are recorded in the same sequence, so that
  a lookup that is skipped is visible as such.
\<close>

subsection \<open>Data of the headers that logevt.c includes\<close>

type_synonym byte = "8 word"

text \<open>\<^verbatim>\<open>config_t\<close>: the fields that logevt.c reads. \<^verbatim>\<open>logevt_init\<close> stores the pointer
  once; the serializers below take the configuration as an argument.\<close>

record config =
  path :: string
  cfg_id :: "string option"
  launchd_mode :: bool
  debug :: bool
  stats_interval :: nat
  hflags :: "32 word"
  codesign :: bool
  resolve_users_groups :: bool
  omit_mode :: bool
  omit_size :: bool
  omit_mtime :: bool
  omit_ctime :: bool
  omit_btime :: bool
  omit_sid :: bool
  omit_groups :: bool
  omit_apple_hashes :: bool
  ancestors :: nat
  logoneline :: int
  logfile :: "string option"
  limit_nofile :: nat
  suppress_image_exec_at_start :: bool
  suppress_image_exec_by_ident :: "string set"
  suppress_image_exec_by_path :: "string set"
  suppress_image_exec_by_ancestor_ident :: "string set"
  suppress_image_exec_by_ancestor_path :: "string set"
  suppress_process_access_by_subject_ident :: "string set"
  suppress_process_access_by_subject_path :: "string set"
  suppress_socket_op_localhost :: bool
  suppress_socket_op_by_subject_ident :: "string set"
  suppress_socket_op_by_subject_path :: "string set"

text \<open>\<^verbatim>\<open>struct timespec\<close>.\<close>

record timespec =
  tv_sec :: int
  tv_nsec :: int

text \<open>\<^verbatim>\<open>logevt_header_t\<close>: the first member of every event structure.\<close>

record logevt_header =
  code :: nat
  tv :: timespec

text \<open>
  \<^verbatim>\<open>ipaddr_t\<close> is declared outside logevt.c, which hands it to \<^verbatim>\<open>ipaddr_is_empty\<close>
  and \<^verbatim>\<open>ipaddrtoa\<close> only: an address family and the address bytes.
\<close>

datatype ipaddr = Ipaddr nat "byte list"

text \<open>
  \<^verbatim>\<open>audit_proc_t\<close>; uid_t, gid_t and dev_t are 32 bits wide, and the comparisons with
  (uid_t)-1, (gid_t)-1 and (dev_t)-1 are comparisons of words. A pid is only compared
  with 0 and printed, so it is an integer.
\<close>

record audit_proc =
  pid :: int
  auid :: "32 word"
  euid :: "32 word"
  egid :: "32 word"
  ruid :: "32 word"
  rgid :: "32 word"
  sid :: nat
  dev :: "32 word"
  addr :: ipaddr

text \<open>The fields of \<^verbatim>\<open>ie->stat\<close>, \<^verbatim>\<open>ie->hashes\<close> and \<^verbatim>\<open>ie->codesign\<close> that are read.\<close>

record stat_attr =
  mode :: nat
  uid :: "32 word"
  gid :: "32 word"
  st_size :: nat
  mtime :: timespec
  ctime :: timespec
  btime :: timespec

record hashes =
  md5 :: "byte list"
  sha1 :: "byte list"
  sha256 :: "byte list"

record codesign =
  origin :: nat
  cdhash :: "byte list option"
  cdhashsz :: nat
  ident :: "string option"
  teamid :: "string option"
  certcn :: "string option"

text \<open>
  \<^verbatim>\<open>image_exec_t\<close>. The pointers \<^verbatim>\<open>script\<close> and \<^verbatim>\<open>prev\<close> lead to further image_exec_t
  structures; NULL is \<open>None\<close>. A value of the datatype is a finite chain without
  cycles, as the chain of predecessors is.
\<close>

datatype image_exec = Image_exec
  (hdr: logevt_header)
  (flags: "32 word")
  (pid: int)
  (path: string)
  (stat: stat_attr)
  (hashes: hashes)
  (codesign: "codesign option")
  (script: "image_exec option")
  (prev: "image_exec option")
  (argv: "string list option")
  (envv: "string list option")
  (cwd: "string option")
  (fork_tv: timespec)
  (subject: audit_proc)

text \<open>
  The event structures. Each starts with the header, which is what the cast of
  \<^verbatim>\<open>arg0\<close> to \<^verbatim>\<open>logevt_header_t *\<close> reads; \<^verbatim>\<open>image_exec_t\<close> above is one of them.
  Listen, accept and connect events have one shape.
\<close>

record event =
  hdr :: logevt_header

record xnumon_ops = event +
  subtype :: string

record process_access = event +
  pa_method :: string
  object :: audit_proc
  objectpid :: int
  object_image_exec :: "image_exec option"
  subject :: audit_proc
  subject_image_exec :: "image_exec option"

record launchd_add = event +
  flags :: "32 word"
  plist_path :: string
  program_rpath :: "string option"
  program_path :: "string option"
  program_argv :: "string list option"
  subject :: audit_proc
  subject_image_exec :: "image_exec option"

record socket_op = event +
  protocol :: nat
  sock_addr :: ipaddr
  sock_port :: nat
  peer_addr :: ipaddr
  peer_port :: nat
  subject :: audit_proc
  subject_image_exec :: "image_exec option"

text \<open>\<^verbatim>\<open>evtloop_stat_t\<close> and the statistics of the subsystems in it.\<close>

record procmon_stat =
  procs :: nat
  images :: nat
  liveacq :: nat
  miss_bypid :: nat
  miss_forksubj :: nat
  miss_execsubj :: nat
  miss_execinterp :: nat
  miss_chdirsubj :: nat
  miss_getcwd :: nat
  ooms :: nat
  pqsize :: nat
  pqlookup :: nat
  pqmiss :: nat
  pqdrop :: nat
  pqskip :: nat

record hackmon_stat =
  recvd :: nat
  procd :: nat
  ooms :: nat

record filemon_stat =
  recvd :: nat
  procd :: nat
  lpmiss :: nat
  ooms :: nat

record sockmon_stat =
  recvd :: nat
  procd :: nat
  ooms :: nat

record kext_stat =
  cdev_qsize :: nat
  kauth_visitors :: nat
  kauth_timeouts :: nat
  kauth_errors :: nat
  kauth_defers :: nat
  kauth_denies :: nat

record aupi_stat =
  qlen :: nat
  qlimit :: nat
  inserts :: nat
  reads :: nat
  drops :: nat

record work_queue_stat =
  qsize :: nat

text \<open>\<^verbatim>\<open>counts\<close> is an array of \<^verbatim>\<open>LOGEVT_SIZE\<close> counters.\<close>

record log_queue_stat =
  qsize :: nat
  counts :: "nat list"
  errors :: nat

record cache_stat =
  used :: nat
  cache_size :: nat
  puts :: nat
  gets :: nat
  hits :: nat
  misses :: nat
  invalids :: nat

record evtloop_stat = event +
  el_aupclobbers :: nat
  el_aueunknowns :: nat
  el_failedsyscalls :: nat
  el_radar38845422 :: nat
  el_radar38845422_fatal :: nat
  el_radar38845784 :: nat
  el_radar39267328 :: nat
  el_radar39267328_fatal :: nat
  el_radar39623812 :: nat
  el_radar39623812_fatal :: nat
  el_radar42770257 :: nat
  el_radar42770257_fatal :: nat
  el_radar42783724 :: nat
  el_radar42783724_fatal :: nat
  el_radar42784847 :: nat
  el_radar42784847_fatal :: nat
  el_radar42946744 :: nat
  el_radar42946744_fatal :: nat
  el_radar43151662 :: nat
  el_radar43151662_fatal :: nat
  el_missingtoken :: nat
  el_ooms :: nat
  pm :: procmon_stat
  hm :: hackmon_stat
  fm :: filemon_stat
  sm :: sockmon_stat
  ke :: kext_stat
  ap :: aupi_stat
  wq :: work_queue_stat
  lq :: log_queue_stat
  ch :: cache_stat
  cc :: cache_stat
  cl :: cache_stat

text \<open>
  What logevt.c uses and does not define: the macros of the included headers and the
  functions of other compilation units and of libc. They are parameters of the model.
  \<^verbatim>\<open>getpwuid\<close> and \<^verbatim>\<open>getgrgid\<close> give the name (\<^verbatim>\<open>pw_name\<close>, \<^verbatim>\<open>gr_name\<close>) or NULL.
\<close>

record macros =
  LOGEVT_VERSION :: nat
  EIFLAG_STAT :: "32 word"
  EIFLAG_ATTR :: "32 word"
  EIFLAG_HASHES :: "32 word"
  EIFLAG_PIDLOOKUP :: "32 word"
  LAFLAG_NOSUBJECT :: "32 word"
  HASH_MD5 :: "32 word"
  HASH_SHA1 :: "32 word"
  HASH_SHA256 :: "32 word"
  MD5SZ :: nat
  SHA1SZ :: nat
  SHA256SZ :: nat
  SIZE_MAX :: nat

record extern = macros +
  getpwuid :: "32 word \<Rightarrow> string option"
  getgrgid :: "32 word \<Rightarrow> string option"
  codesign_is_apple_system :: "codesign \<Rightarrow> bool"
  codesign_is_good :: "codesign \<Rightarrow> bool"
  codesign_result_s :: "codesign \<Rightarrow> string"
  codesign_origin_s :: "codesign \<Rightarrow> string"
  ipaddr_is_empty :: "ipaddr \<Rightarrow> bool"
  ipaddrtoa :: "ipaddr \<Rightarrow> string"
  protocoltoa :: "nat \<Rightarrow> string"
  config_events_s :: "config \<Rightarrow> string"
  config_kextlevel_s :: "config \<Rightarrow> string"
  config_envlevel_s :: "config \<Rightarrow> string"
  hashes_flags_s :: "32 word \<Rightarrow> string"
  logdst_s :: "config \<Rightarrow> string"
  logfmt_s :: "config \<Rightarrow> string"
  setstr_size :: "string set \<Rightarrow> nat"
  os_name :: string
  os_version :: string
  os_build :: string
  build_version :: string
  build_date :: string
  build_info :: string

subsection \<open>Calls and runs\<close>

text \<open>
  One constructor for each member of \<^verbatim>\<open>logfmt_t\<close> that is called, with the arguments
  after \<^verbatim>\<open>f\<close>, and one for each libc lookup.
\<close>

datatype call =
    Record_begin
  | Record_end
  | Dict_begin
  | Dict_end
  | Dict_item string
  | List_begin
  | List_end
  | List_item string
  | Value_string string
  | Value_int int
  | Value_uint nat
  | Value_uint_oct nat
  | Value_bool bool
  | Value_null
  | Value_timespec timespec
  | Value_buf_hex "byte list" nat
  | Value_ttydev "32 word"
  | Getpwuid "32 word"
  | Getgrgid "32 word"

text \<open>
  A run of a function: the calls it issued, and its return value, or \<open>None\<close> when an
  \<^verbatim>\<open>assert\<close> failed and the process was aborted after these calls. Assertions are
  those of \<^verbatim>\<open>assert.h\<close> in a build that does not define \<^verbatim>\<open>NDEBUG\<close>.
\<close>

type_synonym 'a run = "call list \<times> 'a option"

definition calls :: "'a run \<Rightarrow> call list" where
  "calls r = fst r"

definition aborted :: "'a run \<Rightarrow> bool" where
  "aborted r = (snd r = None)"

definition emit :: "call \<Rightarrow> unit run" where
  "emit c = ([c], Some ())"

definition skip :: "unit run" where
  "skip = ([], Some ())"

definition assert :: "bool \<Rightarrow> unit run" where
  "assert b = ([], if b then Some () else None)"

text \<open>Statements in sequence: nothing runs after a failed assertion.\<close>

fun seq :: "unit run list \<Rightarrow> unit run" where
  "seq [] = skip"
| "seq (r # rs) =
     (case snd r of
        None \<Rightarrow> (fst r, None)
      | Some _ \<Rightarrow> (fst r @ fst (seq rs), snd (seq rs)))"

text \<open>\<^verbatim>\<open>return v\<close> after the statements of \<open>r\<close>.\<close>

definition returning :: "'a \<Rightarrow> unit run \<Rightarrow> 'a run" where
  "returning v r = (fst r, case snd r of None \<Rightarrow> None | Some _ \<Rightarrow> Some v)"

subsection \<open>The functions of logevt.c\<close>

definition logevt_uid :: "extern \<Rightarrow> config \<Rightarrow> 32 word \<Rightarrow> string \<Rightarrow> string \<Rightarrow> unit run" where
  "logevt_uid x c u idlabel namelabel =
     seq [emit (Dict_item idlabel),
          if u = - 1 then emit (Value_int (- 1))
          else seq [emit (Value_uint (unat u)),
                    if resolve_users_groups c
                    then seq [emit (Getpwuid u),
                              case getpwuid x u of
                                Some pw_name \<Rightarrow>
                                  seq [emit (Dict_item namelabel), emit (Value_string pw_name)]
                              | None \<Rightarrow> skip]
                    else skip]]"

definition logevt_gid :: "extern \<Rightarrow> config \<Rightarrow> 32 word \<Rightarrow> string \<Rightarrow> string \<Rightarrow> unit run" where
  "logevt_gid x c g idlabel namelabel =
     seq [emit (Dict_item idlabel),
          if g = - 1 then emit (Value_int (- 1))
          else seq [emit (Value_uint (unat g)),
                    if resolve_users_groups c
                    then seq [emit (Getgrgid g),
                              case getgrgid x g of
                                Some gr_name \<Rightarrow>
                                  seq [emit (Dict_item namelabel), emit (Value_string gr_name)]
                              | None \<Rightarrow> skip]
                    else skip]]"

text \<open>\<^verbatim>\<open>hdr\<close> is the argument \<^verbatim>\<open>arg0\<close> of the serializer, NULL being \<open>None\<close>.\<close>

definition logevt_header :: "extern \<Rightarrow> logevt_header option \<Rightarrow> unit run" where
  "logevt_header x h =
     (case h of
        None \<Rightarrow> assert False
      | Some h' \<Rightarrow>
          seq [emit Record_begin,
               emit Dict_begin,
               emit (Dict_item ''version''),
               emit (Value_uint (LOGEVT_VERSION x)),
               emit (Dict_item ''time''),
               emit (Value_timespec (tv h')),
               emit (Dict_item ''eventcode''),
               emit (Value_uint (code h'))])"

definition logevt_footer :: "unit run" where
  "logevt_footer = seq [emit Dict_end, emit Record_end]"

text \<open>
  The serializers of the two events of xnumon itself. \<^verbatim>\<open>arg0\<close> is a pointer to the
  event, NULL being \<open>None\<close>: it is the header that \<^verbatim>\<open>logevt_header\<close> asserts, before
  anything of the event is read. The configuration is that of \<^verbatim>\<open>logevt_init\<close>.
\<close>

text \<open>
  The loop \<^verbatim>\<open>for (i = 0; v[i]; i++) { list_item(label); value_string(v[i]); }\<close> over a
  vector of strings that ends with NULL.
\<close>

fun strv_loop :: "string \<Rightarrow> string list \<Rightarrow> unit run" where
  "strv_loop label [] = skip"
| "strv_loop label (v # vs) =
     seq [emit (List_item label), emit (Value_string v), strv_loop label vs]"

text \<open>The loop over \<^verbatim>\<open>st->lq.counts[i]\<close> for \<^verbatim>\<open>i < LOGEVT_SIZE\<close>.\<close>

fun counts_loop :: "nat list \<Rightarrow> unit run" where
  "counts_loop [] = skip"
| "counts_loop (n # ns) =
     seq [emit (List_item ''event''), emit (Value_uint n), counts_loop ns]"

fun logevt_xnumon_ops :: "extern \<Rightarrow> config \<Rightarrow> xnumon_ops option \<Rightarrow> int run" where
  "logevt_xnumon_ops x c None = returning 0 (logevt_header x None)"
| "logevt_xnumon_ops x c (Some ops) =
     returning 0
       (seq [logevt_header x (Some (event.hdr ops)),
             emit (Dict_item ''op''),
             emit (Value_string (subtype ops)),
             emit (Dict_item ''build''),
             emit Dict_begin,
             emit (Dict_item ''version''),
             emit (Value_string (build_version x)),
             emit (Dict_item ''date''),
             emit (Value_string (build_date x)),
             emit (Dict_item ''info''),
             emit (Value_string (build_info x)),
             emit Dict_end,
             emit (Dict_item ''config''),
             emit Dict_begin,
             emit (Dict_item ''path''),
             emit (Value_string (config.path c)),
             emit (Dict_item ''id''),
             case cfg_id c of
               Some s \<Rightarrow> emit (Value_string s)
             | None \<Rightarrow> emit Value_null,
             emit (Dict_item ''launchd_mode''),
             emit (Value_bool (launchd_mode c)),
             emit (Dict_item ''debug''),
             emit (Value_bool (debug c)),
             emit (Dict_item ''events''),
             emit (Value_string (config_events_s x c)),
             emit (Dict_item ''stats_interval''),
             emit (Value_uint (stats_interval c)),
             emit (Dict_item ''kextlevel''),
             emit (Value_string (config_kextlevel_s x c)),
             emit (Dict_item ''hashes''),
             emit (Value_string (hashes_flags_s x (hflags c))),
             emit (Dict_item ''codesign''),
             emit (Value_bool (config.codesign c)),
             emit (Dict_item ''envlevel''),
             emit (Value_string (config_envlevel_s x c)),
             emit (Dict_item ''resolve_users_groups''),
             emit (Value_bool (resolve_users_groups c)),
             emit (Dict_item ''omit_mode''),
             emit (Value_bool (omit_mode c)),
             emit (Dict_item ''omit_size''),
             emit (Value_bool (omit_size c)),
             emit (Dict_item ''omit_mtime''),
             emit (Value_bool (omit_mtime c)),
             emit (Dict_item ''omit_ctime''),
             emit (Value_bool (omit_ctime c)),
             emit (Dict_item ''omit_btime''),
             emit (Value_bool (omit_btime c)),
             emit (Dict_item ''omit_sid''),
             emit (Value_bool (omit_sid c)),
             emit (Dict_item ''omit_groups''),
             emit (Value_bool (omit_groups c)),
             emit (Dict_item ''omit_apple_hashes''),
             emit (Value_bool (omit_apple_hashes c)),
             emit (Dict_item ''ancestors''),
             if ancestors c < SIZE_MAX x
             then emit (Value_uint (ancestors c))
             else emit (Value_string ''unlimited''),
             emit (Dict_item ''logdst''),
             emit (Value_string (logdst_s x c)),
             emit (Dict_item ''logfmt''),
             emit (Value_string (logfmt_s x c)),
             emit (Dict_item ''logoneline''),
             if logoneline c = - 1
             then emit Value_null
             else emit (Value_bool (logoneline c \<noteq> 0)),
             emit (Dict_item ''logfile''),
             case logfile c of
               Some s \<Rightarrow> emit (Value_string s)
             | None \<Rightarrow> emit Value_null,
             emit (Dict_item ''limit_nofile''),
             emit (Value_uint (limit_nofile c)),
             emit (Dict_item ''suppress_image_exec_at_start''),
             emit (Value_bool (suppress_image_exec_at_start c)),
             emit (Dict_item ''suppress_image_exec_by_ident''),
             emit (Value_uint (setstr_size x (suppress_image_exec_by_ident c))),
             emit (Dict_item ''suppress_image_exec_by_path''),
             emit (Value_uint (setstr_size x (suppress_image_exec_by_path c))),
             emit (Dict_item ''suppress_image_exec_by_ancestor_ident''),
             emit (Value_uint (setstr_size x (suppress_image_exec_by_ancestor_ident c))),
             emit (Dict_item ''suppress_image_exec_by_ancestor_path''),
             emit (Value_uint (setstr_size x (suppress_image_exec_by_ancestor_path c))),
             emit (Dict_item ''suppress_process_access_by_subject_ident''),
             emit (Value_uint (setstr_size x (suppress_process_access_by_subject_ident c))),
             emit (Dict_item ''suppress_process_access_by_subject_path''),
             emit (Value_uint (setstr_size x (suppress_process_access_by_subject_path c))),
             emit (Dict_item ''suppress_socket_op_localhost''),
             emit (Value_bool (suppress_socket_op_localhost c)),
             emit (Dict_item ''suppress_socket_op_by_subject_ident''),
             emit (Value_uint (setstr_size x (suppress_socket_op_by_subject_ident c))),
             emit (Dict_item ''suppress_socket_op_by_subject_path''),
             emit (Value_uint (setstr_size x (suppress_socket_op_by_subject_path c))),
             emit Dict_end,
             emit (Dict_item ''system''),
             emit Dict_begin,
             emit (Dict_item ''name''),
             emit (Value_string (os_name x)),
             emit (Dict_item ''version''),
             emit (Value_string (os_version x)),
             emit (Dict_item ''build''),
             emit (Value_string (os_build x)),
             emit Dict_end,
             logevt_footer])"

fun logevt_xnumon_stats :: "extern \<Rightarrow> config \<Rightarrow> evtloop_stat option \<Rightarrow> int run" where
  "logevt_xnumon_stats x c None = returning 0 (logevt_header x None)"
| "logevt_xnumon_stats x c (Some st) =
     returning 0
       (seq [logevt_header x (Some (event.hdr st)),
             emit (Dict_item ''evtloop''),
             emit Dict_begin,
             emit (Dict_item ''aupclobber''),
             emit (Value_uint (el_aupclobbers st)),
             emit (Dict_item ''aueunknown''),
             emit (Value_uint (el_aueunknowns st)),
             emit (Dict_item ''failedsyscall''),
             emit (Value_uint (el_failedsyscalls st)),
             emit (Dict_item ''radar38845422''),
             emit (Value_uint (el_radar38845422 st)),
             emit (Dict_item ''radar38845422_fatal''),
             emit (Value_uint (el_radar38845422_fatal st)),
             emit (Dict_item ''radar38845784''),
             emit (Value_uint (el_radar38845784 st)),
             emit (Dict_item ''radar39267328''),
             emit (Value_uint (el_radar39267328 st)),
             emit (Dict_item ''radar39267328_fatal''),
             emit (Value_uint (el_radar39267328_fatal st)),
             emit (Dict_item ''radar39623812''),
             emit (Value_uint (el_radar39623812 st)),
             emit (Dict_item ''radar39623812_fatal''),
             emit (Value_uint (el_radar39623812_fatal st)),
             emit (Dict_item ''radar42770257''),
             emit (Value_uint (el_radar42770257 st)),
             emit (Dict_item ''radar42770257_fatal''),
             emit (Value_uint (el_radar42770257_fatal st)),
             emit (Dict_item ''radar42783724''),
             emit (Value_uint (el_radar42783724 st)),
             emit (Dict_item ''radar42783724_fatal''),
             emit (Value_uint (el_radar42783724_fatal st)),
             emit (Dict_item ''radar42784847''),
             emit (Value_uint (el_radar42784847 st)),
             emit (Dict_item ''radar42784847_fatal''),
             emit (Value_uint (el_radar42784847_fatal st)),
             emit (Dict_item ''radar42946744''),
             emit (Value_uint (el_radar42946744 st)),
             emit (Dict_item ''radar42946744_fatal''),
             emit (Value_uint (el_radar42946744_fatal st)),
             emit (Dict_item ''radar43151662''),
             emit (Value_uint (el_radar43151662 st)),
             emit (Dict_item ''radar43151662_fatal''),
             emit (Value_uint (el_radar43151662_fatal st)),
             emit (Dict_item ''missingtoken''),
             emit (Value_uint (el_missingtoken st)),
             emit (Dict_item ''oom''),
             emit (Value_uint (el_ooms st)),
             emit Dict_end,
             emit (Dict_item ''procmon''),
             emit Dict_begin,
             emit (Dict_item ''actprocs''),
             emit (Value_uint (procmon_stat.procs (pm st))),
             emit (Dict_item ''actexecimages''),
             emit (Value_uint (procmon_stat.images (pm st))),
             emit (Dict_item ''liveacq''),
             emit (Value_uint (procmon_stat.liveacq (pm st))),
             emit (Dict_item ''miss''),
             emit Dict_begin,
             emit (Dict_item ''bypid''),
             emit (Value_uint (procmon_stat.miss_bypid (pm st))),
             emit (Dict_item ''forksubj''),
             emit (Value_uint (procmon_stat.miss_forksubj (pm st))),
             emit (Dict_item ''execsubj''),
             emit (Value_uint (procmon_stat.miss_execsubj (pm st))),
             emit (Dict_item ''execinterp''),
             emit (Value_uint (procmon_stat.miss_execinterp (pm st))),
             emit (Dict_item ''chdirsubj''),
             emit (Value_uint (procmon_stat.miss_chdirsubj (pm st))),
             emit (Dict_item ''getcwd''),
             emit (Value_uint (procmon_stat.miss_getcwd (pm st))),
             emit Dict_end,
             emit (Dict_item ''oom''),
             emit (Value_uint (procmon_stat.ooms (pm st))),
             emit Dict_end,
             emit (Dict_item ''hackmon''),
             emit Dict_begin,
             emit (Dict_item ''recvd''),
             emit (Value_uint (hackmon_stat.recvd (hm st))),
             emit (Dict_item ''procd''),
             emit (Value_uint (hackmon_stat.procd (hm st))),
             emit (Dict_item ''oom''),
             emit (Value_uint (hackmon_stat.ooms (hm st))),
             emit Dict_end,
             emit (Dict_item ''filemon''),
             emit Dict_begin,
             emit (Dict_item ''recvd''),
             emit (Value_uint (filemon_stat.recvd (fm st))),
             emit (Dict_item ''procd''),
             emit (Value_uint (filemon_stat.procd (fm st))),
             emit (Dict_item ''lpmiss''),
             emit (Value_uint (filemon_stat.lpmiss (fm st))),
             emit (Dict_item ''oom''),
             emit (Value_uint (filemon_stat.ooms (fm st))),
             emit Dict_end,
             emit (Dict_item ''sockmon''),
             emit Dict_begin,
             emit (Dict_item ''recvd''),
             emit (Value_uint (sockmon_stat.recvd (sm st))),
             emit (Dict_item ''procd''),
             emit (Value_uint (sockmon_stat.procd (sm st))),
             emit (Dict_item ''oom''),
             emit (Value_uint (sockmon_stat.ooms (sm st))),
             emit Dict_end,
             emit (Dict_item ''kext_cdevq''),
             emit Dict_begin,
             emit (Dict_item ''buckets''),
             emit (Value_uint (kext_stat.cdev_qsize (ke st))),
             emit (Dict_item ''visitors''),
             emit (Value_uint (kext_stat.kauth_visitors (ke st))),
             emit (Dict_item ''timeout''),
             emit (Value_uint (kext_stat.kauth_timeouts (ke st))),
             emit (Dict_item ''error''),
             emit (Value_uint (kext_stat.kauth_errors (ke st))),
             emit (Dict_item ''defer''),
             emit (Value_uint (kext_stat.kauth_defers (ke st))),
             emit (Dict_item ''deny''),
             emit (Value_uint (kext_stat.kauth_denies (ke st))),
             emit Dict_end,
             emit (Dict_item ''prep_queue''),
             emit Dict_begin,
             emit (Dict_item ''buckets''),
             emit (Value_uint (procmon_stat.pqsize (pm st))),
             emit (Dict_item ''lookup''),
             emit (Value_uint (procmon_stat.pqlookup (pm st))),
             emit (Dict_item ''miss''),
             emit (Value_uint (procmon_stat.pqmiss (pm st))),
             emit (Dict_item ''drop''),
             emit (Value_uint (procmon_stat.pqdrop (pm st))),
             emit (Dict_item ''bktskip''),
             emit (Value_uint (procmon_stat.pqskip (pm st))),
             emit Dict_end,
             emit (Dict_item ''aupi_cdevq''),
             emit Dict_begin,
             emit (Dict_item ''buckets''),
             emit (Value_uint (aupi_stat.qlen (ap st))),
             emit (Dict_item ''bucketmax''),
             emit (Value_uint (aupi_stat.qlimit (ap st))),
             emit (Dict_item ''insert''),
             emit (Value_uint (aupi_stat.inserts (ap st))),
             emit (Dict_item ''read''),
             emit (Value_uint (aupi_stat.reads (ap st))),
             emit (Dict_item ''drop''),
             emit (Value_uint (aupi_stat.drops (ap st))),
             emit Dict_end,
             emit (Dict_item ''work_queue''),
             emit Dict_begin,
             emit (Dict_item ''buckets''),
             emit (Value_uint (work_queue_stat.qsize (wq st))),
             emit Dict_end,
             emit (Dict_item ''log_queue''),
             emit Dict_begin,
             emit (Dict_item ''buckets''),
             emit (Value_uint (log_queue_stat.qsize (lq st))),
             emit (Dict_item ''events''),
             emit List_begin,
             counts_loop (counts (lq st)),
             emit List_end,
             emit (Dict_item ''errors''),
             emit (Value_uint (log_queue_stat.errors (lq st))),
             emit Dict_end,
             emit (Dict_item ''hash_cache''),
             emit Dict_begin,
             emit (Dict_item ''buckets''),
             emit (Value_uint (cache_stat.used (ch st))),
             emit (Dict_item ''bucketmax''),
             emit (Value_uint (cache_stat.cache_size (ch st))),
             emit (Dict_item ''put''),
             emit (Value_uint (cache_stat.puts (ch st))),
             emit (Dict_item ''get''),
             emit (Value_uint (cache_stat.gets (ch st))),
             emit (Dict_item ''hit''),
             emit (Value_uint (cache_stat.hits (ch st))),
             emit (Dict_item ''miss''),
             emit (Value_uint (cache_stat.misses (ch st))),
             emit (Dict_item ''inv''),
             emit (Value_uint (cache_stat.invalids (ch st))),
             emit Dict_end,
             emit (Dict_item ''csig_cache''),
             emit Dict_begin,
             emit (Dict_item ''buckets''),
             emit (Value_uint (cache_stat.used (cc st))),
             emit (Dict_item ''bucketmax''),
             emit (Value_uint (cache_stat.cache_size (cc st))),
             emit (Dict_item ''put''),
             emit (Value_uint (cache_stat.puts (cc st))),
             emit (Dict_item ''get''),
             emit (Value_uint (cache_stat.gets (cc st))),
             emit (Dict_item ''hit''),
             emit (Value_uint (cache_stat.hits (cc st))),
             emit (Dict_item ''miss''),
             emit (Value_uint (cache_stat.misses (cc st))),
             emit (Dict_item ''inv''),
             emit (Value_uint (cache_stat.invalids (cc st))),
             emit Dict_end,
             emit (Dict_item ''ldpl_cache''),
             emit Dict_begin,
             emit (Dict_item ''buckets''),
             emit (Value_uint (cache_stat.used (cl st))),
             emit (Dict_item ''bucketmax''),
             emit (Value_uint (cache_stat.cache_size (cl st))),
             emit (Dict_item ''put''),
             emit (Value_uint (cache_stat.puts (cl st))),
             emit (Dict_item ''get''),
             emit (Value_uint (cache_stat.gets (cl st))),
             emit (Dict_item ''hit''),
             emit (Value_uint (cache_stat.hits (cl st))),
             emit (Dict_item ''miss''),
             emit (Value_uint (cache_stat.misses (cl st))),
             emit (Dict_item ''inv''),
             emit (Value_uint (cache_stat.invalids (cl st))),
             emit Dict_end,
             logevt_footer])"

definition logevt_image_exec_image :: "extern \<Rightarrow> config \<Rightarrow> image_exec \<Rightarrow> unit run" where
  "logevt_image_exec_image x c ie =
     seq [emit Dict_begin,
          emit (Dict_item ''path''),
          emit (Value_string (image_exec.path ie)),
          if image_exec.flags ie AND (EIFLAG_STAT x OR EIFLAG_ATTR x) \<noteq> 0
          then seq [if \<not> omit_mode c
                    then seq [emit (Dict_item ''mode''),
                              emit (Value_uint_oct (mode (stat ie)))]
                    else skip,
                    logevt_uid x c (uid (stat ie)) ''uid'' ''uname'',
                    if \<not> omit_groups c
                    then logevt_gid x c (gid (stat ie)) ''gid'' ''gname''
                    else skip]
          else skip,
          if image_exec.flags ie AND EIFLAG_STAT x \<noteq> 0
          then seq [if \<not> omit_size c
                    then seq [emit (Dict_item ''size''),
                              emit (Value_uint (st_size (stat ie)))]
                    else skip,
                    if \<not> omit_mtime c
                    then seq [emit (Dict_item ''mtime''),
                              emit (Value_timespec (mtime (stat ie)))]
                    else skip,
                    if \<not> omit_ctime c
                    then seq [emit (Dict_item ''ctime''),
                              emit (Value_timespec (ctime (stat ie)))]
                    else skip,
                    if \<not> omit_btime c
                    then seq [emit (Dict_item ''btime''),
                              emit (Value_timespec (btime (stat ie)))]
                    else skip]
          else skip,
          if image_exec.flags ie AND EIFLAG_HASHES x \<noteq> 0 \<and>
             (\<not> omit_apple_hashes c \<or>
              (case image_exec.codesign ie of
                 None \<Rightarrow> True
               | Some cs \<Rightarrow> \<not> codesign_is_apple_system x cs))
          then seq [if hflags c AND HASH_MD5 x \<noteq> 0
                    then seq [emit (Dict_item ''md5''),
                              emit (Value_buf_hex (md5 (hashes ie)) (MD5SZ x))]
                    else skip,
                    if hflags c AND HASH_SHA1 x \<noteq> 0
                    then seq [emit (Dict_item ''sha1''),
                              emit (Value_buf_hex (sha1 (hashes ie)) (SHA1SZ x))]
                    else skip,
                    if hflags c AND HASH_SHA256 x \<noteq> 0
                    then seq [emit (Dict_item ''sha256''),
                              emit (Value_buf_hex (sha256 (hashes ie)) (SHA256SZ x))]
                    else skip]
          else skip,
          case image_exec.codesign ie of
            None \<Rightarrow> skip
          | Some cs \<Rightarrow>
              seq [emit (Dict_item ''signature''),
                   emit (Value_string (codesign_result_s x cs)),
                   if origin cs \<noteq> 0
                   then seq [emit (Dict_item ''origin''),
                             emit (Value_string (codesign_origin_s x cs))]
                   else skip,
                   case cdhash cs of
                     None \<Rightarrow> skip
                   | Some h \<Rightarrow>
                       seq [emit (Dict_item ''cdhash''),
                            emit (Value_buf_hex h (cdhashsz cs))],
                   case ident cs of
                     None \<Rightarrow> skip
                   | Some s \<Rightarrow> seq [emit (Dict_item ''ident''), emit (Value_string s)],
                   case teamid cs of
                     None \<Rightarrow> skip
                   | Some s \<Rightarrow> seq [emit (Dict_item ''teamid''), emit (Value_string s)],
                   case certcn cs of
                     None \<Rightarrow> skip
                   | Some s \<Rightarrow> seq [emit (Dict_item ''certcn''), emit (Value_string s)]],
          emit Dict_end]"

definition logevt_process_image_exec :: "extern \<Rightarrow> config \<Rightarrow> image_exec \<Rightarrow> unit run" where
  "logevt_process_image_exec x c ie =
     seq [emit Dict_begin,
          if \<not> (image_exec.flags ie AND EIFLAG_PIDLOOKUP x \<noteq> 0)
          then seq [emit (Dict_item ''exec_time''),
                    emit (Value_timespec (tv (image_exec.hdr ie)))]
          else skip,
          emit (Dict_item ''exec_pid''),
          emit (Value_int (image_exec.pid ie)),
          emit (Dict_item ''path''),
          emit (Value_string (image_exec.path ie)),
          if image_exec.flags ie AND EIFLAG_HASHES x \<noteq> 0 \<and>
             (\<not> omit_apple_hashes c \<or>
              (case image_exec.codesign ie of
                 None \<Rightarrow> True
               | Some cs \<Rightarrow> \<not> codesign_is_apple_system x cs))
          then seq [if hflags c AND HASH_MD5 x \<noteq> 0
                    then seq [emit (Dict_item ''md5''),
                              emit (Value_buf_hex (md5 (hashes ie)) (MD5SZ x))]
                    else skip,
                    if hflags c AND HASH_SHA1 x \<noteq> 0
                    then seq [emit (Dict_item ''sha1''),
                              emit (Value_buf_hex (sha1 (hashes ie)) (SHA1SZ x))]
                    else skip,
                    if hflags c AND HASH_SHA256 x \<noteq> 0
                    then seq [emit (Dict_item ''sha256''),
                              emit (Value_buf_hex (sha256 (hashes ie)) (SHA256SZ x))]
                    else skip]
          else skip,
          case image_exec.codesign ie of
            None \<Rightarrow> skip
          | Some cs \<Rightarrow>
              if codesign_is_good x cs
              then seq [case ident cs of
                          None \<Rightarrow> skip
                        | Some s \<Rightarrow> seq [emit (Dict_item ''ident''), emit (Value_string s)],
                        case teamid cs of
                          None \<Rightarrow> skip
                        | Some s \<Rightarrow> seq [emit (Dict_item ''teamid''), emit (Value_string s)]]
              else skip,
          case script ie of
            None \<Rightarrow> skip
          | Some scr \<Rightarrow>
              seq [emit (Dict_item ''script''),
                   emit Dict_begin,
                   emit (Dict_item ''path''),
                   emit (Value_string (image_exec.path scr)),
                   assert (image_exec.codesign scr = None),
                   if image_exec.flags scr AND EIFLAG_HASHES x \<noteq> 0
                   then seq [if hflags c AND HASH_MD5 x \<noteq> 0
                             then seq [emit (Dict_item ''md5''),
                                       emit (Value_buf_hex (md5 (hashes scr)) (MD5SZ x))]
                             else skip,
                             if hflags c AND HASH_SHA1 x \<noteq> 0
                             then seq [emit (Dict_item ''sha1''),
                                       emit (Value_buf_hex (sha1 (hashes scr)) (SHA1SZ x))]
                             else skip,
                             if hflags c AND HASH_SHA256 x \<noteq> 0
                             then seq [emit (Dict_item ''sha256''),
                                       emit (Value_buf_hex (sha256 (hashes scr)) (SHA256SZ x))]
                             else skip]
                   else skip,
                   emit Dict_end],
          emit Dict_end]"

text \<open>
  The loop of \<^verbatim>\<open>logevt_process_image_exec_ancestors\<close>, from the node \<open>pie\<close> with the
  counter at \<open>depth\<close>. The counter is a \<^verbatim>\<open>size_t\<close> that stops at
  \<^verbatim>\<open>config->ancestors\<close>, so it does not wrap.
\<close>

lemma size_prev: "size_option size (prev pie) < size pie"
  by (cases pie) simp

function ancestors_loop :: "extern \<Rightarrow> config \<Rightarrow> nat \<Rightarrow> image_exec option \<Rightarrow> unit run" where
  "ancestors_loop x c depth None = skip"
| "ancestors_loop x c depth (Some pie) =
     (if 0 < image_exec.pid pie
      then if depth = ancestors c then skip
           else seq [emit (List_item ''ancestor''),
                     logevt_process_image_exec x c pie,
                     ancestors_loop x c (depth + 1) (prev pie)]
      else skip)"
  by pat_completeness auto
termination
  by (relation "measure (\<lambda>(x, c, depth, pie). size_option size pie)")
    (simp_all add: size_prev less_Suc_eq)

definition logevt_process_image_exec_ancestors ::
  "extern \<Rightarrow> config \<Rightarrow> image_exec option \<Rightarrow> unit run" where
  "logevt_process_image_exec_ancestors x c ie =
     seq [emit List_begin,
          ancestors_loop x c 0 ie,
          emit List_end]"

text \<open>
  \<^verbatim>\<open>process\<close> and \<^verbatim>\<open>ie\<close> are pointers that may be NULL. The comment in the source: if
  only the pid is known, \<^verbatim>\<open>processpid\<close> is not 0 and \<^verbatim>\<open>process\<close> must be ignored even if
  it is not NULL.
\<close>

definition logevt_process ::
  "extern \<Rightarrow> config \<Rightarrow> audit_proc option \<Rightarrow> int \<Rightarrow> image_exec option \<Rightarrow> unit run" where
  "logevt_process x c process processpid ie =
     seq [emit Dict_begin,
          case ie of
            None \<Rightarrow> skip
          | Some i \<Rightarrow>
              if image_exec.flags i AND EIFLAG_PIDLOOKUP x \<noteq> 0
              then seq [emit (Dict_item ''reconstructed''), emit (Value_bool True)]
              else skip,
          if 0 < processpid
          then seq [emit (Dict_item ''pid''), emit (Value_int processpid)]
          else case process of
            None \<Rightarrow> skip
          | Some p \<Rightarrow>
              seq [emit (Dict_item ''pid''),
                   emit (Value_int (audit_proc.pid p)),
                   logevt_uid x c (auid p) ''auid'' ''auname'',
                   logevt_uid x c (euid p) ''euid'' ''euname'',
                   if \<not> omit_groups c
                   then logevt_gid x c (egid p) ''egid'' ''egname''
                   else skip,
                   logevt_uid x c (ruid p) ''ruid'' ''runame'',
                   if \<not> omit_groups c
                   then logevt_gid x c (rgid p) ''rgid'' ''rgname''
                   else skip,
                   if \<not> omit_sid c
                   then seq [emit (Dict_item ''sid''), emit (Value_uint (sid p))]
                   else skip,
                   if dev p \<noteq> - 1
                   then seq [emit (Dict_item ''dev''), emit (Value_ttydev (dev p))]
                   else skip,
                   if \<not> ipaddr_is_empty x (addr p)
                   then seq [emit (Dict_item ''addr''),
                             emit (Value_string (ipaddrtoa x (addr p)))]
                   else skip],
          case ie of
            None \<Rightarrow> skip
          | Some i \<Rightarrow>
              seq [if 0 < tv_sec (fork_tv i)
                   then seq [emit (Dict_item ''fork_time''),
                             emit (Value_timespec (fork_tv i))]
                   else skip,
                   emit (Dict_item ''image''),
                   logevt_process_image_exec x c i,
                   if 0 < ancestors c
                   then seq [emit (Dict_item ''ancestors''),
                             logevt_process_image_exec_ancestors x c (prev i)]
                   else skip],
          emit Dict_end]"

text \<open>The serializers of the observed events.\<close>

fun logevt_image_exec :: "extern \<Rightarrow> config \<Rightarrow> image_exec option \<Rightarrow> int run" where
  "logevt_image_exec x c None = returning 0 (logevt_header x None)"
| "logevt_image_exec x c (Some ie) =
     returning 0
       (seq [logevt_header x (Some (image_exec.hdr ie)),
             if image_exec.flags ie AND EIFLAG_PIDLOOKUP x \<noteq> 0
             then seq [emit (Dict_item ''reconstructed''), emit (Value_bool True)]
             else skip,
             case argv ie of
               None \<Rightarrow> skip
             | Some av \<Rightarrow>
                 seq [emit (Dict_item ''argv''),
                      emit List_begin,
                      strv_loop ''arg'' av,
                      emit List_end],
             case envv ie of
               None \<Rightarrow> skip
             | Some ev \<Rightarrow>
                 seq [emit (Dict_item ''env''),
                      emit List_begin,
                      strv_loop ''var'' ev,
                      emit List_end],
             case cwd ie of
               None \<Rightarrow> skip
             | Some d \<Rightarrow> seq [emit (Dict_item ''cwd''), emit (Value_string d)],
             emit (Dict_item ''image''),
             logevt_image_exec_image x c ie,
             case script ie of
               None \<Rightarrow> skip
             | Some scr \<Rightarrow>
                 seq [emit (Dict_item ''script''),
                      logevt_image_exec_image x c scr],
             emit (Dict_item ''subject''),
             logevt_process x c
               (if image_exec.flags ie AND EIFLAG_PIDLOOKUP x \<noteq> 0
                then None else Some (image_exec.subject ie))
               0
               (prev ie),
             logevt_footer])"

fun logevt_process_access :: "extern \<Rightarrow> config \<Rightarrow> process_access option \<Rightarrow> int run" where
  "logevt_process_access x c None = returning 0 (logevt_header x None)"
| "logevt_process_access x c (Some pa) =
     returning 0
       (seq [logevt_header x (Some (event.hdr pa)),
             emit (Dict_item ''method''),
             emit (Value_string (pa_method pa)),
             emit (Dict_item ''object''),
             logevt_process x c
               (Some (object pa)) (objectpid pa) (object_image_exec pa),
             emit (Dict_item ''subject''),
             logevt_process x c
               (Some (process_access.subject pa)) 0 (process_access.subject_image_exec pa),
             logevt_footer])"

fun logevt_launchd_add :: "extern \<Rightarrow> config \<Rightarrow> launchd_add option \<Rightarrow> int run" where
  "logevt_launchd_add x c None = returning 0 (logevt_header x None)"
| "logevt_launchd_add x c (Some ldadd) =
     returning 0
       (seq [logevt_header x (Some (event.hdr ldadd)),
             emit (Dict_item ''plist''),
             emit Dict_begin,
             emit (Dict_item ''path''),
             emit (Value_string (plist_path ldadd)),
             emit Dict_end,
             emit (Dict_item ''program''),
             emit Dict_begin,
             case program_rpath ldadd of
               None \<Rightarrow> skip
             | Some s \<Rightarrow> seq [emit (Dict_item ''rpath''), emit (Value_string s)],
             case program_path ldadd of
               None \<Rightarrow> skip
             | Some s \<Rightarrow> seq [emit (Dict_item ''path''), emit (Value_string s)],
             case program_argv ldadd of
               None \<Rightarrow> skip
             | Some av \<Rightarrow>
                 seq [emit (Dict_item ''argv''),
                      emit List_begin,
                      strv_loop ''arg'' av,
                      emit List_end],
             emit Dict_end,
             if \<not> (launchd_add.flags ldadd AND LAFLAG_NOSUBJECT x \<noteq> 0)
             then seq [emit (Dict_item ''subject''),
                       logevt_process x c
                         (Some (launchd_add.subject ldadd)) 0
                         (launchd_add.subject_image_exec ldadd)]
             else skip,
             logevt_footer])"

fun logevt_socket_listen :: "extern \<Rightarrow> config \<Rightarrow> socket_op option \<Rightarrow> int run" where
  "logevt_socket_listen x c None = returning 0 (logevt_header x None)"
| "logevt_socket_listen x c (Some so) =
     returning 0
       (seq [logevt_header x (Some (event.hdr so)),
             if protocol so \<noteq> 0
             then seq [emit (Dict_item ''proto''),
                       emit (Value_string (protocoltoa x (protocol so)))]
             else skip,
             if \<not> ipaddr_is_empty x (sock_addr so)
             then seq [emit (Dict_item ''sockaddr''),
                       emit (Value_string (ipaddrtoa x (sock_addr so))),
                       emit (Dict_item ''sockport''),
                       emit (Value_uint (sock_port so))]
             else skip,
             emit (Dict_item ''subject''),
             logevt_process x c
               (Some (socket_op.subject so)) 0 (socket_op.subject_image_exec so),
             logevt_footer])"

fun logevt_socket_accept :: "extern \<Rightarrow> config \<Rightarrow> socket_op option \<Rightarrow> int run" where
  "logevt_socket_accept x c None = returning 0 (logevt_header x None)"
| "logevt_socket_accept x c (Some so) =
     returning 0
       (seq [logevt_header x (Some (event.hdr so)),
             if protocol so \<noteq> 0
             then seq [emit (Dict_item ''proto''),
                       emit (Value_string (protocoltoa x (protocol so)))]
             else skip,
             if \<not> ipaddr_is_empty x (sock_addr so)
             then seq [emit (Dict_item ''sockaddr''),
                       emit (Value_string (ipaddrtoa x (sock_addr so))),
                       emit (Dict_item ''sockport''),
                       emit (Value_uint (sock_port so))]
             else skip,
             if \<not> ipaddr_is_empty x (peer_addr so)
             then seq [emit (Dict_item ''peeraddr''),
                       emit (Value_string (ipaddrtoa x (peer_addr so))),
                       emit (Dict_item ''peerport''),
                       emit (Value_uint (peer_port so))]
             else skip,
             emit (Dict_item ''subject''),
             logevt_process x c
               (Some (socket_op.subject so)) 0 (socket_op.subject_image_exec so),
             logevt_footer])"

fun logevt_socket_connect :: "extern \<Rightarrow> config \<Rightarrow> socket_op option \<Rightarrow> int run" where
  "logevt_socket_connect x c None = returning 0 (logevt_header x None)"
| "logevt_socket_connect x c (Some so) =
     returning 0
       (seq [logevt_header x (Some (event.hdr so)),
             if protocol so \<noteq> 0
             then seq [emit (Dict_item ''proto''),
                       emit (Value_string (protocoltoa x (protocol so)))]
             else skip,
             if \<not> ipaddr_is_empty x (sock_addr so)
             then seq [emit (Dict_item ''sockaddr''),
                       emit (Value_string (ipaddrtoa x (sock_addr so))),
                       emit (Dict_item ''sockport''),
                       emit (Value_uint (sock_port so))]
             else skip,
             if \<not> ipaddr_is_empty x (peer_addr so)
             then seq [emit (Dict_item ''peeraddr''),
                       emit (Value_string (ipaddrtoa x (peer_addr so))),
                       emit (Dict_item ''peerport''),
                       emit (Value_uint (peer_port so))]
             else skip,
             emit (Dict_item ''subject''),
             logevt_process x c
               (Some (socket_op.subject so)) 0 (socket_op.subject_image_exec so),
             logevt_footer])"

subsection \<open>Reading a sequence of calls\<close>

text \<open>The libc lookups among the calls; the others are calls of the log format.\<close>

fun is_lookup :: "call \<Rightarrow> bool" where
  "is_lookup (Getpwuid u) = True"
| "is_lookup (Getgrgid g) = True"
| "is_lookup k = False"

text \<open>
  The nesting of dictionaries and lists: the balance of the blocks opened and closed by a
  sequence of calls, and the keys emitted at nesting depth 1 when the sequence starts at
  depth \<open>d\<close>. The keys of a dictionary are \<open>keys_at 0\<close> of the calls that start with
  its \<^verbatim>\<open>dict_begin\<close>.
\<close>

fun nesting :: "call list \<Rightarrow> int" where
  "nesting [] = 0"
| "nesting (Dict_begin # tr) = nesting tr + 1"
| "nesting (List_begin # tr) = nesting tr + 1"
| "nesting (Dict_end # tr) = nesting tr - 1"
| "nesting (List_end # tr) = nesting tr - 1"
| "nesting (k # tr) = nesting tr"

fun keys_at :: "int \<Rightarrow> call list \<Rightarrow> string list" where
  "keys_at d [] = []"
| "keys_at d (Dict_begin # tr) = keys_at (d + 1) tr"
| "keys_at d (List_begin # tr) = keys_at (d + 1) tr"
| "keys_at d (Dict_end # tr) = keys_at (d - 1) tr"
| "keys_at d (List_end # tr) = keys_at (d - 1) tr"
| "keys_at d (Dict_item k # tr) = (if d = 1 then k # keys_at d tr else keys_at d tr)"
| "keys_at d (k # tr) = keys_at d tr"

text \<open>All keys, all list labels and all record marks of a sequence of calls, in order.\<close>

fun dict_keys :: "call list \<Rightarrow> string list" where
  "dict_keys [] = []"
| "dict_keys (Dict_item k # tr) = k # dict_keys tr"
| "dict_keys (k # tr) = dict_keys tr"

fun list_items :: "call list \<Rightarrow> string list" where
  "list_items [] = []"
| "list_items (List_item l # tr) = l # list_items tr"
| "list_items (k # tr) = list_items tr"

fun records :: "call list \<Rightarrow> call list" where
  "records [] = []"
| "records (Record_begin # tr) = Record_begin # records tr"
| "records (Record_end # tr) = Record_end # records tr"
| "records (k # tr) = records tr"

text \<open>
  The envelope of a record: one \<^verbatim>\<open>record_begin\<close> and one \<^verbatim>\<open>record_end\<close>, which are the
  first and the last call, and \<open>version\<close>, \<open>time\<close>, \<open>eventcode\<close> as the first three keys.
\<close>

definition envelope :: "call list \<Rightarrow> bool" where
  "envelope tr \<longleftrightarrow>
     records tr = [Record_begin, Record_end] \<and>
     hd tr = Record_begin \<and> last tr = Record_end \<and>
     take 3 (dict_keys tr) = [''version'', ''time'', ''eventcode'']"

text \<open>The keys that \<^verbatim>\<open>logevt_uid\<close> and \<^verbatim>\<open>logevt_gid\<close> emit for an id.\<close>

definition id_keys ::
  "config \<Rightarrow> (32 word \<Rightarrow> string option) \<Rightarrow> 32 word \<Rightarrow> string \<Rightarrow> string \<Rightarrow> string list" where
  "id_keys c lookup i il nl =
     il # (if i \<noteq> - 1 \<and> resolve_users_groups c \<and> lookup i \<noteq> None then [nl] else [])"

text \<open>
  The chain of predecessors from a node on, nearest first, and what the assertion of
  \<^verbatim>\<open>logevt_process_image_exec\<close> demands of every node of it: a script has no code
  signature.
\<close>

function chain :: "image_exec option \<Rightarrow> image_exec list" where
  "chain None = []"
| "chain (Some ie) = ie # chain (prev ie)"
  by pat_completeness auto
termination
  by (relation "measure (size_option size)") (simp_all add: size_prev less_Suc_eq)

function scripts_unsigned :: "image_exec option \<Rightarrow> bool" where
  "scripts_unsigned None = True"
| "scripts_unsigned (Some ie) =
     ((case script ie of None \<Rightarrow> True | Some scr \<Rightarrow> image_exec.codesign scr = None) \<and>
      scripts_unsigned (prev ie))"
  by pat_completeness auto
termination
  by (relation "measure (size_option size)") (simp_all add: size_prev less_Suc_eq)

text \<open>
  The keys of the hashes that the configuration asks for, an optional key, the keys of the
  code signature, and whether an image carries the signature of a platform binary.
\<close>

definition hash_keys :: "extern \<Rightarrow> config \<Rightarrow> string list" where
  "hash_keys x c =
     (if hflags c AND HASH_MD5 x \<noteq> 0 then [''md5''] else []) @
     (if hflags c AND HASH_SHA1 x \<noteq> 0 then [''sha1''] else []) @
     (if hflags c AND HASH_SHA256 x \<noteq> 0 then [''sha256''] else [])"

definition present :: "'a option \<Rightarrow> string \<Rightarrow> string list" where
  "present v k = (case v of None \<Rightarrow> [] | Some y \<Rightarrow> [k])"

definition signature_keys :: "string list" where
  "signature_keys = [''signature'', ''origin'', ''cdhash'', ''ident'', ''teamid'', ''certcn'']"

definition apple_signed :: "extern \<Rightarrow> image_exec \<Rightarrow> bool" where
  "apple_signed x ie =
     (case image_exec.codesign ie of
        None \<Rightarrow> False
      | Some cs \<Rightarrow> codesign_is_apple_system x cs)"

text \<open>
  \<open>removed fs off on\<close>: the calls \<open>on\<close> are the calls \<open>off\<close> with the segments \<open>fs\<close> cut
  out, in this order, and nothing else changed.
\<close>

primrec removed :: "call list list \<Rightarrow> call list \<Rightarrow> call list \<Rightarrow> bool" where
  "removed [] off on \<longleftrightarrow> off = on"
| "removed (f # fs) off on \<longleftrightarrow>
     (\<exists>pre post post'. off = pre @ f @ post \<and> on = pre @ post' \<and> removed fs post post')"


text \<open>The keys that the process-context rendering of an image can emit.\<close>

definition image_context_keys :: "string list" where
  "image_context_keys =
     [''exec_time'', ''exec_pid'', ''path'', ''md5'', ''sha1'', ''sha256'', ''ident'',
      ''teamid'', ''script'']"


text \<open>
  The keys of the credentials of a process, the key that marks a reconstructed image, and
  the keys that \<^verbatim>\<open>logevt_process\<close> emits for the attached image; the key \<open>ancestors\<close>
  is not reached when the assertion of the image rendering fails.
\<close>

definition credential_keys :: "string list" where
  "credential_keys =
     [''auid'', ''auname'', ''euid'', ''euname'', ''egid'', ''egname'', ''ruid'', ''runame'',
      ''rgid'', ''rgname'', ''sid'', ''dev'', ''addr'']"

definition reconstructed_keys :: "extern \<Rightarrow> image_exec option \<Rightarrow> string list" where
  "reconstructed_keys x ie =
     (case ie of
        None \<Rightarrow> []
      | Some i \<Rightarrow>
          if image_exec.flags i AND EIFLAG_PIDLOOKUP x \<noteq> 0 then [''reconstructed''] else [])"

definition attached_keys :: "extern \<Rightarrow> config \<Rightarrow> image_exec option \<Rightarrow> string list" where
  "attached_keys x c ie =
     (case ie of
        None \<Rightarrow> []
      | Some i \<Rightarrow>
          (if 0 < tv_sec (fork_tv i) then [''fork_time''] else []) @
          ''image'' #
          (if aborted (logevt_process_image_exec x c i) then []
           else if 0 < ancestors c then [''ancestors''] else []))"

subsection \<open>A serializer on a sink\<close>

text \<open>
  The log format behind \<^verbatim>\<open>fmt\<close> is not part of logevt.c: here it is any function that
  takes the state of the stream and a call to the new state and to whether the write
  succeeded. \<open>drive\<close> feeds a list of calls to such a sink, each call once and in order,
  and gives the state that is left and the outcomes of the writes.
\<close>

fun drive :: "('s \<Rightarrow> call \<Rightarrow> 's \<times> bool) \<Rightarrow> 's \<Rightarrow> call list \<Rightarrow> 's \<times> bool list" where
  "drive w s [] = (s, [])"
| "drive w s (k # ks) =
     (case w s k of
        (s', ok) \<Rightarrow> (case drive w s' ks of (s'', oks) \<Rightarrow> (s'', ok # oks)))"

type_synonym 's sink = "'s \<Rightarrow> call \<Rightarrow> 's \<times> bool"

text \<open>
  A sink that keeps, in order, every call it is given; whether the call at position \<open>n\<close>
  succeeds is \<open>ok n\<close>.
\<close>

definition recording :: "(nat \<Rightarrow> bool) \<Rightarrow> call list sink" where
  "recording ok log k = (log @ [k], ok (length log))"

subsection \<open>The functions of logevt.c on a sink\<close>

text \<open>
  The functions of logevt.c once more, this time executed on a sink: a function takes the
  state of the stream to the state it leaves and to its return value, \<open>None\<close> when an
  assertion fails. A call of the log format is a statement of its own in logevt.c, as in
  \<^verbatim>\<open>fmt->record_begin(f);\<close> and its result is read nowhere: \<open>put\<close> hands the call to
  the sink and drops the outcome. \<open>pass\<close> leaves the stream as it is, \<open>check\<close> is
  \<^verbatim>\<open>assert\<close>, \<open>steps\<close> is a sequence of statements that stops at a failed assertion, and
  \<open>giving\<close> is the \<^verbatim>\<open>return\<close> that ends a function.
\<close>

type_synonym ('s, 'a) exec = "'s \<Rightarrow> 's \<times> 'a option"

definition put :: "'s sink \<Rightarrow> call \<Rightarrow> ('s, unit) exec" where
  "put w k s = (fst (w s k), Some ())"

definition pass :: "('s, unit) exec" where
  "pass s = (s, Some ())"

definition check :: "bool \<Rightarrow> ('s, unit) exec" where
  "check b s = (s, if b then Some () else None)"

fun steps :: "('s, unit) exec list \<Rightarrow> ('s, unit) exec" where
  "steps [] s = pass s"
| "steps (a # as) s =
     (case a s of
        (s', None) \<Rightarrow> (s', None)
      | (s', Some _) \<Rightarrow> steps as s')"

definition giving :: "'a \<Rightarrow> ('s, unit) exec \<Rightarrow> ('s, 'a) exec" where
  "giving v a s = (case a s of (s', None) \<Rightarrow> (s', None) | (s', Some _) \<Rightarrow> (s', Some v))"

text \<open>
  \<^verbatim>\<open>logevt_uid\<close> and \<^verbatim>\<open>logevt_gid\<close>: the lookup of the name reads the user database and leaves
  the stream as it is.
\<close>

definition logevt_uid_on ::
  "'s sink \<Rightarrow> extern \<Rightarrow> config \<Rightarrow> 32 word \<Rightarrow> string \<Rightarrow> string \<Rightarrow> ('s, unit) exec" where
  "logevt_uid_on w x c u idlabel namelabel =
     steps [put w (Dict_item idlabel),
          if u = - 1 then put w (Value_int (- 1))
          else steps [put w (Value_uint (unat u)),
                    if resolve_users_groups c
                    then steps [pass,
                              case getpwuid x u of
                                Some pw_name \<Rightarrow>
                                  steps [put w (Dict_item namelabel), put w (Value_string pw_name)]
                              | None \<Rightarrow> pass]
                    else pass]]"

definition logevt_gid_on ::
  "'s sink \<Rightarrow> extern \<Rightarrow> config \<Rightarrow> 32 word \<Rightarrow> string \<Rightarrow> string \<Rightarrow> ('s, unit) exec" where
  "logevt_gid_on w x c g idlabel namelabel =
     steps [put w (Dict_item idlabel),
          if g = - 1 then put w (Value_int (- 1))
          else steps [put w (Value_uint (unat g)),
                    if resolve_users_groups c
                    then steps [pass,
                              case getgrgid x g of
                                Some gr_name \<Rightarrow>
                                  steps [put w (Dict_item namelabel), put w (Value_string gr_name)]
                              | None \<Rightarrow> pass]
                    else pass]]"

text \<open>
  \<^verbatim>\<open>logevt_header\<close> and \<^verbatim>\<open>logevt_footer\<close>.
\<close>

definition logevt_header_on ::
  "'s sink \<Rightarrow> extern \<Rightarrow> logevt_header option \<Rightarrow> ('s, unit) exec" where
  "logevt_header_on w x h =
     (case h of
        None \<Rightarrow> check False
      | Some h' \<Rightarrow>
          steps [put w Record_begin,
               put w Dict_begin,
               put w (Dict_item ''version''),
               put w (Value_uint (LOGEVT_VERSION x)),
               put w (Dict_item ''time''),
               put w (Value_timespec (tv h')),
               put w (Dict_item ''eventcode''),
               put w (Value_uint (code h'))])"

definition logevt_footer_on ::
  "'s sink \<Rightarrow> ('s, unit) exec" where
  "logevt_footer_on w = steps [put w Dict_end, put w Record_end]"

text \<open>
  The loops over string vectors and over the event counters.
\<close>

fun strv_loop_on ::
  "'s sink \<Rightarrow> string \<Rightarrow> string list \<Rightarrow> ('s, unit) exec" where
  "strv_loop_on w label [] = pass"
| "strv_loop_on w label (v # vs) =
     steps [put w (List_item label), put w (Value_string v), strv_loop_on w label vs]"

fun counts_loop_on ::
  "'s sink \<Rightarrow> nat list \<Rightarrow> ('s, unit) exec" where
  "counts_loop_on w [] = pass"
| "counts_loop_on w (n # ns) =
     steps [put w (List_item ''event''), put w (Value_uint n), counts_loop_on w ns]"

text \<open>
  \<^verbatim>\<open>logevt_xnumon_ops\<close> and \<^verbatim>\<open>logevt_xnumon_stats\<close>. Each ends with \<^verbatim>\<open>return 0\<close>.
\<close>

fun logevt_xnumon_ops_on ::
  "'s sink \<Rightarrow> extern \<Rightarrow> config \<Rightarrow> xnumon_ops option \<Rightarrow> ('s, int) exec" where
  "logevt_xnumon_ops_on w x c None = giving 0 (logevt_header_on w x None)"
| "logevt_xnumon_ops_on w x c (Some ops) =
     giving 0
       (steps [logevt_header_on w x (Some (event.hdr ops)),
             put w (Dict_item ''op''),
             put w (Value_string (subtype ops)),
             put w (Dict_item ''build''),
             put w Dict_begin,
             put w (Dict_item ''version''),
             put w (Value_string (build_version x)),
             put w (Dict_item ''date''),
             put w (Value_string (build_date x)),
             put w (Dict_item ''info''),
             put w (Value_string (build_info x)),
             put w Dict_end,
             put w (Dict_item ''config''),
             put w Dict_begin,
             put w (Dict_item ''path''),
             put w (Value_string (config.path c)),
             put w (Dict_item ''id''),
             case cfg_id c of
               Some s \<Rightarrow> put w (Value_string s)
             | None \<Rightarrow> put w Value_null,
             put w (Dict_item ''launchd_mode''),
             put w (Value_bool (launchd_mode c)),
             put w (Dict_item ''debug''),
             put w (Value_bool (debug c)),
             put w (Dict_item ''events''),
             put w (Value_string (config_events_s x c)),
             put w (Dict_item ''stats_interval''),
             put w (Value_uint (stats_interval c)),
             put w (Dict_item ''kextlevel''),
             put w (Value_string (config_kextlevel_s x c)),
             put w (Dict_item ''hashes''),
             put w (Value_string (hashes_flags_s x (hflags c))),
             put w (Dict_item ''codesign''),
             put w (Value_bool (config.codesign c)),
             put w (Dict_item ''envlevel''),
             put w (Value_string (config_envlevel_s x c)),
             put w (Dict_item ''resolve_users_groups''),
             put w (Value_bool (resolve_users_groups c)),
             put w (Dict_item ''omit_mode''),
             put w (Value_bool (omit_mode c)),
             put w (Dict_item ''omit_size''),
             put w (Value_bool (omit_size c)),
             put w (Dict_item ''omit_mtime''),
             put w (Value_bool (omit_mtime c)),
             put w (Dict_item ''omit_ctime''),
             put w (Value_bool (omit_ctime c)),
             put w (Dict_item ''omit_btime''),
             put w (Value_bool (omit_btime c)),
             put w (Dict_item ''omit_sid''),
             put w (Value_bool (omit_sid c)),
             put w (Dict_item ''omit_groups''),
             put w (Value_bool (omit_groups c)),
             put w (Dict_item ''omit_apple_hashes''),
             put w (Value_bool (omit_apple_hashes c)),
             put w (Dict_item ''ancestors''),
             if ancestors c < SIZE_MAX x
             then put w (Value_uint (ancestors c))
             else put w (Value_string ''unlimited''),
             put w (Dict_item ''logdst''),
             put w (Value_string (logdst_s x c)),
             put w (Dict_item ''logfmt''),
             put w (Value_string (logfmt_s x c)),
             put w (Dict_item ''logoneline''),
             if logoneline c = - 1
             then put w Value_null
             else put w (Value_bool (logoneline c \<noteq> 0)),
             put w (Dict_item ''logfile''),
             case logfile c of
               Some s \<Rightarrow> put w (Value_string s)
             | None \<Rightarrow> put w Value_null,
             put w (Dict_item ''limit_nofile''),
             put w (Value_uint (limit_nofile c)),
             put w (Dict_item ''suppress_image_exec_at_start''),
             put w (Value_bool (suppress_image_exec_at_start c)),
             put w (Dict_item ''suppress_image_exec_by_ident''),
             put w (Value_uint (setstr_size x (suppress_image_exec_by_ident c))),
             put w (Dict_item ''suppress_image_exec_by_path''),
             put w (Value_uint (setstr_size x (suppress_image_exec_by_path c))),
             put w (Dict_item ''suppress_image_exec_by_ancestor_ident''),
             put w (Value_uint (setstr_size x (suppress_image_exec_by_ancestor_ident c))),
             put w (Dict_item ''suppress_image_exec_by_ancestor_path''),
             put w (Value_uint (setstr_size x (suppress_image_exec_by_ancestor_path c))),
             put w (Dict_item ''suppress_process_access_by_subject_ident''),
             put w (Value_uint (setstr_size x (suppress_process_access_by_subject_ident c))),
             put w (Dict_item ''suppress_process_access_by_subject_path''),
             put w (Value_uint (setstr_size x (suppress_process_access_by_subject_path c))),
             put w (Dict_item ''suppress_socket_op_localhost''),
             put w (Value_bool (suppress_socket_op_localhost c)),
             put w (Dict_item ''suppress_socket_op_by_subject_ident''),
             put w (Value_uint (setstr_size x (suppress_socket_op_by_subject_ident c))),
             put w (Dict_item ''suppress_socket_op_by_subject_path''),
             put w (Value_uint (setstr_size x (suppress_socket_op_by_subject_path c))),
             put w Dict_end,
             put w (Dict_item ''system''),
             put w Dict_begin,
             put w (Dict_item ''name''),
             put w (Value_string (os_name x)),
             put w (Dict_item ''version''),
             put w (Value_string (os_version x)),
             put w (Dict_item ''build''),
             put w (Value_string (os_build x)),
             put w Dict_end,
             logevt_footer_on w])"

fun logevt_xnumon_stats_on ::
  "'s sink \<Rightarrow> extern \<Rightarrow> config \<Rightarrow> evtloop_stat option \<Rightarrow> ('s, int) exec" where
  "logevt_xnumon_stats_on w x c None = giving 0 (logevt_header_on w x None)"
| "logevt_xnumon_stats_on w x c (Some st) =
     giving 0
       (steps [logevt_header_on w x (Some (event.hdr st)),
             put w (Dict_item ''evtloop''),
             put w Dict_begin,
             put w (Dict_item ''aupclobber''),
             put w (Value_uint (el_aupclobbers st)),
             put w (Dict_item ''aueunknown''),
             put w (Value_uint (el_aueunknowns st)),
             put w (Dict_item ''failedsyscall''),
             put w (Value_uint (el_failedsyscalls st)),
             put w (Dict_item ''radar38845422''),
             put w (Value_uint (el_radar38845422 st)),
             put w (Dict_item ''radar38845422_fatal''),
             put w (Value_uint (el_radar38845422_fatal st)),
             put w (Dict_item ''radar38845784''),
             put w (Value_uint (el_radar38845784 st)),
             put w (Dict_item ''radar39267328''),
             put w (Value_uint (el_radar39267328 st)),
             put w (Dict_item ''radar39267328_fatal''),
             put w (Value_uint (el_radar39267328_fatal st)),
             put w (Dict_item ''radar39623812''),
             put w (Value_uint (el_radar39623812 st)),
             put w (Dict_item ''radar39623812_fatal''),
             put w (Value_uint (el_radar39623812_fatal st)),
             put w (Dict_item ''radar42770257''),
             put w (Value_uint (el_radar42770257 st)),
             put w (Dict_item ''radar42770257_fatal''),
             put w (Value_uint (el_radar42770257_fatal st)),
             put w (Dict_item ''radar42783724''),
             put w (Value_uint (el_radar42783724 st)),
             put w (Dict_item ''radar42783724_fatal''),
             put w (Value_uint (el_radar42783724_fatal st)),
             put w (Dict_item ''radar42784847''),
             put w (Value_uint (el_radar42784847 st)),
             put w (Dict_item ''radar42784847_fatal''),
             put w (Value_uint (el_radar42784847_fatal st)),
             put w (Dict_item ''radar42946744''),
             put w (Value_uint (el_radar42946744 st)),
             put w (Dict_item ''radar42946744_fatal''),
             put w (Value_uint (el_radar42946744_fatal st)),
             put w (Dict_item ''radar43151662''),
             put w (Value_uint (el_radar43151662 st)),
             put w (Dict_item ''radar43151662_fatal''),
             put w (Value_uint (el_radar43151662_fatal st)),
             put w (Dict_item ''missingtoken''),
             put w (Value_uint (el_missingtoken st)),
             put w (Dict_item ''oom''),
             put w (Value_uint (el_ooms st)),
             put w Dict_end,
             put w (Dict_item ''procmon''),
             put w Dict_begin,
             put w (Dict_item ''actprocs''),
             put w (Value_uint (procmon_stat.procs (pm st))),
             put w (Dict_item ''actexecimages''),
             put w (Value_uint (procmon_stat.images (pm st))),
             put w (Dict_item ''liveacq''),
             put w (Value_uint (procmon_stat.liveacq (pm st))),
             put w (Dict_item ''miss''),
             put w Dict_begin,
             put w (Dict_item ''bypid''),
             put w (Value_uint (procmon_stat.miss_bypid (pm st))),
             put w (Dict_item ''forksubj''),
             put w (Value_uint (procmon_stat.miss_forksubj (pm st))),
             put w (Dict_item ''execsubj''),
             put w (Value_uint (procmon_stat.miss_execsubj (pm st))),
             put w (Dict_item ''execinterp''),
             put w (Value_uint (procmon_stat.miss_execinterp (pm st))),
             put w (Dict_item ''chdirsubj''),
             put w (Value_uint (procmon_stat.miss_chdirsubj (pm st))),
             put w (Dict_item ''getcwd''),
             put w (Value_uint (procmon_stat.miss_getcwd (pm st))),
             put w Dict_end,
             put w (Dict_item ''oom''),
             put w (Value_uint (procmon_stat.ooms (pm st))),
             put w Dict_end,
             put w (Dict_item ''hackmon''),
             put w Dict_begin,
             put w (Dict_item ''recvd''),
             put w (Value_uint (hackmon_stat.recvd (hm st))),
             put w (Dict_item ''procd''),
             put w (Value_uint (hackmon_stat.procd (hm st))),
             put w (Dict_item ''oom''),
             put w (Value_uint (hackmon_stat.ooms (hm st))),
             put w Dict_end,
             put w (Dict_item ''filemon''),
             put w Dict_begin,
             put w (Dict_item ''recvd''),
             put w (Value_uint (filemon_stat.recvd (fm st))),
             put w (Dict_item ''procd''),
             put w (Value_uint (filemon_stat.procd (fm st))),
             put w (Dict_item ''lpmiss''),
             put w (Value_uint (filemon_stat.lpmiss (fm st))),
             put w (Dict_item ''oom''),
             put w (Value_uint (filemon_stat.ooms (fm st))),
             put w Dict_end,
             put w (Dict_item ''sockmon''),
             put w Dict_begin,
             put w (Dict_item ''recvd''),
             put w (Value_uint (sockmon_stat.recvd (sm st))),
             put w (Dict_item ''procd''),
             put w (Value_uint (sockmon_stat.procd (sm st))),
             put w (Dict_item ''oom''),
             put w (Value_uint (sockmon_stat.ooms (sm st))),
             put w Dict_end,
             put w (Dict_item ''kext_cdevq''),
             put w Dict_begin,
             put w (Dict_item ''buckets''),
             put w (Value_uint (kext_stat.cdev_qsize (ke st))),
             put w (Dict_item ''visitors''),
             put w (Value_uint (kext_stat.kauth_visitors (ke st))),
             put w (Dict_item ''timeout''),
             put w (Value_uint (kext_stat.kauth_timeouts (ke st))),
             put w (Dict_item ''error''),
             put w (Value_uint (kext_stat.kauth_errors (ke st))),
             put w (Dict_item ''defer''),
             put w (Value_uint (kext_stat.kauth_defers (ke st))),
             put w (Dict_item ''deny''),
             put w (Value_uint (kext_stat.kauth_denies (ke st))),
             put w Dict_end,
             put w (Dict_item ''prep_queue''),
             put w Dict_begin,
             put w (Dict_item ''buckets''),
             put w (Value_uint (procmon_stat.pqsize (pm st))),
             put w (Dict_item ''lookup''),
             put w (Value_uint (procmon_stat.pqlookup (pm st))),
             put w (Dict_item ''miss''),
             put w (Value_uint (procmon_stat.pqmiss (pm st))),
             put w (Dict_item ''drop''),
             put w (Value_uint (procmon_stat.pqdrop (pm st))),
             put w (Dict_item ''bktskip''),
             put w (Value_uint (procmon_stat.pqskip (pm st))),
             put w Dict_end,
             put w (Dict_item ''aupi_cdevq''),
             put w Dict_begin,
             put w (Dict_item ''buckets''),
             put w (Value_uint (aupi_stat.qlen (ap st))),
             put w (Dict_item ''bucketmax''),
             put w (Value_uint (aupi_stat.qlimit (ap st))),
             put w (Dict_item ''insert''),
             put w (Value_uint (aupi_stat.inserts (ap st))),
             put w (Dict_item ''read''),
             put w (Value_uint (aupi_stat.reads (ap st))),
             put w (Dict_item ''drop''),
             put w (Value_uint (aupi_stat.drops (ap st))),
             put w Dict_end,
             put w (Dict_item ''work_queue''),
             put w Dict_begin,
             put w (Dict_item ''buckets''),
             put w (Value_uint (work_queue_stat.qsize (wq st))),
             put w Dict_end,
             put w (Dict_item ''log_queue''),
             put w Dict_begin,
             put w (Dict_item ''buckets''),
             put w (Value_uint (log_queue_stat.qsize (lq st))),
             put w (Dict_item ''events''),
             put w List_begin,
             counts_loop_on w (counts (lq st)),
             put w List_end,
             put w (Dict_item ''errors''),
             put w (Value_uint (log_queue_stat.errors (lq st))),
             put w Dict_end,
             put w (Dict_item ''hash_cache''),
             put w Dict_begin,
             put w (Dict_item ''buckets''),
             put w (Value_uint (cache_stat.used (ch st))),
             put w (Dict_item ''bucketmax''),
             put w (Value_uint (cache_stat.cache_size (ch st))),
             put w (Dict_item ''put''),
             put w (Value_uint (cache_stat.puts (ch st))),
             put w (Dict_item ''get''),
             put w (Value_uint (cache_stat.gets (ch st))),
             put w (Dict_item ''hit''),
             put w (Value_uint (cache_stat.hits (ch st))),
             put w (Dict_item ''miss''),
             put w (Value_uint (cache_stat.misses (ch st))),
             put w (Dict_item ''inv''),
             put w (Value_uint (cache_stat.invalids (ch st))),
             put w Dict_end,
             put w (Dict_item ''csig_cache''),
             put w Dict_begin,
             put w (Dict_item ''buckets''),
             put w (Value_uint (cache_stat.used (cc st))),
             put w (Dict_item ''bucketmax''),
             put w (Value_uint (cache_stat.cache_size (cc st))),
             put w (Dict_item ''put''),
             put w (Value_uint (cache_stat.puts (cc st))),
             put w (Dict_item ''get''),
             put w (Value_uint (cache_stat.gets (cc st))),
             put w (Dict_item ''hit''),
             put w (Value_uint (cache_stat.hits (cc st))),
             put w (Dict_item ''miss''),
             put w (Value_uint (cache_stat.misses (cc st))),
             put w (Dict_item ''inv''),
             put w (Value_uint (cache_stat.invalids (cc st))),
             put w Dict_end,
             put w (Dict_item ''ldpl_cache''),
             put w Dict_begin,
             put w (Dict_item ''buckets''),
             put w (Value_uint (cache_stat.used (cl st))),
             put w (Dict_item ''bucketmax''),
             put w (Value_uint (cache_stat.cache_size (cl st))),
             put w (Dict_item ''put''),
             put w (Value_uint (cache_stat.puts (cl st))),
             put w (Dict_item ''get''),
             put w (Value_uint (cache_stat.gets (cl st))),
             put w (Dict_item ''hit''),
             put w (Value_uint (cache_stat.hits (cl st))),
             put w (Dict_item ''miss''),
             put w (Value_uint (cache_stat.misses (cl st))),
             put w (Dict_item ''inv''),
             put w (Value_uint (cache_stat.invalids (cl st))),
             put w Dict_end,
             logevt_footer_on w])"

text \<open>
  \<^verbatim>\<open>logevt_image_exec_image\<close>, \<^verbatim>\<open>logevt_process_image_exec\<close> with its loop over the ancestors,
  and \<^verbatim>\<open>logevt_process\<close>.
\<close>

definition logevt_image_exec_image_on ::
  "'s sink \<Rightarrow> extern \<Rightarrow> config \<Rightarrow> image_exec \<Rightarrow> ('s, unit) exec" where
  "logevt_image_exec_image_on w x c ie =
     steps [put w Dict_begin,
          put w (Dict_item ''path''),
          put w (Value_string (image_exec.path ie)),
          if image_exec.flags ie AND (EIFLAG_STAT x OR EIFLAG_ATTR x) \<noteq> 0
          then steps [if \<not> omit_mode c
                    then steps [put w (Dict_item ''mode''),
                              put w (Value_uint_oct (mode (stat ie)))]
                    else pass,
                    logevt_uid_on w x c (uid (stat ie)) ''uid'' ''uname'',
                    if \<not> omit_groups c
                    then logevt_gid_on w x c (gid (stat ie)) ''gid'' ''gname''
                    else pass]
          else pass,
          if image_exec.flags ie AND EIFLAG_STAT x \<noteq> 0
          then steps [if \<not> omit_size c
                    then steps [put w (Dict_item ''size''),
                              put w (Value_uint (st_size (stat ie)))]
                    else pass,
                    if \<not> omit_mtime c
                    then steps [put w (Dict_item ''mtime''),
                              put w (Value_timespec (mtime (stat ie)))]
                    else pass,
                    if \<not> omit_ctime c
                    then steps [put w (Dict_item ''ctime''),
                              put w (Value_timespec (ctime (stat ie)))]
                    else pass,
                    if \<not> omit_btime c
                    then steps [put w (Dict_item ''btime''),
                              put w (Value_timespec (btime (stat ie)))]
                    else pass]
          else pass,
          if image_exec.flags ie AND EIFLAG_HASHES x \<noteq> 0 \<and>
             (\<not> omit_apple_hashes c \<or>
              (case image_exec.codesign ie of
                 None \<Rightarrow> True
               | Some cs \<Rightarrow> \<not> codesign_is_apple_system x cs))
          then steps [if hflags c AND HASH_MD5 x \<noteq> 0
                    then steps [put w (Dict_item ''md5''),
                              put w (Value_buf_hex (md5 (hashes ie)) (MD5SZ x))]
                    else pass,
                    if hflags c AND HASH_SHA1 x \<noteq> 0
                    then steps [put w (Dict_item ''sha1''),
                              put w (Value_buf_hex (sha1 (hashes ie)) (SHA1SZ x))]
                    else pass,
                    if hflags c AND HASH_SHA256 x \<noteq> 0
                    then steps [put w (Dict_item ''sha256''),
                              put w (Value_buf_hex (sha256 (hashes ie)) (SHA256SZ x))]
                    else pass]
          else pass,
          case image_exec.codesign ie of
            None \<Rightarrow> pass
          | Some cs \<Rightarrow>
              steps [put w (Dict_item ''signature''),
                   put w (Value_string (codesign_result_s x cs)),
                   if origin cs \<noteq> 0
                   then steps [put w (Dict_item ''origin''),
                             put w (Value_string (codesign_origin_s x cs))]
                   else pass,
                   case cdhash cs of
                     None \<Rightarrow> pass
                   | Some h \<Rightarrow>
                       steps [put w (Dict_item ''cdhash''),
                            put w (Value_buf_hex h (cdhashsz cs))],
                   case ident cs of
                     None \<Rightarrow> pass
                   | Some s \<Rightarrow> steps [put w (Dict_item ''ident''), put w (Value_string s)],
                   case teamid cs of
                     None \<Rightarrow> pass
                   | Some s \<Rightarrow> steps [put w (Dict_item ''teamid''), put w (Value_string s)],
                   case certcn cs of
                     None \<Rightarrow> pass
                   | Some s \<Rightarrow> steps [put w (Dict_item ''certcn''), put w (Value_string s)]],
          put w Dict_end]"

definition logevt_process_image_exec_on ::
  "'s sink \<Rightarrow> extern \<Rightarrow> config \<Rightarrow> image_exec \<Rightarrow> ('s, unit) exec" where
  "logevt_process_image_exec_on w x c ie =
     steps [put w Dict_begin,
          if \<not> (image_exec.flags ie AND EIFLAG_PIDLOOKUP x \<noteq> 0)
          then steps [put w (Dict_item ''exec_time''),
                    put w (Value_timespec (tv (image_exec.hdr ie)))]
          else pass,
          put w (Dict_item ''exec_pid''),
          put w (Value_int (image_exec.pid ie)),
          put w (Dict_item ''path''),
          put w (Value_string (image_exec.path ie)),
          if image_exec.flags ie AND EIFLAG_HASHES x \<noteq> 0 \<and>
             (\<not> omit_apple_hashes c \<or>
              (case image_exec.codesign ie of
                 None \<Rightarrow> True
               | Some cs \<Rightarrow> \<not> codesign_is_apple_system x cs))
          then steps [if hflags c AND HASH_MD5 x \<noteq> 0
                    then steps [put w (Dict_item ''md5''),
                              put w (Value_buf_hex (md5 (hashes ie)) (MD5SZ x))]
                    else pass,
                    if hflags c AND HASH_SHA1 x \<noteq> 0
                    then steps [put w (Dict_item ''sha1''),
                              put w (Value_buf_hex (sha1 (hashes ie)) (SHA1SZ x))]
                    else pass,
                    if hflags c AND HASH_SHA256 x \<noteq> 0
                    then steps [put w (Dict_item ''sha256''),
                              put w (Value_buf_hex (sha256 (hashes ie)) (SHA256SZ x))]
                    else pass]
          else pass,
          case image_exec.codesign ie of
            None \<Rightarrow> pass
          | Some cs \<Rightarrow>
              if codesign_is_good x cs
              then steps [case ident cs of
                          None \<Rightarrow> pass
                        | Some s \<Rightarrow> steps [put w (Dict_item ''ident''), put w (Value_string s)],
                        case teamid cs of
                          None \<Rightarrow> pass
                        | Some s \<Rightarrow> steps [put w (Dict_item ''teamid''), put w (Value_string s)]]
              else pass,
          case script ie of
            None \<Rightarrow> pass
          | Some scr \<Rightarrow>
              steps [put w (Dict_item ''script''),
                   put w Dict_begin,
                   put w (Dict_item ''path''),
                   put w (Value_string (image_exec.path scr)),
                   check (image_exec.codesign scr = None),
                   if image_exec.flags scr AND EIFLAG_HASHES x \<noteq> 0
                   then steps [if hflags c AND HASH_MD5 x \<noteq> 0
                             then steps [put w (Dict_item ''md5''),
                                       put w (Value_buf_hex (md5 (hashes scr)) (MD5SZ x))]
                             else pass,
                             if hflags c AND HASH_SHA1 x \<noteq> 0
                             then steps [put w (Dict_item ''sha1''),
                                       put w (Value_buf_hex (sha1 (hashes scr)) (SHA1SZ x))]
                             else pass,
                             if hflags c AND HASH_SHA256 x \<noteq> 0
                             then steps [put w (Dict_item ''sha256''),
                                       put w (Value_buf_hex (sha256 (hashes scr)) (SHA256SZ x))]
                             else pass]
                   else pass,
                   put w Dict_end],
          put w Dict_end]"

function ancestors_loop_on ::
  "'s sink \<Rightarrow> extern \<Rightarrow> config \<Rightarrow> nat \<Rightarrow> image_exec option \<Rightarrow> ('s, unit) exec" where
  "ancestors_loop_on w x c depth None = pass"
| "ancestors_loop_on w x c depth (Some pie) =
     (if 0 < image_exec.pid pie
      then if depth = ancestors c then pass
           else steps [put w (List_item ''ancestor''),
                     logevt_process_image_exec_on w x c pie,
                     ancestors_loop_on w x c (depth + 1) (prev pie)]
      else pass)"
  by pat_completeness auto
termination
  by (relation "measure (\<lambda>(w, x, c, depth, pie). size_option size pie)")
    (simp_all add: size_prev less_Suc_eq)

definition logevt_process_image_exec_ancestors_on ::
  "'s sink \<Rightarrow> extern \<Rightarrow> config \<Rightarrow> image_exec option \<Rightarrow> ('s, unit) exec" where
  "logevt_process_image_exec_ancestors_on w x c ie =
     steps [put w List_begin,
          ancestors_loop_on w x c 0 ie,
          put w List_end]"

definition logevt_process_on ::
  "'s sink \<Rightarrow> extern \<Rightarrow> config \<Rightarrow> audit_proc option \<Rightarrow> int \<Rightarrow> image_exec option \<Rightarrow> ('s, unit) exec" where
  "logevt_process_on w x c process processpid ie =
     steps [put w Dict_begin,
          case ie of
            None \<Rightarrow> pass
          | Some i \<Rightarrow>
              if image_exec.flags i AND EIFLAG_PIDLOOKUP x \<noteq> 0
              then steps [put w (Dict_item ''reconstructed''), put w (Value_bool True)]
              else pass,
          if 0 < processpid
          then steps [put w (Dict_item ''pid''), put w (Value_int processpid)]
          else case process of
            None \<Rightarrow> pass
          | Some p \<Rightarrow>
              steps [put w (Dict_item ''pid''),
                   put w (Value_int (audit_proc.pid p)),
                   logevt_uid_on w x c (auid p) ''auid'' ''auname'',
                   logevt_uid_on w x c (euid p) ''euid'' ''euname'',
                   if \<not> omit_groups c
                   then logevt_gid_on w x c (egid p) ''egid'' ''egname''
                   else pass,
                   logevt_uid_on w x c (ruid p) ''ruid'' ''runame'',
                   if \<not> omit_groups c
                   then logevt_gid_on w x c (rgid p) ''rgid'' ''rgname''
                   else pass,
                   if \<not> omit_sid c
                   then steps [put w (Dict_item ''sid''), put w (Value_uint (sid p))]
                   else pass,
                   if dev p \<noteq> - 1
                   then steps [put w (Dict_item ''dev''), put w (Value_ttydev (dev p))]
                   else pass,
                   if \<not> ipaddr_is_empty x (addr p)
                   then steps [put w (Dict_item ''addr''),
                             put w (Value_string (ipaddrtoa x (addr p)))]
                   else pass],
          case ie of
            None \<Rightarrow> pass
          | Some i \<Rightarrow>
              steps [if 0 < tv_sec (fork_tv i)
                   then steps [put w (Dict_item ''fork_time''),
                             put w (Value_timespec (fork_tv i))]
                   else pass,
                   put w (Dict_item ''image''),
                   logevt_process_image_exec_on w x c i,
                   if 0 < ancestors c
                   then steps [put w (Dict_item ''ancestors''),
                             logevt_process_image_exec_ancestors_on w x c (prev i)]
                   else pass],
          put w Dict_end]"

text \<open>
  The serializers of the observed events. Each ends with \<^verbatim>\<open>return 0\<close>.
\<close>

fun logevt_image_exec_on ::
  "'s sink \<Rightarrow> extern \<Rightarrow> config \<Rightarrow> image_exec option \<Rightarrow> ('s, int) exec" where
  "logevt_image_exec_on w x c None = giving 0 (logevt_header_on w x None)"
| "logevt_image_exec_on w x c (Some ie) =
     giving 0
       (steps [logevt_header_on w x (Some (image_exec.hdr ie)),
             if image_exec.flags ie AND EIFLAG_PIDLOOKUP x \<noteq> 0
             then steps [put w (Dict_item ''reconstructed''), put w (Value_bool True)]
             else pass,
             case argv ie of
               None \<Rightarrow> pass
             | Some av \<Rightarrow>
                 steps [put w (Dict_item ''argv''),
                      put w List_begin,
                      strv_loop_on w ''arg'' av,
                      put w List_end],
             case envv ie of
               None \<Rightarrow> pass
             | Some ev \<Rightarrow>
                 steps [put w (Dict_item ''env''),
                      put w List_begin,
                      strv_loop_on w ''var'' ev,
                      put w List_end],
             case cwd ie of
               None \<Rightarrow> pass
             | Some d \<Rightarrow> steps [put w (Dict_item ''cwd''), put w (Value_string d)],
             put w (Dict_item ''image''),
             logevt_image_exec_image_on w x c ie,
             case script ie of
               None \<Rightarrow> pass
             | Some scr \<Rightarrow>
                 steps [put w (Dict_item ''script''),
                      logevt_image_exec_image_on w x c scr],
             put w (Dict_item ''subject''),
             logevt_process_on w x c
               (if image_exec.flags ie AND EIFLAG_PIDLOOKUP x \<noteq> 0
                then None else Some (image_exec.subject ie))
               0
               (prev ie),
             logevt_footer_on w])"

fun logevt_process_access_on ::
  "'s sink \<Rightarrow> extern \<Rightarrow> config \<Rightarrow> process_access option \<Rightarrow> ('s, int) exec" where
  "logevt_process_access_on w x c None = giving 0 (logevt_header_on w x None)"
| "logevt_process_access_on w x c (Some pa) =
     giving 0
       (steps [logevt_header_on w x (Some (event.hdr pa)),
             put w (Dict_item ''method''),
             put w (Value_string (pa_method pa)),
             put w (Dict_item ''object''),
             logevt_process_on w x c
               (Some (object pa)) (objectpid pa) (object_image_exec pa),
             put w (Dict_item ''subject''),
             logevt_process_on w x c
               (Some (process_access.subject pa)) 0 (process_access.subject_image_exec pa),
             logevt_footer_on w])"

fun logevt_launchd_add_on ::
  "'s sink \<Rightarrow> extern \<Rightarrow> config \<Rightarrow> launchd_add option \<Rightarrow> ('s, int) exec" where
  "logevt_launchd_add_on w x c None = giving 0 (logevt_header_on w x None)"
| "logevt_launchd_add_on w x c (Some ldadd) =
     giving 0
       (steps [logevt_header_on w x (Some (event.hdr ldadd)),
             put w (Dict_item ''plist''),
             put w Dict_begin,
             put w (Dict_item ''path''),
             put w (Value_string (plist_path ldadd)),
             put w Dict_end,
             put w (Dict_item ''program''),
             put w Dict_begin,
             case program_rpath ldadd of
               None \<Rightarrow> pass
             | Some s \<Rightarrow> steps [put w (Dict_item ''rpath''), put w (Value_string s)],
             case program_path ldadd of
               None \<Rightarrow> pass
             | Some s \<Rightarrow> steps [put w (Dict_item ''path''), put w (Value_string s)],
             case program_argv ldadd of
               None \<Rightarrow> pass
             | Some av \<Rightarrow>
                 steps [put w (Dict_item ''argv''),
                      put w List_begin,
                      strv_loop_on w ''arg'' av,
                      put w List_end],
             put w Dict_end,
             if \<not> (launchd_add.flags ldadd AND LAFLAG_NOSUBJECT x \<noteq> 0)
             then steps [put w (Dict_item ''subject''),
                       logevt_process_on w x c
                         (Some (launchd_add.subject ldadd)) 0
                         (launchd_add.subject_image_exec ldadd)]
             else pass,
             logevt_footer_on w])"

fun logevt_socket_listen_on ::
  "'s sink \<Rightarrow> extern \<Rightarrow> config \<Rightarrow> socket_op option \<Rightarrow> ('s, int) exec" where
  "logevt_socket_listen_on w x c None = giving 0 (logevt_header_on w x None)"
| "logevt_socket_listen_on w x c (Some so) =
     giving 0
       (steps [logevt_header_on w x (Some (event.hdr so)),
             if protocol so \<noteq> 0
             then steps [put w (Dict_item ''proto''),
                       put w (Value_string (protocoltoa x (protocol so)))]
             else pass,
             if \<not> ipaddr_is_empty x (sock_addr so)
             then steps [put w (Dict_item ''sockaddr''),
                       put w (Value_string (ipaddrtoa x (sock_addr so))),
                       put w (Dict_item ''sockport''),
                       put w (Value_uint (sock_port so))]
             else pass,
             put w (Dict_item ''subject''),
             logevt_process_on w x c
               (Some (socket_op.subject so)) 0 (socket_op.subject_image_exec so),
             logevt_footer_on w])"

fun logevt_socket_accept_on ::
  "'s sink \<Rightarrow> extern \<Rightarrow> config \<Rightarrow> socket_op option \<Rightarrow> ('s, int) exec" where
  "logevt_socket_accept_on w x c None = giving 0 (logevt_header_on w x None)"
| "logevt_socket_accept_on w x c (Some so) =
     giving 0
       (steps [logevt_header_on w x (Some (event.hdr so)),
             if protocol so \<noteq> 0
             then steps [put w (Dict_item ''proto''),
                       put w (Value_string (protocoltoa x (protocol so)))]
             else pass,
             if \<not> ipaddr_is_empty x (sock_addr so)
             then steps [put w (Dict_item ''sockaddr''),
                       put w (Value_string (ipaddrtoa x (sock_addr so))),
                       put w (Dict_item ''sockport''),
                       put w (Value_uint (sock_port so))]
             else pass,
             if \<not> ipaddr_is_empty x (peer_addr so)
             then steps [put w (Dict_item ''peeraddr''),
                       put w (Value_string (ipaddrtoa x (peer_addr so))),
                       put w (Dict_item ''peerport''),
                       put w (Value_uint (peer_port so))]
             else pass,
             put w (Dict_item ''subject''),
             logevt_process_on w x c
               (Some (socket_op.subject so)) 0 (socket_op.subject_image_exec so),
             logevt_footer_on w])"

fun logevt_socket_connect_on ::
  "'s sink \<Rightarrow> extern \<Rightarrow> config \<Rightarrow> socket_op option \<Rightarrow> ('s, int) exec" where
  "logevt_socket_connect_on w x c None = giving 0 (logevt_header_on w x None)"
| "logevt_socket_connect_on w x c (Some so) =
     giving 0
       (steps [logevt_header_on w x (Some (event.hdr so)),
             if protocol so \<noteq> 0
             then steps [put w (Dict_item ''proto''),
                       put w (Value_string (protocoltoa x (protocol so)))]
             else pass,
             if \<not> ipaddr_is_empty x (sock_addr so)
             then steps [put w (Dict_item ''sockaddr''),
                       put w (Value_string (ipaddrtoa x (sock_addr so))),
                       put w (Dict_item ''sockport''),
                       put w (Value_uint (sock_port so))]
             else pass,
             if \<not> ipaddr_is_empty x (peer_addr so)
             then steps [put w (Dict_item ''peeraddr''),
                       put w (Value_string (ipaddrtoa x (peer_addr so))),
                       put w (Dict_item ''peerport''),
                       put w (Value_uint (peer_port so))]
             else pass,
             put w (Dict_item ''subject''),
             logevt_process_on w x c
               (Some (socket_op.subject so)) 0 (socket_op.subject_image_exec so),
             logevt_footer_on w])"

text \<open>
  An execution on a sink follows a run when, from every state of the stream, it leaves
  the state that the sink reaches on the calls of the run, each once and in order, and
  returns what the run returns.
\<close>

definition follows :: "'s sink \<Rightarrow> ('s, 'a) exec \<Rightarrow> 'a run \<Rightarrow> bool" where
  "follows w a r \<longleftrightarrow>
     (\<forall>s. a s = (fst (drive w s (filter (\<lambda>k. \<not> is_lookup k) (calls r))), snd r))"

subsection \<open>Example data\<close>

text \<open>
  Concrete values on which the theorems below are instantiated: macros and external
  functions, a configuration with an ancestor depth of 1 and the three hashes, and the
  chain \<^verbatim>\<open>/bin/sh\<close>, \<^verbatim>\<open>/bin/ls\<close>, \<^verbatim>\<open>/sbin/launchd\<close> of image executions.
\<close>

definition ex_extern :: extern where
  "ex_extern = \<lparr>
     LOGEVT_VERSION = 1,
     EIFLAG_STAT = 1, EIFLAG_ATTR = 2, EIFLAG_HASHES = 4, EIFLAG_PIDLOOKUP = 8,
     LAFLAG_NOSUBJECT = 1,
     HASH_MD5 = 1, HASH_SHA1 = 2, HASH_SHA256 = 4,
     MD5SZ = 16, SHA1SZ = 20, SHA256SZ = 32,
     SIZE_MAX = 18446744073709551615,
     getpwuid = (\<lambda>u. if u = 0 then Some ''root'' else None),
     getgrgid = (\<lambda>g. if g = 0 then Some ''wheel'' else None),
     codesign_is_apple_system = (\<lambda>cs. origin cs = 1),
     codesign_is_good = (\<lambda>cs. origin cs \<noteq> 0),
     codesign_result_s = (\<lambda>cs. if origin cs \<noteq> 0 then ''good'' else ''bad''),
     codesign_origin_s = (\<lambda>cs. if origin cs = 1 then ''system'' else ''generic''),
     ipaddr_is_empty = (\<lambda>a. a = Ipaddr 0 []),
     ipaddrtoa = (\<lambda>a. ''192.0.2.1''),
     protocoltoa = (\<lambda>p. ''tcp''),
     config_events_s = (\<lambda>c. ''all''),
     config_kextlevel_s = (\<lambda>c. ''none''),
     config_envlevel_s = (\<lambda>c. ''none''),
     hashes_flags_s = (\<lambda>h. ''md5,sha1,sha256''),
     logdst_s = (\<lambda>c. ''-''),
     logfmt_s = (\<lambda>c. ''json''),
     setstr_size = (\<lambda>s. 0),
     os_name = ''macOS'', os_version = ''10.14'', os_build = ''18A391'',
     build_version = ''0.1'', build_date = ''2019-01-01'', build_info = ''example'' \<rparr>"

definition ex_config :: config where
  "ex_config = \<lparr>
     config.path = ''/etc/xnumon.plist'', cfg_id = None, launchd_mode = False, debug = False,
     stats_interval = 3600, hflags = 7, config.codesign = True, resolve_users_groups = True,
     omit_mode = False, omit_size = False, omit_mtime = False, omit_ctime = False,
     omit_btime = False, omit_sid = False, omit_groups = False, omit_apple_hashes = True,
     ancestors = 1, logoneline = - 1, logfile = None, limit_nofile = 1024,
     suppress_image_exec_at_start = False,
     suppress_image_exec_by_ident = {}, suppress_image_exec_by_path = {},
     suppress_image_exec_by_ancestor_ident = {}, suppress_image_exec_by_ancestor_path = {},
     suppress_process_access_by_subject_ident = {},
     suppress_process_access_by_subject_path = {},
     suppress_socket_op_localhost = False,
     suppress_socket_op_by_subject_ident = {}, suppress_socket_op_by_subject_path = {} \<rparr>"

definition ex_time :: timespec where
  "ex_time = \<lparr> tv_sec = 1546300800, tv_nsec = 0 \<rparr>"

definition ex_header :: logevt_header where
  "ex_header = \<lparr> code = 2, tv = ex_time \<rparr>"

definition ex_proc :: audit_proc where
  "ex_proc = \<lparr> audit_proc.pid = 4243, auid = 501, euid = 0, egid = 0, ruid = 501, rgid = 20,
     sid = 100, dev = 5, addr = Ipaddr 0 [] \<rparr>"

definition ex_stat :: stat_attr where
  "ex_stat = \<lparr> mode = 493, uid = 0, gid = 0, st_size = 38704,
     mtime = ex_time, ctime = ex_time, btime = ex_time \<rparr>"

definition ex_hashes :: hashes where
  "ex_hashes = \<lparr> md5 = replicate 16 1, sha1 = replicate 20 2, sha256 = replicate 32 3 \<rparr>"

definition ex_codesign :: codesign where
  "ex_codesign = \<lparr> origin = 1, cdhash = Some (replicate 20 4), cdhashsz = 20,
     ident = Some ''com.apple.ls'', teamid = None, certcn = None \<rparr>"

definition ex_launchd :: image_exec where
  "ex_launchd = Image_exec ex_header 4 1 ''/sbin/launchd'' ex_stat ex_hashes None None None
     None None None \<lparr> tv_sec = 0, tv_nsec = 0 \<rparr> ex_proc"

definition ex_ls :: image_exec where
  "ex_ls = Image_exec ex_header 5 4242 ''/bin/ls'' ex_stat ex_hashes (Some ex_codesign) None
     (Some ex_launchd) (Some [''ls'', ''-l'']) None (Some ''/tmp'') ex_time ex_proc"

definition ex_sh :: image_exec where
  "ex_sh = Image_exec ex_header 5 4243 ''/bin/sh'' ex_stat ex_hashes None None
     (Some ex_ls) (Some [''sh'']) (Some [''HOME=/'']) None ex_time ex_proc"

text \<open>An image that was reconstructed from a pid.\<close>

definition ex_top :: image_exec where
  "ex_top = Image_exec ex_header 8 77 ''/usr/bin/top'' ex_stat ex_hashes None None None
     None None None \<lparr> tv_sec = 0, tv_nsec = 0 \<rparr> ex_proc"

text \<open>A shell that runs a script with a code signature attached.\<close>

definition ex_script :: image_exec where
  "ex_script = Image_exec ex_header 4 0 ''/tmp/run.sh'' ex_stat ex_hashes (Some ex_codesign)
     None None None None None \<lparr> tv_sec = 0, tv_nsec = 0 \<rparr> ex_proc"

definition ex_run :: image_exec where
  "ex_run = Image_exec ex_header 4 4300 ''/bin/sh'' ex_stat ex_hashes None (Some ex_script)
     None (Some [''sh'', ''/tmp/run.sh'']) None None ex_time ex_proc"

definition ex_ops :: xnumon_ops where
  "ex_ops = \<lparr> hdr = ex_header, subtype = ''start'' \<rparr>"

definition ex_access :: process_access where
  "ex_access = \<lparr> hdr = ex_header, pa_method = ''task_for_pid'', object = ex_proc,
     objectpid = 4242, object_image_exec = Some ex_ls,
     process_access.subject = ex_proc,
     process_access.subject_image_exec = Some ex_sh \<rparr>"

definition ex_ldadd :: launchd_add where
  "ex_ldadd = \<lparr> hdr = ex_header, flags = 0, plist_path = ''/Library/LaunchDaemons/a.plist'',
     program_rpath = None, program_path = Some ''/bin/sh'', program_argv = Some [''sh''],
     launchd_add.subject = ex_proc, launchd_add.subject_image_exec = Some ex_sh \<rparr>"

definition ex_so :: socket_op where
  "ex_so = \<lparr> hdr = ex_header, protocol = 6, sock_addr = Ipaddr 2 [192, 0, 2, 1],
     sock_port = 8080, peer_addr = Ipaddr 0 [], peer_port = 0,
     subject = ex_proc, subject_image_exec = Some ex_sh \<rparr>"

definition ex_cache :: cache_stat where
  "ex_cache = \<lparr> used = 1, cache_size = 2, puts = 3, gets = 4, hits = 5, misses = 6,
     invalids = 7 \<rparr>"

definition ex_st :: evtloop_stat where
  "ex_st = \<lparr> hdr = ex_header,
     el_aupclobbers = 0, el_aueunknowns = 0, el_failedsyscalls = 0,
     el_radar38845422 = 0, el_radar38845422_fatal = 0, el_radar38845784 = 0,
     el_radar39267328 = 0, el_radar39267328_fatal = 0,
     el_radar39623812 = 0, el_radar39623812_fatal = 0,
     el_radar42770257 = 0, el_radar42770257_fatal = 0,
     el_radar42783724 = 0, el_radar42783724_fatal = 0,
     el_radar42784847 = 0, el_radar42784847_fatal = 0,
     el_radar42946744 = 0, el_radar42946744_fatal = 0,
     el_radar43151662 = 0, el_radar43151662_fatal = 0,
     el_missingtoken = 0, el_ooms = 0,
     pm = \<lparr> procs = 1, images = 1, liveacq = 0, miss_bypid = 0, miss_forksubj = 0,
       miss_execsubj = 0, miss_execinterp = 0, miss_chdirsubj = 0, miss_getcwd = 0,
       procmon_stat.ooms = 0, pqsize = 0, pqlookup = 0, pqmiss = 0, pqdrop = 0, pqskip = 0 \<rparr>,
     hm = \<lparr> hackmon_stat.recvd = 0, hackmon_stat.procd = 0, hackmon_stat.ooms = 0 \<rparr>,
     fm = \<lparr> filemon_stat.recvd = 0, filemon_stat.procd = 0, lpmiss = 0,
       filemon_stat.ooms = 0 \<rparr>,
     sm = \<lparr> recvd = 0, procd = 0, ooms = 0 \<rparr>,
     ke = \<lparr> cdev_qsize = 0, kauth_visitors = 0, kauth_timeouts = 0, kauth_errors = 0,
       kauth_defers = 0, kauth_denies = 0 \<rparr>,
     ap = \<lparr> qlen = 0, qlimit = 0, inserts = 0, reads = 0, drops = 0 \<rparr>,
     wq = \<lparr> work_queue_stat.qsize = 0 \<rparr>,
     lq = \<lparr> qsize = 0, counts = [1, 2, 3], errors = 0 \<rparr>,
     ch = ex_cache, cc = ex_cache, cl = ex_cache \<rparr>"

text \<open>A sink on which every write fails; its state counts the calls.\<close>

definition ex_broken_sink :: "nat \<Rightarrow> call \<Rightarrow> nat \<times> bool" where
  "ex_broken_sink n k = (n + 1, False)"

section \<open>Properties\<close>

subsection \<open>The calls of a sequence of statements\<close>

lemma calls_emit [simp]: "calls (emit k) = [k]"
  by (simp add: calls_def emit_def)

lemma aborted_emit [simp]: "aborted (emit k) = False"
  by (simp add: aborted_def emit_def)

lemma calls_skip [simp]: "calls skip = []"
  by (simp add: calls_def skip_def)

lemma aborted_skip [simp]: "aborted skip = False"
  by (simp add: aborted_def skip_def)

lemma calls_assert [simp]: "calls (assert b) = []"
  by (simp add: calls_def assert_def)

lemma aborted_assert [simp]: "aborted (assert b) = (\<not> b)"
  by (simp add: aborted_def assert_def)

lemma calls_seq_Nil [simp]: "calls (seq []) = []"
  by (simp add: calls_def skip_def)

lemma aborted_seq_Nil [simp]: "aborted (seq []) = False"
  by (simp add: aborted_def skip_def)

lemma calls_seq_Cons [simp]:
  "calls (seq (r # rs)) = calls r @ (if aborted r then [] else calls (seq rs))"
  by (simp add: calls_def aborted_def split: option.splits)

lemma aborted_seq_Cons [simp]:
  "aborted (seq (r # rs)) = (aborted r \<or> aborted (seq rs))"
  by (auto simp add: calls_def aborted_def split: option.splits)

declare seq.simps [simp del]

lemma calls_returning [simp]: "calls (returning v r) = calls r"
  by (simp add: calls_def returning_def)

lemma aborted_returning [simp]: "aborted (returning v r) = aborted r"
  by (simp add: aborted_def returning_def split: option.splits)

lemma snd_returning: "snd (returning v r) = (if aborted r then None else Some v)"
  by (simp add: aborted_def returning_def split: option.splits)

lemma calls_if [simp]: "calls (if b then r else s) = (if b then calls r else calls s)"
  by simp

lemma aborted_if [simp]:
  "aborted (if b then r else s) = (if b then aborted r else aborted s)"
  by simp

lemma calls_case_option [simp]:
  "calls (case v of None \<Rightarrow> r | Some y \<Rightarrow> f y) =
     (case v of None \<Rightarrow> calls r | Some y \<Rightarrow> calls (f y))"
  by (simp split: option.splits)

lemma aborted_case_option [simp]:
  "aborted (case v of None \<Rightarrow> r | Some y \<Rightarrow> f y) =
     (case v of None \<Rightarrow> aborted r | Some y \<Rightarrow> aborted (f y))"
  by (simp split: option.splits)

lemma case_option_same [simp]: "(case v of None \<Rightarrow> a | Some y \<Rightarrow> a) = a"
  by (cases v) simp_all

subsection \<open>User and group ids\<close>

lemma aborted_logevt_uid [simp]: "aborted (logevt_uid x c u il nl) = False"
  by (simp add: logevt_uid_def cong: if_cong option.case_cong split del: if_split)

lemma aborted_logevt_gid [simp]: "aborted (logevt_gid x c g il nl) = False"
  by (simp add: logevt_gid_def cong: if_cong option.case_cong split del: if_split)

lemma calls_logevt_uid:
  "calls (logevt_uid x c u il nl) =
     Dict_item il #
     (if u = - 1 then [Value_int (- 1)]
      else Value_uint (unat u) #
        (if resolve_users_groups c
         then Getpwuid u #
           (case getpwuid x u of None \<Rightarrow> [] | Some n \<Rightarrow> [Dict_item nl, Value_string n])
         else []))"
  by (simp add: logevt_uid_def cong: if_cong option.case_cong split del: if_split)

lemma calls_logevt_gid:
  "calls (logevt_gid x c g il nl) =
     Dict_item il #
     (if g = - 1 then [Value_int (- 1)]
      else Value_uint (unat g) #
        (if resolve_users_groups c
         then Getgrgid g #
           (case getgrgid x g of None \<Rightarrow> [] | Some n \<Rightarrow> [Dict_item nl, Value_string n])
         else []))"
  by (simp add: logevt_gid_def cong: if_cong option.case_cong split del: if_split)

text \<open>
  C5. The numeric id is always emitted, first: as -1 for the id (uid_t)-1 or (gid_t)-1,
  as the unsigned id otherwise. The name follows exactly when the id is not that
  sentinel, the configuration resolves names and the lookup finds one. A lookup is made
  exactly when the id is not the sentinel and the configuration resolves names, so none
  for the sentinel. Neither function fails, whatever the lookup gives.
\<close>

theorem logevt_uid_gid_fields:
  "filter (\<lambda>k. \<not> is_lookup k) (calls (logevt_uid x c u il nl)) =
     Dict_item il # (if u = - 1 then Value_int (- 1) else Value_uint (unat u)) #
     (case (if u \<noteq> - 1 \<and> resolve_users_groups c then getpwuid x u else None) of
        None \<Rightarrow> []
      | Some n \<Rightarrow> [Dict_item nl, Value_string n])
   \<and> filter is_lookup (calls (logevt_uid x c u il nl)) =
     (if u \<noteq> - 1 \<and> resolve_users_groups c then [Getpwuid u] else [])
   \<and> \<not> aborted (logevt_uid x c u il nl)
   \<and> calls (logevt_uid x c (- 1) il nl) = [Dict_item il, Value_int (- 1)]
   \<and> filter (\<lambda>k. \<not> is_lookup k) (calls (logevt_gid x c g il nl)) =
     Dict_item il # (if g = - 1 then Value_int (- 1) else Value_uint (unat g)) #
     (case (if g \<noteq> - 1 \<and> resolve_users_groups c then getgrgid x g else None) of
        None \<Rightarrow> []
      | Some n \<Rightarrow> [Dict_item nl, Value_string n])
   \<and> filter is_lookup (calls (logevt_gid x c g il nl)) =
     (if g \<noteq> - 1 \<and> resolve_users_groups c then [Getgrgid g] else [])
   \<and> \<not> aborted (logevt_gid x c g il nl)
   \<and> calls (logevt_gid x c (- 1) il nl) = [Dict_item il, Value_int (- 1)]"
proof -
  have sentinel: "calls (logevt_uid x c (- 1) il nl) = [Dict_item il, Value_int (- 1)]"
    "calls (logevt_gid x c (- 1) il nl) = [Dict_item il, Value_int (- 1)]"
    by (simp_all add: calls_logevt_uid calls_logevt_gid)
  have user: "filter (\<lambda>k. \<not> is_lookup k) (calls (logevt_uid x c u il nl)) =
      Dict_item il # (if u = - 1 then Value_int (- 1) else Value_uint (unat u)) #
      (case (if u \<noteq> - 1 \<and> resolve_users_groups c then getpwuid x u else None) of
         None \<Rightarrow> []
       | Some n \<Rightarrow> [Dict_item nl, Value_string n])"
    "filter is_lookup (calls (logevt_uid x c u il nl)) =
      (if u \<noteq> - 1 \<and> resolve_users_groups c then [Getpwuid u] else [])"
    by (simp_all add: calls_logevt_uid split: option.splits)
  have group: "filter (\<lambda>k. \<not> is_lookup k) (calls (logevt_gid x c g il nl)) =
      Dict_item il # (if g = - 1 then Value_int (- 1) else Value_uint (unat g)) #
      (case (if g \<noteq> - 1 \<and> resolve_users_groups c then getgrgid x g else None) of
         None \<Rightarrow> []
       | Some n \<Rightarrow> [Dict_item nl, Value_string n])"
    "filter is_lookup (calls (logevt_gid x c g il nl)) =
      (if g \<noteq> - 1 \<and> resolve_users_groups c then [Getgrgid g] else [])"
    by (simp_all add: calls_logevt_gid split: option.splits)
  from sentinel user group show ?thesis
    by (simp only: aborted_logevt_uid aborted_logevt_gid simp_thms)
qed

subsection \<open>Observing sequences of calls\<close>

lemma nesting_append [simp]: "nesting (tr @ tr') = nesting tr + nesting tr'"
  by (induction tr rule: nesting.induct) simp_all

lemma keys_at_append [simp]:
  "keys_at d (tr @ tr') = keys_at d tr @ keys_at (d + nesting tr) tr'"
  by (induction d tr rule: keys_at.induct) (simp_all add: algebra_simps)

lemma dict_keys_append [simp]: "dict_keys (tr @ tr') = dict_keys tr @ dict_keys tr'"
  by (induction tr rule: dict_keys.induct) simp_all

lemma list_items_append [simp]: "list_items (tr @ tr') = list_items tr @ list_items tr'"
  by (induction tr rule: list_items.induct) simp_all

lemma records_append [simp]: "records (tr @ tr') = records tr @ records tr'"
  by (induction tr rule: records.induct) simp_all

text \<open>The observers go into the branches of a conditional statement.\<close>

lemma nesting_if [simp]:
  "nesting (if b then tr else tr') = (if b then nesting tr else nesting tr')"
  by simp

lemma keys_at_if [simp]:
  "keys_at d (if b then tr else tr') = (if b then keys_at d tr else keys_at d tr')"
  by simp

lemma dict_keys_if [simp]:
  "dict_keys (if b then tr else tr') = (if b then dict_keys tr else dict_keys tr')"
  by simp

lemma list_items_if [simp]:
  "list_items (if b then tr else tr') = (if b then list_items tr else list_items tr')"
  by simp

lemma records_if [simp]:
  "records (if b then tr else tr') = (if b then records tr else records tr')"
  by simp

lemma nesting_case_option [simp]:
  "nesting (case v of None \<Rightarrow> tr | Some y \<Rightarrow> f y) =
     (case v of None \<Rightarrow> nesting tr | Some y \<Rightarrow> nesting (f y))"
  by (simp split: option.splits)

lemma keys_at_case_option [simp]:
  "keys_at d (case v of None \<Rightarrow> tr | Some y \<Rightarrow> f y) =
     (case v of None \<Rightarrow> keys_at d tr | Some y \<Rightarrow> keys_at d (f y))"
  by (simp split: option.splits)

lemma dict_keys_case_option [simp]:
  "dict_keys (case v of None \<Rightarrow> tr | Some y \<Rightarrow> f y) =
     (case v of None \<Rightarrow> dict_keys tr | Some y \<Rightarrow> dict_keys (f y))"
  by (simp split: option.splits)

lemma list_items_case_option [simp]:
  "list_items (case v of None \<Rightarrow> tr | Some y \<Rightarrow> f y) =
     (case v of None \<Rightarrow> list_items tr | Some y \<Rightarrow> list_items (f y))"
  by (simp split: option.splits)

lemma records_case_option [simp]:
  "records (case v of None \<Rightarrow> tr | Some y \<Rightarrow> f y) =
     (case v of None \<Rightarrow> records tr | Some y \<Rightarrow> records (f y))"
  by (simp split: option.splits)

lemma set_if: "set (if b then tr else tr') = (if b then set tr else set tr')"
  by simp

lemma mem_if: "(k \<in> (if b then A else B)) = (if b then k \<in> A else k \<in> B)"
  by simp

lemma set_case_option:
  "set (case v of None \<Rightarrow> tr | Some y \<Rightarrow> f y) =
     (case v of None \<Rightarrow> set tr | Some y \<Rightarrow> set (f y))"
  by (simp split: option.splits)

lemma mem_case_option:
  "(k \<in> (case v of None \<Rightarrow> A | Some y \<Rightarrow> f y)) =
     (case v of None \<Rightarrow> k \<in> A | Some y \<Rightarrow> k \<in> f y)"
  by (simp split: option.splits)

lemmas push = set_if mem_if set_case_option mem_case_option

lemma dropWhile_key_append:
  "k \<notin> set (dict_keys tr) \<Longrightarrow>
   dropWhile (\<lambda>a. a \<noteq> Dict_item k) (tr @ tr') = dropWhile (\<lambda>a. a \<noteq> Dict_item k) tr'"
  by (induction tr rule: dict_keys.induct) auto

subsection \<open>The calls of the functions that render a part of a record\<close>

lemma nesting_logevt_uid [simp]: "nesting (calls (logevt_uid x c u il nl)) = 0"
  by (simp add: calls_logevt_uid cong: if_cong option.case_cong split del: if_split)

lemma nesting_logevt_gid [simp]: "nesting (calls (logevt_gid x c g il nl)) = 0"
  by (simp add: calls_logevt_gid cong: if_cong option.case_cong split del: if_split)

lemma dict_keys_logevt_uid [simp]:
  "dict_keys (calls (logevt_uid x c u il nl)) = id_keys c (getpwuid x) u il nl"
  by (simp add: calls_logevt_uid id_keys_def split: option.splits)

lemma dict_keys_logevt_gid [simp]:
  "dict_keys (calls (logevt_gid x c g il nl)) = id_keys c (getgrgid x) g il nl"
  by (simp add: calls_logevt_gid id_keys_def split: option.splits)

lemma keys_at_logevt_uid [simp]:
  "keys_at d (calls (logevt_uid x c u il nl)) =
     (if d = 1 then id_keys c (getpwuid x) u il nl else [])"
  by (simp add: calls_logevt_uid id_keys_def split: option.splits)

lemma keys_at_logevt_gid [simp]:
  "keys_at d (calls (logevt_gid x c g il nl)) =
     (if d = 1 then id_keys c (getgrgid x) g il nl else [])"
  by (simp add: calls_logevt_gid id_keys_def split: option.splits)

lemma records_logevt_uid [simp]: "records (calls (logevt_uid x c u il nl)) = []"
  by (simp add: calls_logevt_uid cong: if_cong option.case_cong split del: if_split)

lemma records_logevt_gid [simp]: "records (calls (logevt_gid x c g il nl)) = []"
  by (simp add: calls_logevt_gid cong: if_cong option.case_cong split del: if_split)

lemma aborted_strv_loop [simp]: "aborted (strv_loop l vs) = False"
  by (induction vs) simp_all

lemma aborted_counts_loop [simp]: "aborted (counts_loop ns) = False"
  by (induction ns) simp_all

lemma records_strv_loop [simp]: "records (calls (strv_loop l vs)) = []"
  by (induction vs) simp_all

lemma records_counts_loop [simp]: "records (calls (counts_loop ns)) = []"
  by (induction ns) simp_all

lemma aborted_image [simp]: "aborted (logevt_image_exec_image x c ie) = False"
  by (simp add: logevt_image_exec_image_def cong: if_cong option.case_cong split del: if_split)

lemma nesting_image [simp]: "nesting (calls (logevt_image_exec_image x c ie)) = 0"
  by (simp add: logevt_image_exec_image_def cong: if_cong option.case_cong split del: if_split)

lemma keys_at_image [simp]:
  "d \<noteq> 0 \<Longrightarrow> keys_at d (calls (logevt_image_exec_image x c ie)) = []"
  by (simp add: logevt_image_exec_image_def cong: if_cong option.case_cong split del: if_split)

lemma records_image [simp]: "records (calls (logevt_image_exec_image x c ie)) = []"
  by (simp add: logevt_image_exec_image_def cong: if_cong option.case_cong split del: if_split)

text \<open>The process-context rendering is aborted by its assertion, and by nothing else.\<close>

lemma aborted_pimage:
  "aborted (logevt_process_image_exec x c ie) =
     (case script ie of None \<Rightarrow> False | Some scr \<Rightarrow> image_exec.codesign scr \<noteq> None)"
  by (simp add: logevt_process_image_exec_def cong: if_cong option.case_cong split del: if_split)

lemma nesting_pimage [simp]:
  "\<not> aborted (logevt_process_image_exec x c ie) \<Longrightarrow>
   nesting (calls (logevt_process_image_exec x c ie)) = 0"
  by (simp add: logevt_process_image_exec_def cong: if_cong option.case_cong split del: if_split split: option.splits)

lemma keys_at_pimage [simp]:
  "1 \<le> d \<Longrightarrow> keys_at d (calls (logevt_process_image_exec x c ie)) = []"
  by (simp add: logevt_process_image_exec_def cong: if_cong option.case_cong split del: if_split)

lemma records_pimage [simp]: "records (calls (logevt_process_image_exec x c ie)) = []"
  by (simp add: logevt_process_image_exec_def cong: if_cong option.case_cong split del: if_split)

lemma list_items_pimage [simp]:
  "list_items (calls (logevt_process_image_exec x c ie)) = []"
  by (simp add: logevt_process_image_exec_def cong: if_cong option.case_cong split del: if_split)

lemma no_ancestors_key_pimage [simp]:
  "''ancestors'' \<notin> set (dict_keys (calls (logevt_process_image_exec x c ie)))"
  by (simp add: logevt_process_image_exec_def push cong: if_cong option.case_cong split del: if_split)

lemma records_ancestors_loop [simp]: "records (calls (ancestors_loop x c depth pie)) = []"
  by (induction x c depth pie rule: ancestors_loop.induct)
    (simp_all cong: if_cong split del: if_split)

lemma records_ancestors [simp]:
  "records (calls (logevt_process_image_exec_ancestors x c pie)) = []"
  by (simp add: logevt_process_image_exec_ancestors_def cong: if_cong split del: if_split)

lemma records_process [simp]: "records (calls (logevt_process x c p pp ie)) = []"
  by (simp add: logevt_process_def cong: if_cong option.case_cong split del: if_split)

text \<open>No assertion fails on a chain whose scripts are not signed.\<close>

lemma aborted_ancestors_loop:
  "scripts_unsigned pie \<Longrightarrow> \<not> aborted (ancestors_loop x c depth pie)"
  by (induction x c depth pie rule: ancestors_loop.induct)
    (simp_all add: aborted_pimage split: option.splits)

lemma aborted_ancestors:
  "scripts_unsigned pie \<Longrightarrow> \<not> aborted (logevt_process_image_exec_ancestors x c pie)"
  by (simp add: logevt_process_image_exec_ancestors_def aborted_ancestors_loop)

lemma aborted_process:
  "scripts_unsigned ie \<Longrightarrow> \<not> aborted (logevt_process x c p pp ie)"
  by (cases ie)
    (simp_all add: logevt_process_def aborted_pimage aborted_ancestors cong: if_cong option.case_cong split del: if_split
      split: option.splits)

lemma calls_logevt_header [simp]:
  "calls (logevt_header x (Some h)) =
     [Record_begin, Dict_begin,
      Dict_item ''version'', Value_uint (LOGEVT_VERSION x),
      Dict_item ''time'', Value_timespec (tv h),
      Dict_item ''eventcode'', Value_uint (code h)]"
  by (simp add: logevt_header_def)

lemma calls_logevt_header_None [simp]: "calls (logevt_header x None) = []"
  by (simp add: logevt_header_def)

lemma aborted_logevt_header [simp]: "aborted (logevt_header x h) = (h = None)"
  by (cases h) (simp_all add: logevt_header_def)

lemma calls_logevt_footer [simp]: "calls logevt_footer = [Dict_end, Record_end]"
  by (simp add: logevt_footer_def)

lemma aborted_logevt_footer [simp]: "aborted logevt_footer = False"
  by (simp add: logevt_footer_def)

subsection \<open>The envelope\<close>

lemma envelope_xnumon_ops:
  "snd (logevt_xnumon_ops x c (Some ops)) = Some 0 \<and>
   envelope (calls (logevt_xnumon_ops x c (Some ops)))"
  by (simp add: envelope_def snd_returning cong: if_cong option.case_cong split del: if_split)

lemma envelope_xnumon_stats:
  "snd (logevt_xnumon_stats x c (Some st)) = Some 0 \<and>
   envelope (calls (logevt_xnumon_stats x c (Some st)))"
  by (simp add: envelope_def snd_returning cong: if_cong option.case_cong split del: if_split)

lemma envelope_image_exec:
  "scripts_unsigned (prev ie) \<Longrightarrow>
   snd (logevt_image_exec x c (Some ie)) = Some 0 \<and>
   envelope (calls (logevt_image_exec x c (Some ie)))"
  by (simp add: envelope_def snd_returning aborted_process cong: if_cong option.case_cong split del: if_split)

lemma envelope_process_access:
  "scripts_unsigned (object_image_exec pa) \<Longrightarrow>
   scripts_unsigned (process_access.subject_image_exec pa) \<Longrightarrow>
   snd (logevt_process_access x c (Some pa)) = Some 0 \<and>
   envelope (calls (logevt_process_access x c (Some pa)))"
  by (simp add: envelope_def snd_returning aborted_process cong: if_cong option.case_cong split del: if_split)

lemma envelope_launchd_add:
  "scripts_unsigned (launchd_add.subject_image_exec ldadd) \<Longrightarrow>
   snd (logevt_launchd_add x c (Some ldadd)) = Some 0 \<and>
   envelope (calls (logevt_launchd_add x c (Some ldadd)))"
  by (simp add: envelope_def snd_returning aborted_process cong: if_cong option.case_cong split del: if_split)

lemma envelope_socket_listen:
  "scripts_unsigned (socket_op.subject_image_exec so) \<Longrightarrow>
   snd (logevt_socket_listen x c (Some so)) = Some 0 \<and>
   envelope (calls (logevt_socket_listen x c (Some so)))"
  by (simp add: envelope_def snd_returning aborted_process cong: if_cong option.case_cong split del: if_split)

lemma envelope_socket_accept:
  "scripts_unsigned (socket_op.subject_image_exec so) \<Longrightarrow>
   snd (logevt_socket_accept x c (Some so)) = Some 0 \<and>
   envelope (calls (logevt_socket_accept x c (Some so)))"
  by (simp add: envelope_def snd_returning aborted_process cong: if_cong option.case_cong split del: if_split)

lemma envelope_socket_connect:
  "scripts_unsigned (socket_op.subject_image_exec so) \<Longrightarrow>
   snd (logevt_socket_connect x c (Some so)) = Some 0 \<and>
   envelope (calls (logevt_socket_connect x c (Some so)))"
  by (simp add: envelope_def snd_returning aborted_process cong: if_cong option.case_cong split del: if_split)

lemma scripts_unsigned_examples:
  "scripts_unsigned (Some ex_sh)" "scripts_unsigned (Some ex_ls)"
  "scripts_unsigned (Some ex_launchd)"
  by (simp_all add: ex_sh_def ex_ls_def ex_launchd_def)

text \<open>
  C1. Each of the eight serializers, called on an event whose image executions have no
  signed script (the assertion of the process-context rendering), returns 0, and its calls
  are an envelope: exactly one \<^verbatim>\<open>record_begin\<close> and one \<^verbatim>\<open>record_end\<close>, as the first
  and the last call, and the first three keys are \<open>version\<close>, \<open>time\<close>, \<open>eventcode\<close>.
\<close>

theorem envelope_of_every_record:
  "(snd (logevt_xnumon_ops x c (Some ops)) = Some 0 \<and>
    envelope (calls (logevt_xnumon_ops x c (Some ops)))) \<and>
   (snd (logevt_xnumon_stats x c (Some st)) = Some 0 \<and>
    envelope (calls (logevt_xnumon_stats x c (Some st)))) \<and>
   (scripts_unsigned (prev ie) \<longrightarrow>
    snd (logevt_image_exec x c (Some ie)) = Some 0 \<and>
    envelope (calls (logevt_image_exec x c (Some ie)))) \<and>
   (scripts_unsigned (object_image_exec pa) \<and>
    scripts_unsigned (process_access.subject_image_exec pa) \<longrightarrow>
    snd (logevt_process_access x c (Some pa)) = Some 0 \<and>
    envelope (calls (logevt_process_access x c (Some pa)))) \<and>
   (scripts_unsigned (launchd_add.subject_image_exec ldadd) \<longrightarrow>
    snd (logevt_launchd_add x c (Some ldadd)) = Some 0 \<and>
    envelope (calls (logevt_launchd_add x c (Some ldadd)))) \<and>
   (scripts_unsigned (socket_op.subject_image_exec so) \<longrightarrow>
    snd (logevt_socket_listen x c (Some so)) = Some 0 \<and>
    envelope (calls (logevt_socket_listen x c (Some so))) \<and>
    snd (logevt_socket_accept x c (Some so)) = Some 0 \<and>
    envelope (calls (logevt_socket_accept x c (Some so))) \<and>
    snd (logevt_socket_connect x c (Some so)) = Some 0 \<and>
    envelope (calls (logevt_socket_connect x c (Some so))))"
proof -
  note envelope_xnumon_ops [of x c ops] envelope_xnumon_stats [of x c st]
    envelope_image_exec [of ie x c] envelope_process_access [of pa x c]
    envelope_launchd_add [of ldadd x c] envelope_socket_listen [of so x c]
    envelope_socket_accept [of so x c] envelope_socket_connect [of so x c]
  then show ?thesis by blast
qed

theorem envelope_of_every_record_witness:
  "scripts_unsigned (prev ex_sh) \<and>
   scripts_unsigned (object_image_exec ex_access) \<and>
   scripts_unsigned (process_access.subject_image_exec ex_access) \<and>
   scripts_unsigned (launchd_add.subject_image_exec ex_ldadd) \<and>
   scripts_unsigned (socket_op.subject_image_exec ex_so) \<and>
   envelope (calls (logevt_xnumon_ops ex_extern ex_config (Some ex_ops))) \<and>
   envelope (calls (logevt_xnumon_stats ex_extern ex_config (Some ex_st))) \<and>
   envelope (calls (logevt_image_exec ex_extern ex_config (Some ex_sh))) \<and>
   envelope (calls (logevt_process_access ex_extern ex_config (Some ex_access))) \<and>
   envelope (calls (logevt_launchd_add ex_extern ex_config (Some ex_ldadd))) \<and>
   envelope (calls (logevt_socket_listen ex_extern ex_config (Some ex_so))) \<and>
   envelope (calls (logevt_socket_accept ex_extern ex_config (Some ex_so))) \<and>
   snd (logevt_socket_connect ex_extern ex_config (Some ex_so)) = Some 0 \<and>
   envelope (calls (logevt_socket_connect ex_extern ex_config (Some ex_so)))"
proof -
  have "prev ex_sh = Some ex_ls" "object_image_exec ex_access = Some ex_ls"
    "process_access.subject_image_exec ex_access = Some ex_sh"
    "launchd_add.subject_image_exec ex_ldadd = Some ex_sh"
    "socket_op.subject_image_exec ex_so = Some ex_sh"
    by (simp_all add: ex_sh_def ex_access_def ex_ldadd_def ex_so_def)
  with scripts_unsigned_examples
  have "scripts_unsigned (prev ex_sh)" "scripts_unsigned (object_image_exec ex_access)"
    "scripts_unsigned (process_access.subject_image_exec ex_access)"
    "scripts_unsigned (launchd_add.subject_image_exec ex_ldadd)"
    "scripts_unsigned (socket_op.subject_image_exec ex_so)"
    by simp_all
  with envelope_of_every_record [of ex_extern ex_config ex_ops ex_st ex_sh ex_access
    ex_ldadd ex_so]
  show ?thesis by blast
qed

subsection \<open>The ancestors\<close>

lemma calls_ancestors_loop:
  "scripts_unsigned pie \<Longrightarrow> depth \<le> ancestors c \<Longrightarrow>
   calls (ancestors_loop x c depth pie) =
     concat (map (\<lambda>a. List_item ''ancestor'' # calls (logevt_process_image_exec x c a))
       (take (ancestors c - depth) (takeWhile (\<lambda>a. 0 < image_exec.pid a) (chain pie))))"
proof (induction x c depth pie rule: ancestors_loop.induct)
  case (1 x c depth)
  then show ?case by simp
next
  case (2 x c depth pie)
  show ?case
  proof (cases "0 < image_exec.pid pie \<and> depth \<noteq> ancestors c")
    case False
    then show ?thesis by auto
  next
    case True
    with "2.prems" have less: "depth + 1 \<le> ancestors c" by simp
    from "2.prems" have unsigned: "scripts_unsigned (prev pie)"
      and here: "\<not> aborted (logevt_process_image_exec x c pie)"
      by (simp_all add: aborted_pimage split: option.splits)
    from True less have more: "ancestors c - depth = Suc (ancestors c - (depth + 1))"
      by simp
    have "calls (ancestors_loop x c (depth + 1) (prev pie)) =
        concat (map (\<lambda>a. List_item ''ancestor'' # calls (logevt_process_image_exec x c a))
          (take (ancestors c - (depth + 1))
            (takeWhile (\<lambda>a. 0 < image_exec.pid a) (chain (prev pie)))))"
      using True unsigned less by (intro "2.IH") simp_all
    with True here show ?thesis
      by (simp add: more del: One_nat_def)
  qed
qed

lemma list_items_entries:
  "list_items (concat (map (\<lambda>a. List_item l # calls (logevt_process_image_exec x c a)) as)) =
     replicate (length as) l"
  by (induction as) simp_all

text \<open>
  C2. Let a process be rendered with an image execution attached, an ancestor depth D
  greater than zero, and no signed script on the chain (so that no assertion fails).
  From the key \<open>ancestors\<close> on, the calls of the process dictionary are that key, the
  ancestor list of the predecessor of the image, and the end of the dictionary. The list
  holds one entry, a label \<open>ancestor\<close> and a process-context rendering, for each of the
  first D nodes of the chain that come before the first node with a pid that is not
  positive, nearest first. So there are min D n entries when n nodes come before that
  node, and exactly D when there are more than D of them.
\<close>

theorem ancestors_walk:
  assumes "0 < ancestors c" and "scripts_unsigned (Some ie)"
  shows "dropWhile (\<lambda>k. k \<noteq> Dict_item ''ancestors'')
           (calls (logevt_process x c p pp (Some ie))) =
         Dict_item ''ancestors'' #
         calls (logevt_process_image_exec_ancestors x c (prev ie)) @ [Dict_end]
     \<and> calls (logevt_process_image_exec_ancestors x c (prev ie)) =
         List_begin #
         concat (map (\<lambda>a. List_item ''ancestor'' # calls (logevt_process_image_exec x c a))
           (take (ancestors c) (takeWhile (\<lambda>a. 0 < image_exec.pid a) (chain (prev ie))))) @
         [List_end]
     \<and> list_items (calls (logevt_process_image_exec_ancestors x c (prev ie))) =
         replicate
           (min (ancestors c)
              (length (takeWhile (\<lambda>a. 0 < image_exec.pid a) (chain (prev ie)))))
           ''ancestor''
     \<and> (ancestors c < length (takeWhile (\<lambda>a. 0 < image_exec.pid a) (chain (prev ie))) \<longrightarrow>
         list_items (calls (logevt_process_image_exec_ancestors x c (prev ie))) =
         replicate (ancestors c) ''ancestor'')"
proof -
  let ?walk = "takeWhile (\<lambda>a. 0 < image_exec.pid a) (chain (prev ie))"
  let ?entries =
    "concat (map (\<lambda>a. List_item ''ancestor'' # calls (logevt_process_image_exec x c a))
       (take (ancestors c) ?walk))"
  from assms have unsigned: "scripts_unsigned (prev ie)"
    and here: "\<not> aborted (logevt_process_image_exec x c ie)"
    by (simp_all add: aborted_pimage split: option.splits)
  have loop: "calls (ancestors_loop x c 0 (prev ie)) = ?entries"
    using calls_ancestors_loop [OF unsigned, of 0 c x] by simp
  have list: "calls (logevt_process_image_exec_ancestors x c (prev ie)) =
      List_begin # ?entries @ [List_end]"
    using unsigned
    by (simp add: logevt_process_image_exec_ancestors_def loop aborted_ancestors_loop)
  have returns: "\<not> aborted (logevt_process_image_exec_ancestors x c (prev ie))"
    using unsigned by (rule aborted_ancestors)
  have tail: "dropWhile (\<lambda>k. k \<noteq> Dict_item ''ancestors'')
        (calls (logevt_process x c p pp (Some ie))) =
      Dict_item ''ancestors'' #
      calls (logevt_process_image_exec_ancestors x c (prev ie)) @ [Dict_end]"
    using assms(1) here returns
    by (simp add: logevt_process_def dropWhile_key_append id_keys_def push
        cong: if_cong option.case_cong split del: if_split)
  have count: "list_items (calls (logevt_process_image_exec_ancestors x c (prev ie))) =
      replicate (min (ancestors c) (length ?walk)) ''ancestor''"
    by (simp add: list list_items_entries min.commute)
  from tail list count show ?thesis by simp
qed

theorem ancestors_walk_witness:
  "0 < ancestors ex_config \<and> scripts_unsigned (Some ex_sh) \<and>
   ancestors ex_config <
     length (takeWhile (\<lambda>a. 0 < image_exec.pid a) (chain (prev ex_sh))) \<and>
   calls (logevt_process_image_exec_ancestors ex_extern ex_config (prev ex_sh)) =
     List_begin # List_item ''ancestor'' #
     calls (logevt_process_image_exec ex_extern ex_config ex_ls) @ [List_end] \<and>
   list_items (calls (logevt_process_image_exec_ancestors ex_extern ex_config (prev ex_sh))) =
     [''ancestor'']"
proof -
  have depth: "0 < ancestors ex_config" "ancestors ex_config = 1"
    by (simp_all add: ex_config_def)
  have walk: "takeWhile (\<lambda>a. 0 < image_exec.pid a) (chain (prev ex_sh)) = [ex_ls, ex_launchd]"
    by (simp add: ex_sh_def ex_ls_def ex_launchd_def)
  from ancestors_walk [OF depth(1) scripts_unsigned_examples(1), of ex_extern]
  show ?thesis
    using depth scripts_unsigned_examples(1) by (simp add: walk)
qed

subsection \<open>The keys of the two renderings of an image\<close>

lemma filter_if:
  "filter P (if b then tr else tr') = (if b then filter P tr else filter P tr')"
  by simp

lemma filter_case_option:
  "filter P (case v of None \<Rightarrow> tr | Some y \<Rightarrow> f y) =
     (case v of None \<Rightarrow> filter P tr | Some y \<Rightarrow> filter P (f y))"
  by (simp split: option.splits)

lemma hash_key_iff:
  "k \<in> set (hash_keys x c) \<longleftrightarrow>
     k = ''md5'' \<and> hflags c AND HASH_MD5 x \<noteq> 0 \<or>
     k = ''sha1'' \<and> hflags c AND HASH_SHA1 x \<noteq> 0 \<or>
     k = ''sha256'' \<and> hflags c AND HASH_SHA256 x \<noteq> 0"
  by (auto simp add: hash_keys_def)

lemma present_iff [simp]: "k \<in> set (present v l) \<longleftrightarrow> v \<noteq> None \<and> k = l"
  by (cases v) (auto simp add: present_def)

lemma id_keys_iff:
  "k \<in> set (id_keys c lookup i il nl) \<longleftrightarrow>
     k = il \<or> k = nl \<and> i \<noteq> - 1 \<and> resolve_users_groups c \<and> lookup i \<noteq> None"
  by (auto simp add: id_keys_def)

lemma keys_image:
  "keys_at 0 (calls (logevt_image_exec_image x c ie)) =
     ''path'' #
     (if image_exec.flags ie AND (EIFLAG_STAT x OR EIFLAG_ATTR x) \<noteq> 0
      then (if omit_mode c then [] else [''mode'']) @
           id_keys c (getpwuid x) (uid (stat ie)) ''uid'' ''uname'' @
           (if omit_groups c then []
            else id_keys c (getgrgid x) (gid (stat ie)) ''gid'' ''gname'')
      else []) @
     (if image_exec.flags ie AND EIFLAG_STAT x \<noteq> 0
      then (if omit_size c then [] else [''size'']) @
           (if omit_mtime c then [] else [''mtime'']) @
           (if omit_ctime c then [] else [''ctime'']) @
           (if omit_btime c then [] else [''btime''])
      else []) @
     (if image_exec.flags ie AND EIFLAG_HASHES x \<noteq> 0 \<and>
         \<not> (omit_apple_hashes c \<and> apple_signed x ie)
      then hash_keys x c else []) @
     (case image_exec.codesign ie of
        None \<Rightarrow> []
      | Some cs \<Rightarrow>
          ''signature'' # (if origin cs \<noteq> 0 then [''origin''] else []) @
          present (cdhash cs) ''cdhash'' @ present (ident cs) ''ident'' @
          present (teamid cs) ''teamid'' @ present (certcn cs) ''certcn'')"
  by (simp add: logevt_image_exec_image_def hash_keys_def apple_signed_def present_def
      cong: if_cong option.case_cong split del: if_split)
    (simp split: option.splits)

lemma keys_pimage:
  "keys_at 0 (calls (logevt_process_image_exec x c ie)) =
     (if image_exec.flags ie AND EIFLAG_PIDLOOKUP x \<noteq> 0 then [] else [''exec_time'']) @
     [''exec_pid'', ''path''] @
     (if image_exec.flags ie AND EIFLAG_HASHES x \<noteq> 0 \<and>
         \<not> (omit_apple_hashes c \<and> apple_signed x ie)
      then hash_keys x c else []) @
     (case image_exec.codesign ie of
        None \<Rightarrow> []
      | Some cs \<Rightarrow>
          if codesign_is_good x cs
          then present (ident cs) ''ident'' @ present (teamid cs) ''teamid''
          else []) @
     present (script ie) ''script''"
  by (simp add: logevt_process_image_exec_def hash_keys_def apple_signed_def present_def
      cong: if_cong option.case_cong split del: if_split)
    (simp split: option.splits)

text \<open>
  C3. For an image that carries hashes, in the object-image rendering and in the
  process-context rendering alike: the key of a hash is among the keys of the rendering
  exactly when the configuration asks for that hash and it is not the case that both the
  switch \<^verbatim>\<open>omit_apple_hashes\<close> is set and the image carries a signature that
  \<^verbatim>\<open>codesign_is_apple_system\<close> accepts. So with the switch off the configured hashes are
  emitted whatever the signature is, and they are left out only under both conditions.
\<close>

theorem hashes_of_platform_binaries:
  assumes "image_exec.flags ie AND EIFLAG_HASHES x \<noteq> 0"
  shows "(''md5'' \<in> set (keys_at 0 (calls (logevt_image_exec_image x c ie))) \<longleftrightarrow>
          hflags c AND HASH_MD5 x \<noteq> 0 \<and> \<not> (omit_apple_hashes c \<and> apple_signed x ie)) \<and>
         (''sha1'' \<in> set (keys_at 0 (calls (logevt_image_exec_image x c ie))) \<longleftrightarrow>
          hflags c AND HASH_SHA1 x \<noteq> 0 \<and> \<not> (omit_apple_hashes c \<and> apple_signed x ie)) \<and>
         (''sha256'' \<in> set (keys_at 0 (calls (logevt_image_exec_image x c ie))) \<longleftrightarrow>
          hflags c AND HASH_SHA256 x \<noteq> 0 \<and> \<not> (omit_apple_hashes c \<and> apple_signed x ie)) \<and>
         (''md5'' \<in> set (keys_at 0 (calls (logevt_process_image_exec x c ie))) \<longleftrightarrow>
          hflags c AND HASH_MD5 x \<noteq> 0 \<and> \<not> (omit_apple_hashes c \<and> apple_signed x ie)) \<and>
         (''sha1'' \<in> set (keys_at 0 (calls (logevt_process_image_exec x c ie))) \<longleftrightarrow>
          hflags c AND HASH_SHA1 x \<noteq> 0 \<and> \<not> (omit_apple_hashes c \<and> apple_signed x ie)) \<and>
         (''sha256'' \<in> set (keys_at 0 (calls (logevt_process_image_exec x c ie))) \<longleftrightarrow>
          hflags c AND HASH_SHA256 x \<noteq> 0 \<and> \<not> (omit_apple_hashes c \<and> apple_signed x ie))"
proof -
  have image: "k \<in> set (keys_at 0 (calls (logevt_image_exec_image x c ie))) \<longleftrightarrow>
      k \<in> set (hash_keys x c) \<and> \<not> (omit_apple_hashes c \<and> apple_signed x ie)"
    if "k = ''md5'' \<or> k = ''sha1'' \<or> k = ''sha256''" for k
    using that assms
    by (elim disjE;
        simp add: keys_image id_keys_iff hash_key_iff push
          cong: if_cong option.case_cong split del: if_split)
      auto
  have process: "k \<in> set (keys_at 0 (calls (logevt_process_image_exec x c ie))) \<longleftrightarrow>
      k \<in> set (hash_keys x c) \<and> \<not> (omit_apple_hashes c \<and> apple_signed x ie)"
    if "k = ''md5'' \<or> k = ''sha1'' \<or> k = ''sha256''" for k
    using that assms
    by (elim disjE;
        simp add: keys_pimage hash_key_iff push
          cong: if_cong option.case_cong split del: if_split)
      auto
  show ?thesis
    by (simp add: image process hash_key_iff)
qed

text \<open>
  On the example: \<^verbatim>\<open>/bin/ls\<close> carries hashes and a platform signature, and the example
  configuration sets the switch, so none of its hashes is emitted; with the switch off all
  three are. \<^verbatim>\<open>/bin/sh\<close> is not signed and keeps its hashes under the switch.
\<close>

theorem hashes_of_platform_binaries_witness:
  "image_exec.flags ex_ls AND EIFLAG_HASHES ex_extern \<noteq> 0 \<and>
   ''md5'' \<notin> set (keys_at 0 (calls (logevt_image_exec_image ex_extern ex_config ex_ls))) \<and>
   ''sha256'' \<notin> set (keys_at 0 (calls (logevt_process_image_exec ex_extern ex_config ex_ls))) \<and>
   ''md5'' \<in> set (keys_at 0 (calls (logevt_image_exec_image ex_extern
      (ex_config\<lparr>omit_apple_hashes := False\<rparr>) ex_ls))) \<and>
   ''sha256'' \<in> set (keys_at 0 (calls (logevt_process_image_exec ex_extern
      (ex_config\<lparr>omit_apple_hashes := False\<rparr>) ex_ls))) \<and>
   ''sha1'' \<in> set (keys_at 0 (calls (logevt_process_image_exec ex_extern ex_config ex_sh)))"
proof -
  have flags: "image_exec.flags ex_ls AND EIFLAG_HASHES ex_extern \<noteq> 0"
    "image_exec.flags ex_sh AND EIFLAG_HASHES ex_extern \<noteq> 0"
    by (simp_all add: ex_ls_def ex_sh_def ex_extern_def)
  have signed: "apple_signed ex_extern ex_ls" "\<not> apple_signed ex_extern ex_sh"
    by (simp_all add: apple_signed_def ex_ls_def ex_sh_def ex_extern_def ex_codesign_def)
  have config: "omit_apple_hashes ex_config"
    "hflags ex_config AND HASH_MD5 ex_extern \<noteq> 0"
    "hflags ex_config AND HASH_SHA1 ex_extern \<noteq> 0"
    "hflags ex_config AND HASH_SHA256 ex_extern \<noteq> 0"
    by (simp_all add: ex_config_def ex_extern_def)
  from hashes_of_platform_binaries [OF flags(1), of ex_config]
    hashes_of_platform_binaries [OF flags(1), of "ex_config\<lparr>omit_apple_hashes := False\<rparr>"]
    hashes_of_platform_binaries [OF flags(2), of ex_config]
  show ?thesis
    using flags signed config by simp
qed

subsection \<open>The code signature\<close>

lemma image_signature_keys:
  "filter (\<lambda>k. k \<in> set signature_keys)
     (dict_keys (calls (logevt_image_exec_image x c ie))) =
     (case image_exec.codesign ie of
        None \<Rightarrow> []
      | Some cs \<Rightarrow>
          ''signature'' # (if origin cs \<noteq> 0 then [''origin''] else []) @
          present (cdhash cs) ''cdhash'' @ present (ident cs) ''ident'' @
          present (teamid cs) ''teamid'' @ present (certcn cs) ''certcn'')"
  by (simp add: logevt_image_exec_image_def signature_keys_def id_keys_def present_def
      filter_if filter_case_option cong: if_cong option.case_cong split del: if_split)

lemma pimage_signature_keys:
  "filter (\<lambda>k. k \<in> set signature_keys)
     (dict_keys (calls (logevt_process_image_exec x c ie))) =
     (case image_exec.codesign ie of
        None \<Rightarrow> []
      | Some cs \<Rightarrow>
          if codesign_is_good x cs
          then present (ident cs) ''ident'' @ present (teamid cs) ''teamid''
          else [])"
  by (simp add: logevt_process_image_exec_def signature_keys_def present_def
      filter_if filter_case_option cong: if_cong option.case_cong split del: if_split)

lemma image_signature_block:
  "image_exec.codesign ie = Some cs \<Longrightarrow>
   dropWhile (\<lambda>k. k \<noteq> Dict_item ''signature'') (calls (logevt_image_exec_image x c ie)) =
     [Dict_item ''signature'', Value_string (codesign_result_s x cs)] @
     (if origin cs \<noteq> 0
      then [Dict_item ''origin'', Value_string (codesign_origin_s x cs)] else []) @
     (case cdhash cs of
        None \<Rightarrow> [] | Some h \<Rightarrow> [Dict_item ''cdhash'', Value_buf_hex h (cdhashsz cs)]) @
     (case ident cs of None \<Rightarrow> [] | Some s \<Rightarrow> [Dict_item ''ident'', Value_string s]) @
     (case teamid cs of None \<Rightarrow> [] | Some s \<Rightarrow> [Dict_item ''teamid'', Value_string s]) @
     (case certcn cs of None \<Rightarrow> [] | Some s \<Rightarrow> [Dict_item ''certcn'', Value_string s]) @
     [Dict_end]"
  by (simp add: logevt_image_exec_image_def dropWhile_key_append id_keys_def push
      cong: if_cong option.case_cong split del: if_split)

lemma pimage_ident_value:
  "image_exec.codesign ie = Some cs \<Longrightarrow> codesign_is_good x cs \<Longrightarrow> ident cs = Some s \<Longrightarrow>
   take 2 (dropWhile (\<lambda>k. k \<noteq> Dict_item ''ident'')
     (calls (logevt_process_image_exec x c ie))) = [Dict_item ''ident'', Value_string s]"
  by (simp add: logevt_process_image_exec_def dropWhile_key_append push
      cong: if_cong option.case_cong split del: if_split)

lemma pimage_teamid_value:
  "image_exec.codesign ie = Some cs \<Longrightarrow> codesign_is_good x cs \<Longrightarrow> teamid cs = Some s \<Longrightarrow>
   take 2 (dropWhile (\<lambda>k. k \<noteq> Dict_item ''teamid'')
     (calls (logevt_process_image_exec x c ie))) = [Dict_item ''teamid'', Value_string s]"
  by (simp add: logevt_process_image_exec_def dropWhile_key_append push
      cong: if_cong option.case_cong split del: if_split)

subsection \<open>Keys that a rendering cannot emit\<close>

lemma filter_empty_absent: "filter P ks = [] \<Longrightarrow> P k \<Longrightarrow> k \<notin> set ks"
  by (auto simp add: filter_empty_conv)

lemma pimage_other_keys:
  "filter (\<lambda>k. k \<notin> set image_context_keys)
     (dict_keys (calls (logevt_process_image_exec x c ie))) = []"
  by (simp add: logevt_process_image_exec_def image_context_keys_def
      filter_if filter_case_option cong: if_cong option.case_cong split del: if_split)

lemma ancestors_loop_other_keys:
  "filter (\<lambda>k. k \<notin> set image_context_keys)
     (dict_keys (calls (ancestors_loop x c depth pie))) = []"
  by (induction x c depth pie rule: ancestors_loop.induct)
    (simp_all add: pimage_other_keys filter_if cong: if_cong split del: if_split)

lemma pimage_absent [simp]:
  "k \<notin> set image_context_keys \<Longrightarrow>
   k \<in> set (dict_keys (calls (logevt_process_image_exec x c ie))) \<longleftrightarrow> False"
  using filter_empty_absent [OF pimage_other_keys, of k x c ie] by simp

lemma ancestors_absent [simp]:
  "k \<notin> set image_context_keys \<Longrightarrow>
   k \<in> set (dict_keys (calls (logevt_process_image_exec_ancestors x c pie))) \<longleftrightarrow> False"
  using filter_empty_absent [OF ancestors_loop_other_keys, of k x c 0 pie]
  by (simp add: logevt_process_image_exec_ancestors_def push cong: if_cong split del: if_split)

lemma sid_absent:
  "omit_sid c \<Longrightarrow> ''sid'' \<notin> set (dict_keys (calls (logevt_process x c p pp ie)))"
  by (simp add: logevt_process_def id_keys_iff push image_context_keys_def
      cong: if_cong option.case_cong split del: if_split)

lemma groups_absent:
  "omit_groups c \<Longrightarrow> k \<in> {''egid'', ''egname'', ''rgid'', ''rgname''} \<Longrightarrow>
   k \<notin> set (dict_keys (calls (logevt_process x c p pp ie)))"
  by (simp, elim disjE;
      simp add: logevt_process_def id_keys_iff push image_context_keys_def
      cong: if_cong option.case_cong split del: if_split)

lemma no_signature_pimage:
  "''signature'' \<notin> set (dict_keys (calls (logevt_process_image_exec x c ie)))"
  by (simp add: image_context_keys_def)

text \<open>
  C4. With a code signature attached, the object-image rendering ends with the signature
  block: the key \<open>signature\<close> with the result, then \<open>origin\<close>, \<open>cdhash\<close>, \<open>ident\<close>,
  \<open>teamid\<close> and \<open>certcn\<close>, each if present, then the end of the dictionary. The
  process-context rendering of the same image has, of the keys of a signature, only
  \<open>ident\<close> and \<open>teamid\<close>, each if present and with its value, and only when
  \<^verbatim>\<open>codesign_is_good\<close> accepts the signature; otherwise, and without a signature, it has
  none of them. It never has the key \<open>signature\<close>, at any depth.
\<close>

theorem signature_fields:
  "(\<forall>cs. image_exec.codesign ie = Some cs \<longrightarrow>
      dropWhile (\<lambda>k. k \<noteq> Dict_item ''signature'')
        (calls (logevt_image_exec_image x c ie)) =
      [Dict_item ''signature'', Value_string (codesign_result_s x cs)] @
      (if origin cs \<noteq> 0
       then [Dict_item ''origin'', Value_string (codesign_origin_s x cs)] else []) @
      (case cdhash cs of
         None \<Rightarrow> [] | Some h \<Rightarrow> [Dict_item ''cdhash'', Value_buf_hex h (cdhashsz cs)]) @
      (case ident cs of None \<Rightarrow> [] | Some s \<Rightarrow> [Dict_item ''ident'', Value_string s]) @
      (case teamid cs of None \<Rightarrow> [] | Some s \<Rightarrow> [Dict_item ''teamid'', Value_string s]) @
      (case certcn cs of None \<Rightarrow> [] | Some s \<Rightarrow> [Dict_item ''certcn'', Value_string s]) @
      [Dict_end] \<and>
      filter (\<lambda>k. k \<in> set signature_keys)
        (dict_keys (calls (logevt_process_image_exec x c ie))) =
      (if codesign_is_good x cs
       then present (ident cs) ''ident'' @ present (teamid cs) ''teamid'' else []) \<and>
      (codesign_is_good x cs \<longrightarrow>
        (\<forall>s. ident cs = Some s \<longrightarrow>
           take 2 (dropWhile (\<lambda>k. k \<noteq> Dict_item ''ident'')
             (calls (logevt_process_image_exec x c ie))) =
           [Dict_item ''ident'', Value_string s]) \<and>
        (\<forall>s. teamid cs = Some s \<longrightarrow>
           take 2 (dropWhile (\<lambda>k. k \<noteq> Dict_item ''teamid'')
             (calls (logevt_process_image_exec x c ie))) =
           [Dict_item ''teamid'', Value_string s]))) \<and>
   (image_exec.codesign ie = None \<longrightarrow>
      filter (\<lambda>k. k \<in> set signature_keys)
        (dict_keys (calls (logevt_image_exec_image x c ie))) = [] \<and>
      filter (\<lambda>k. k \<in> set signature_keys)
        (dict_keys (calls (logevt_process_image_exec x c ie))) = []) \<and>
   ''signature'' \<notin> set (dict_keys (calls (logevt_process_image_exec x c ie)))"
proof (intro conjI allI impI)
  fix cs
  assume cs: "image_exec.codesign ie = Some cs"
  then show "dropWhile (\<lambda>k. k \<noteq> Dict_item ''signature'')
        (calls (logevt_image_exec_image x c ie)) =
      [Dict_item ''signature'', Value_string (codesign_result_s x cs)] @
      (if origin cs \<noteq> 0
       then [Dict_item ''origin'', Value_string (codesign_origin_s x cs)] else []) @
      (case cdhash cs of
         None \<Rightarrow> [] | Some h \<Rightarrow> [Dict_item ''cdhash'', Value_buf_hex h (cdhashsz cs)]) @
      (case ident cs of None \<Rightarrow> [] | Some s \<Rightarrow> [Dict_item ''ident'', Value_string s]) @
      (case teamid cs of None \<Rightarrow> [] | Some s \<Rightarrow> [Dict_item ''teamid'', Value_string s]) @
      (case certcn cs of None \<Rightarrow> [] | Some s \<Rightarrow> [Dict_item ''certcn'', Value_string s]) @
      [Dict_end]"
    by (rule image_signature_block)
  from cs show "filter (\<lambda>k. k \<in> set signature_keys)
        (dict_keys (calls (logevt_process_image_exec x c ie))) =
      (if codesign_is_good x cs
       then present (ident cs) ''ident'' @ present (teamid cs) ''teamid'' else [])"
    by (simp only: pimage_signature_keys option.case)
  fix s
  assume good: "codesign_is_good x cs"
  {
    assume "ident cs = Some s"
    with cs good show "take 2 (dropWhile (\<lambda>k. k \<noteq> Dict_item ''ident'')
             (calls (logevt_process_image_exec x c ie))) =
           [Dict_item ''ident'', Value_string s]"
      by (rule pimage_ident_value)
  }
  {
    assume "teamid cs = Some s"
    with cs good show "take 2 (dropWhile (\<lambda>k. k \<noteq> Dict_item ''teamid'')
             (calls (logevt_process_image_exec x c ie))) =
           [Dict_item ''teamid'', Value_string s]"
      by (rule pimage_teamid_value)
  }
next
  assume none: "image_exec.codesign ie = None"
  then show "filter (\<lambda>k. k \<in> set signature_keys)
        (dict_keys (calls (logevt_image_exec_image x c ie))) = []"
    by (simp only: image_signature_keys option.case)
  from none show "filter (\<lambda>k. k \<in> set signature_keys)
        (dict_keys (calls (logevt_process_image_exec x c ie))) = []"
    by (simp only: pimage_signature_keys option.case)
next
  show "''signature'' \<notin> set (dict_keys (calls (logevt_process_image_exec x c ie)))"
    by (rule no_signature_pimage)
qed

text \<open>
  On the example: \<^verbatim>\<open>/bin/ls\<close> has a good signature with an identifier and no team id;
  \<^verbatim>\<open>/sbin/launchd\<close> has no signature.
\<close>

theorem signature_fields_witness:
  "image_exec.codesign ex_ls = Some ex_codesign \<and>
   codesign_is_good ex_extern ex_codesign \<and>
   ident ex_codesign = Some ''com.apple.ls'' \<and>
   dropWhile (\<lambda>k. k \<noteq> Dict_item ''signature'')
     (calls (logevt_image_exec_image ex_extern ex_config ex_ls)) =
   [Dict_item ''signature'', Value_string ''good'',
    Dict_item ''origin'', Value_string ''system'',
    Dict_item ''cdhash'', Value_buf_hex (replicate 20 4) 20,
    Dict_item ''ident'', Value_string ''com.apple.ls'',
    Dict_end] \<and>
   filter (\<lambda>k. k \<in> set signature_keys)
     (dict_keys (calls (logevt_process_image_exec ex_extern ex_config ex_ls))) = [''ident''] \<and>
   take 2 (dropWhile (\<lambda>k. k \<noteq> Dict_item ''ident'')
     (calls (logevt_process_image_exec ex_extern ex_config ex_ls))) =
   [Dict_item ''ident'', Value_string ''com.apple.ls''] \<and>
   image_exec.codesign ex_launchd = None \<and>
   filter (\<lambda>k. k \<in> set signature_keys)
     (dict_keys (calls (logevt_process_image_exec ex_extern ex_config ex_launchd))) = []"
proof -
  have facts: "image_exec.codesign ex_ls = Some ex_codesign"
    "codesign_is_good ex_extern ex_codesign" "ident ex_codesign = Some ''com.apple.ls''"
    "teamid ex_codesign = None" "certcn ex_codesign = None"
    "cdhash ex_codesign = Some (replicate 20 4)" "cdhashsz ex_codesign = 20"
    "origin ex_codesign \<noteq> 0" "codesign_result_s ex_extern ex_codesign = ''good''"
    "codesign_origin_s ex_extern ex_codesign = ''system''"
    "image_exec.codesign ex_launchd = None"
    by (simp_all add: ex_ls_def ex_launchd_def ex_extern_def ex_codesign_def)
  from signature_fields [of ex_ls ex_extern ex_config]
    signature_fields [of ex_launchd ex_extern ex_config]
  show ?thesis
    by (simp add: facts present_def)
qed

subsection \<open>The switches that omit a field\<close>

lemma removed_refl: "removed [] tr tr"
  by simp

lemma removed_Cons: "removed fs off on \<Longrightarrow> removed fs (k # off) (k # on)"
proof (cases fs)
  case Nil
  then show "removed fs off on \<Longrightarrow> removed fs (k # off) (k # on)" by simp
next
  case (Cons f fs')
  assume "removed fs off on"
  with Cons obtain pre post post'
    where "off = pre @ f @ post" "on = pre @ post'" "removed fs' post post'"
    by auto
  then have "k # off = (k # pre) @ f @ post \<and> k # on = (k # pre) @ post' \<and>
      removed fs' post post'"
    by simp
  then have "removed (f # fs') (k # off) (k # on)"
    unfolding removed.simps by blast
  with Cons show "removed fs (k # off) (k # on)" by simp
qed


lemma removed_append: "removed fs off on \<Longrightarrow> removed fs (tr @ off) (tr @ on)"
  by (induction tr) (simp_all add: removed_Cons)

lemma removed_here: "removed fs off on \<Longrightarrow> removed (f # fs) (f @ off) on"
  unfolding removed.simps by (intro exI [of _ "[]"] exI [of _ off] exI [of _ on]) simp

lemma removed_here2: "removed fs off on \<Longrightarrow> removed ([a, b] # fs) (a # b # off) on"
  using removed_here [of fs off on "[a, b]"] by simp

declare removed.simps [simp del]



lemma logevt_uid_config:
  "resolve_users_groups c' = resolve_users_groups c \<Longrightarrow>
   logevt_uid x c' = logevt_uid x c"
  by (intro ext) (simp add: logevt_uid_def)

lemma logevt_gid_config:
  "resolve_users_groups c' = resolve_users_groups c \<Longrightarrow>
   logevt_gid x c' = logevt_gid x c"
  by (intro ext) (simp add: logevt_gid_def)


lemma pimage_config:
  assumes "omit_apple_hashes c' = omit_apple_hashes c" and "hflags c' = hflags c"
  shows "logevt_process_image_exec x c' = logevt_process_image_exec x c"
  by (intro ext)
    (simp add: logevt_process_image_exec_def assms
      cong: if_cong option.case_cong split del: if_split)


lemma ancestors_loop_config:
  assumes "omit_apple_hashes c' = omit_apple_hashes c" and "hflags c' = hflags c"
    and "ancestors c' = ancestors c"
  shows "ancestors_loop x c' depth pie = ancestors_loop x c depth pie"
proof -
  have image: "logevt_process_image_exec y c' = logevt_process_image_exec y c" for y
    using assms(1,2) by (rule pimage_config)
  have "ancestors_loop x c' depth pie = ancestors_loop x c depth pie"
    if "c'' = c'" for c''
    using that
  proof (induction x c'' depth pie rule: ancestors_loop.induct)
    case (1 x c depth)
    show ?case by simp
  next
    case (2 x c'' depth pie)
    then show ?case by (simp add: image assms(3))
  qed
  then show ?thesis by simp
qed

lemma ancestors_config:
  assumes "omit_apple_hashes c' = omit_apple_hashes c" and "hflags c' = hflags c"
    and "ancestors c' = ancestors c"
  shows "logevt_process_image_exec_ancestors x c' = logevt_process_image_exec_ancestors x c"
  by (intro ext)
    (simp add: logevt_process_image_exec_ancestors_def ancestors_loop_config [OF assms])

lemma mode_gate:
  assumes "image_exec.flags ie AND (EIFLAG_STAT x OR EIFLAG_ATTR x) \<noteq> 0"
  shows "removed [[Dict_item ''mode'', Value_uint_oct (mode (stat ie))]]
     (calls (logevt_image_exec_image x (c\<lparr>omit_mode := False\<rparr>) ie))
     (calls (logevt_image_exec_image x (c\<lparr>omit_mode := True\<rparr>) ie))"
  using assms
  apply (simp add: logevt_image_exec_image_def
      logevt_uid_config [of "c\<lparr>omit_mode := b\<rparr>" c for b]
      logevt_gid_config [of "c\<lparr>omit_mode := b\<rparr>" c for b]
      cong: if_cong option.case_cong split del: if_split)
  apply (intro removed_Cons removed_append)
  apply (rule removed_here2)
  apply (rule removed_refl)
  done

lemma image_groups_gate:
  assumes "image_exec.flags ie AND (EIFLAG_STAT x OR EIFLAG_ATTR x) \<noteq> 0"
  shows "removed [calls (logevt_gid x c (gid (stat ie)) ''gid'' ''gname'')]
     (calls (logevt_image_exec_image x (c\<lparr>omit_groups := False\<rparr>) ie))
     (calls (logevt_image_exec_image x (c\<lparr>omit_groups := True\<rparr>) ie))"
  using assms
  apply (simp add: logevt_image_exec_image_def
      logevt_uid_config [of "c\<lparr>omit_groups := b\<rparr>" c for b]
      logevt_gid_config [of "c\<lparr>omit_groups := b\<rparr>" c for b]
      cong: if_cong option.case_cong split del: if_split)
  apply (intro removed_Cons removed_append)
  apply (rule removed_here)
  apply (rule removed_refl)
  done

lemma size_gate:
  assumes "image_exec.flags ie AND EIFLAG_STAT x \<noteq> 0"
  shows "removed [[Dict_item ''size'', Value_uint (st_size (stat ie))]]
     (calls (logevt_image_exec_image x (c\<lparr>omit_size := False\<rparr>) ie))
     (calls (logevt_image_exec_image x (c\<lparr>omit_size := True\<rparr>) ie))"
  using assms
  apply (simp add: logevt_image_exec_image_def
      logevt_uid_config [of "c\<lparr>omit_size := b\<rparr>" c for b]
      logevt_gid_config [of "c\<lparr>omit_size := b\<rparr>" c for b]
      cong: if_cong option.case_cong split del: if_split)
  apply (intro removed_Cons removed_append)
  apply (rule removed_here2)
  apply (rule removed_refl)
  done

lemma mtime_gate:
  assumes "image_exec.flags ie AND EIFLAG_STAT x \<noteq> 0"
  shows "removed [[Dict_item ''mtime'', Value_timespec (mtime (stat ie))]]
     (calls (logevt_image_exec_image x (c\<lparr>omit_mtime := False\<rparr>) ie))
     (calls (logevt_image_exec_image x (c\<lparr>omit_mtime := True\<rparr>) ie))"
  using assms
  apply (simp add: logevt_image_exec_image_def
      logevt_uid_config [of "c\<lparr>omit_mtime := b\<rparr>" c for b]
      logevt_gid_config [of "c\<lparr>omit_mtime := b\<rparr>" c for b]
      cong: if_cong option.case_cong split del: if_split)
  apply (intro removed_Cons removed_append)
  apply (rule removed_here2)
  apply (rule removed_refl)
  done

lemma ctime_gate:
  assumes "image_exec.flags ie AND EIFLAG_STAT x \<noteq> 0"
  shows "removed [[Dict_item ''ctime'', Value_timespec (ctime (stat ie))]]
     (calls (logevt_image_exec_image x (c\<lparr>omit_ctime := False\<rparr>) ie))
     (calls (logevt_image_exec_image x (c\<lparr>omit_ctime := True\<rparr>) ie))"
  using assms
  apply (simp add: logevt_image_exec_image_def
      logevt_uid_config [of "c\<lparr>omit_ctime := b\<rparr>" c for b]
      logevt_gid_config [of "c\<lparr>omit_ctime := b\<rparr>" c for b]
      cong: if_cong option.case_cong split del: if_split)
  apply (intro removed_Cons removed_append)
  apply (rule removed_here2)
  apply (rule removed_refl)
  done

lemma btime_gate:
  assumes "image_exec.flags ie AND EIFLAG_STAT x \<noteq> 0"
  shows "removed [[Dict_item ''btime'', Value_timespec (btime (stat ie))]]
     (calls (logevt_image_exec_image x (c\<lparr>omit_btime := False\<rparr>) ie))
     (calls (logevt_image_exec_image x (c\<lparr>omit_btime := True\<rparr>) ie))"
  using assms
  apply (simp add: logevt_image_exec_image_def
      logevt_uid_config [of "c\<lparr>omit_btime := b\<rparr>" c for b]
      logevt_gid_config [of "c\<lparr>omit_btime := b\<rparr>" c for b]
      cong: if_cong option.case_cong split del: if_split)
  apply (intro removed_Cons removed_append)
  apply (rule removed_here2)
  apply (rule removed_refl)
  done

lemma sid_gate:
  assumes "\<not> 0 < pp"
  shows "removed [[Dict_item ''sid'', Value_uint (sid p)]]
     (calls (logevt_process x (c\<lparr>omit_sid := False\<rparr>) (Some p) pp ie))
     (calls (logevt_process x (c\<lparr>omit_sid := True\<rparr>) (Some p) pp ie))"
  using assms
  apply (simp add: logevt_process_def
      logevt_uid_config [of "c\<lparr>omit_sid := b\<rparr>" c for b]
      logevt_gid_config [of "c\<lparr>omit_sid := b\<rparr>" c for b]
      pimage_config [of "c\<lparr>omit_sid := b\<rparr>" c for b]
      ancestors_config [of "c\<lparr>omit_sid := b\<rparr>" c for b]
      cong: if_cong option.case_cong split del: if_split)
  apply (intro removed_Cons removed_append)
  apply (rule removed_here2)
  apply (rule removed_refl)
  done

lemma process_groups_gate:
  assumes "\<not> 0 < pp"
  shows "removed [calls (logevt_gid x c (egid p) ''egid'' ''egname''),
                  calls (logevt_gid x c (rgid p) ''rgid'' ''rgname'')]
     (calls (logevt_process x (c\<lparr>omit_groups := False\<rparr>) (Some p) pp ie))
     (calls (logevt_process x (c\<lparr>omit_groups := True\<rparr>) (Some p) pp ie))"
  using assms
  apply (simp add: logevt_process_def
      logevt_uid_config [of "c\<lparr>omit_groups := b\<rparr>" c for b]
      logevt_gid_config [of "c\<lparr>omit_groups := b\<rparr>" c for b]
      pimage_config [of "c\<lparr>omit_groups := b\<rparr>" c for b]
      ancestors_config [of "c\<lparr>omit_groups := b\<rparr>" c for b]
      cong: if_cong option.case_cong split del: if_split)
  apply (intro removed_Cons removed_append)
  apply (rule removed_here)
  apply (intro removed_Cons removed_append)
  apply (rule removed_here)
  apply (rule removed_refl)
  done

lemma process_aborted_config:
  assumes "omit_apple_hashes c' = omit_apple_hashes c" and "hflags c' = hflags c"
    and "ancestors c' = ancestors c"
  shows "aborted (logevt_process x c' p pp ie) = aborted (logevt_process x c p pp ie)"
  by (simp add: logevt_process_def pimage_config [OF assms(1,2)] ancestors_config [OF assms]
      assms(3) cong: if_cong option.case_cong split del: if_split)

lemma image_key_absent:
  "omit_mode c \<Longrightarrow> ''mode'' \<notin> set (dict_keys (calls (logevt_image_exec_image x c ie)))"
  "omit_groups c \<Longrightarrow> ''gid'' \<notin> set (dict_keys (calls (logevt_image_exec_image x c ie)))"
  "omit_groups c \<Longrightarrow> ''gname'' \<notin> set (dict_keys (calls (logevt_image_exec_image x c ie)))"
  "omit_size c \<Longrightarrow> ''size'' \<notin> set (dict_keys (calls (logevt_image_exec_image x c ie)))"
  "omit_mtime c \<Longrightarrow> ''mtime'' \<notin> set (dict_keys (calls (logevt_image_exec_image x c ie)))"
  "omit_ctime c \<Longrightarrow> ''ctime'' \<notin> set (dict_keys (calls (logevt_image_exec_image x c ie)))"
  "omit_btime c \<Longrightarrow> ''btime'' \<notin> set (dict_keys (calls (logevt_image_exec_image x c ie)))"
  by (simp_all add: logevt_image_exec_image_def id_keys_iff push
      cong: if_cong option.case_cong split del: if_split)

text \<open>
  C6. For each of the seven switches, with the data present: the calls with the switch
  on are the calls with the switch off with the calls of the gated field cut out and
  nothing else changed, and with the switch on the key of the field occurs nowhere. The
  fields of the image dictionary are gated in \<^verbatim>\<open>logevt_image_exec_image\<close>: \<open>mode\<close> and
  the group (\<open>gid\<close>, \<open>gname\<close>) when the stat or the attributes are there, \<open>size\<close>,
  \<open>mtime\<close>, \<open>ctime\<close> and \<open>btime\<close> when the stat is there. Those of the process
  dictionary are gated in \<^verbatim>\<open>logevt_process\<close> when the process descriptor is used: \<open>sid\<close>,
  and the two groups (\<open>egid\<close>, \<open>egname\<close> and \<open>rgid\<close>, \<open>rgname\<close>). A switch does not
  change whether the rendering is aborted.
\<close>

theorem redaction_switches:
  "(image_exec.flags ie AND (EIFLAG_STAT x OR EIFLAG_ATTR x) \<noteq> 0 \<longrightarrow>
      removed [[Dict_item ''mode'', Value_uint_oct (mode (stat ie))]]
        (calls (logevt_image_exec_image x (c\<lparr>omit_mode := False\<rparr>) ie))
        (calls (logevt_image_exec_image x (c\<lparr>omit_mode := True\<rparr>) ie)) \<and>
      ''mode'' \<notin> set (dict_keys
        (calls (logevt_image_exec_image x (c\<lparr>omit_mode := True\<rparr>) ie))) \<and>
      removed [calls (logevt_gid x c (gid (stat ie)) ''gid'' ''gname'')]
        (calls (logevt_image_exec_image x (c\<lparr>omit_groups := False\<rparr>) ie))
        (calls (logevt_image_exec_image x (c\<lparr>omit_groups := True\<rparr>) ie)) \<and>
      ''gid'' \<notin> set (dict_keys
        (calls (logevt_image_exec_image x (c\<lparr>omit_groups := True\<rparr>) ie))) \<and>
      ''gname'' \<notin> set (dict_keys
        (calls (logevt_image_exec_image x (c\<lparr>omit_groups := True\<rparr>) ie)))) \<and>
   (image_exec.flags ie AND EIFLAG_STAT x \<noteq> 0 \<longrightarrow>
      removed [[Dict_item ''size'', Value_uint (st_size (stat ie))]]
        (calls (logevt_image_exec_image x (c\<lparr>omit_size := False\<rparr>) ie))
        (calls (logevt_image_exec_image x (c\<lparr>omit_size := True\<rparr>) ie)) \<and>
      ''size'' \<notin> set (dict_keys
        (calls (logevt_image_exec_image x (c\<lparr>omit_size := True\<rparr>) ie))) \<and>
      removed [[Dict_item ''mtime'', Value_timespec (mtime (stat ie))]]
        (calls (logevt_image_exec_image x (c\<lparr>omit_mtime := False\<rparr>) ie))
        (calls (logevt_image_exec_image x (c\<lparr>omit_mtime := True\<rparr>) ie)) \<and>
      ''mtime'' \<notin> set (dict_keys
        (calls (logevt_image_exec_image x (c\<lparr>omit_mtime := True\<rparr>) ie))) \<and>
      removed [[Dict_item ''ctime'', Value_timespec (ctime (stat ie))]]
        (calls (logevt_image_exec_image x (c\<lparr>omit_ctime := False\<rparr>) ie))
        (calls (logevt_image_exec_image x (c\<lparr>omit_ctime := True\<rparr>) ie)) \<and>
      ''ctime'' \<notin> set (dict_keys
        (calls (logevt_image_exec_image x (c\<lparr>omit_ctime := True\<rparr>) ie))) \<and>
      removed [[Dict_item ''btime'', Value_timespec (btime (stat ie))]]
        (calls (logevt_image_exec_image x (c\<lparr>omit_btime := False\<rparr>) ie))
        (calls (logevt_image_exec_image x (c\<lparr>omit_btime := True\<rparr>) ie)) \<and>
      ''btime'' \<notin> set (dict_keys
        (calls (logevt_image_exec_image x (c\<lparr>omit_btime := True\<rparr>) ie)))) \<and>
   (\<not> 0 < pp \<longrightarrow>
      removed [[Dict_item ''sid'', Value_uint (sid p)]]
        (calls (logevt_process x (c\<lparr>omit_sid := False\<rparr>) (Some p) pp pie))
        (calls (logevt_process x (c\<lparr>omit_sid := True\<rparr>) (Some p) pp pie)) \<and>
      ''sid'' \<notin> set (dict_keys
        (calls (logevt_process x (c\<lparr>omit_sid := True\<rparr>) (Some p) pp pie))) \<and>
      aborted (logevt_process x (c\<lparr>omit_sid := True\<rparr>) (Some p) pp pie) =
      aborted (logevt_process x (c\<lparr>omit_sid := False\<rparr>) (Some p) pp pie) \<and>
      removed [calls (logevt_gid x c (egid p) ''egid'' ''egname''),
               calls (logevt_gid x c (rgid p) ''rgid'' ''rgname'')]
        (calls (logevt_process x (c\<lparr>omit_groups := False\<rparr>) (Some p) pp pie))
        (calls (logevt_process x (c\<lparr>omit_groups := True\<rparr>) (Some p) pp pie)) \<and>
      ''egid'' \<notin> set (dict_keys
        (calls (logevt_process x (c\<lparr>omit_groups := True\<rparr>) (Some p) pp pie))) \<and>
      ''egname'' \<notin> set (dict_keys
        (calls (logevt_process x (c\<lparr>omit_groups := True\<rparr>) (Some p) pp pie))) \<and>
      ''rgid'' \<notin> set (dict_keys
        (calls (logevt_process x (c\<lparr>omit_groups := True\<rparr>) (Some p) pp pie))) \<and>
      ''rgname'' \<notin> set (dict_keys
        (calls (logevt_process x (c\<lparr>omit_groups := True\<rparr>) (Some p) pp pie))) \<and>
      aborted (logevt_process x (c\<lparr>omit_groups := True\<rparr>) (Some p) pp pie) =
      aborted (logevt_process x (c\<lparr>omit_groups := False\<rparr>) (Some p) pp pie))"
proof (intro conjI impI)
  assume "image_exec.flags ie AND (EIFLAG_STAT x OR EIFLAG_ATTR x) \<noteq> 0"
  then show "removed [[Dict_item ''mode'', Value_uint_oct (mode (stat ie))]]
        (calls (logevt_image_exec_image x (c\<lparr>omit_mode := False\<rparr>) ie))
        (calls (logevt_image_exec_image x (c\<lparr>omit_mode := True\<rparr>) ie))"
    and "removed [calls (logevt_gid x c (gid (stat ie)) ''gid'' ''gname'')]
        (calls (logevt_image_exec_image x (c\<lparr>omit_groups := False\<rparr>) ie))
        (calls (logevt_image_exec_image x (c\<lparr>omit_groups := True\<rparr>) ie))"
    by (rule mode_gate, rule image_groups_gate)
next
  assume "image_exec.flags ie AND EIFLAG_STAT x \<noteq> 0"
  then show "removed [[Dict_item ''size'', Value_uint (st_size (stat ie))]]
        (calls (logevt_image_exec_image x (c\<lparr>omit_size := False\<rparr>) ie))
        (calls (logevt_image_exec_image x (c\<lparr>omit_size := True\<rparr>) ie))"
    and "removed [[Dict_item ''mtime'', Value_timespec (mtime (stat ie))]]
        (calls (logevt_image_exec_image x (c\<lparr>omit_mtime := False\<rparr>) ie))
        (calls (logevt_image_exec_image x (c\<lparr>omit_mtime := True\<rparr>) ie))"
    and "removed [[Dict_item ''ctime'', Value_timespec (ctime (stat ie))]]
        (calls (logevt_image_exec_image x (c\<lparr>omit_ctime := False\<rparr>) ie))
        (calls (logevt_image_exec_image x (c\<lparr>omit_ctime := True\<rparr>) ie))"
    and "removed [[Dict_item ''btime'', Value_timespec (btime (stat ie))]]
        (calls (logevt_image_exec_image x (c\<lparr>omit_btime := False\<rparr>) ie))
        (calls (logevt_image_exec_image x (c\<lparr>omit_btime := True\<rparr>) ie))"
    by (rule size_gate, rule mtime_gate, rule ctime_gate, rule btime_gate)
next
  assume "\<not> 0 < pp"
  then show "removed [[Dict_item ''sid'', Value_uint (sid p)]]
        (calls (logevt_process x (c\<lparr>omit_sid := False\<rparr>) (Some p) pp pie))
        (calls (logevt_process x (c\<lparr>omit_sid := True\<rparr>) (Some p) pp pie))"
    and "removed [calls (logevt_gid x c (egid p) ''egid'' ''egname''),
               calls (logevt_gid x c (rgid p) ''rgid'' ''rgname'')]
        (calls (logevt_process x (c\<lparr>omit_groups := False\<rparr>) (Some p) pp pie))
        (calls (logevt_process x (c\<lparr>omit_groups := True\<rparr>) (Some p) pp pie))"
    by (rule sid_gate, rule process_groups_gate)
qed (simp_all add: image_key_absent sid_absent groups_absent
    process_aborted_config [of "c\<lparr>omit_sid := True\<rparr>" "c\<lparr>omit_sid := False\<rparr>"]
    process_aborted_config [of "c\<lparr>omit_groups := True\<rparr>" "c\<lparr>omit_groups := False\<rparr>"])

theorem redaction_switches_witness:
  "image_exec.flags ex_ls AND (EIFLAG_STAT ex_extern OR EIFLAG_ATTR ex_extern) \<noteq> 0 \<and>
   image_exec.flags ex_ls AND EIFLAG_STAT ex_extern \<noteq> 0 \<and>
   \<not> 0 < (0 :: int) \<and>
   removed [[Dict_item ''mode'', Value_uint_oct (mode (stat ex_ls))]]
     (calls (logevt_image_exec_image ex_extern (ex_config\<lparr>omit_mode := False\<rparr>) ex_ls))
     (calls (logevt_image_exec_image ex_extern (ex_config\<lparr>omit_mode := True\<rparr>) ex_ls)) \<and>
   ''mode'' \<notin> set (dict_keys
     (calls (logevt_image_exec_image ex_extern (ex_config\<lparr>omit_mode := True\<rparr>) ex_ls))) \<and>
   removed [[Dict_item ''btime'', Value_timespec (btime (stat ex_ls))]]
     (calls (logevt_image_exec_image ex_extern (ex_config\<lparr>omit_btime := False\<rparr>) ex_ls))
     (calls (logevt_image_exec_image ex_extern (ex_config\<lparr>omit_btime := True\<rparr>) ex_ls)) \<and>
   removed [[Dict_item ''sid'', Value_uint (sid ex_proc)]]
     (calls (logevt_process ex_extern (ex_config\<lparr>omit_sid := False\<rparr>) (Some ex_proc) 0
        (Some ex_sh)))
     (calls (logevt_process ex_extern (ex_config\<lparr>omit_sid := True\<rparr>) (Some ex_proc) 0
        (Some ex_sh))) \<and>
   ''rgid'' \<notin> set (dict_keys
     (calls (logevt_process ex_extern (ex_config\<lparr>omit_groups := True\<rparr>) (Some ex_proc) 0
        (Some ex_sh))))"
proof -
  have present: "image_exec.flags ex_ls AND (EIFLAG_STAT ex_extern OR EIFLAG_ATTR ex_extern) \<noteq> 0"
    "image_exec.flags ex_ls AND EIFLAG_STAT ex_extern \<noteq> 0" "\<not> 0 < (0 :: int)"
    by (simp_all add: ex_ls_def ex_extern_def)
  with redaction_switches [where ie = ex_ls and x = ex_extern and c = ex_config and pp = 0
    and p = ex_proc and pie = "Some ex_sh"]
  show ?thesis by blast
qed

subsection \<open>The process dictionary\<close>

lemma keys_at_strv_loop [simp]: "keys_at d (calls (strv_loop l vs)) = []"
  by (induction vs) simp_all

lemma nesting_strv_loop [simp]: "nesting (calls (strv_loop l vs)) = 0"
  by (induction vs) simp_all

lemma keys_at_ancestors_loop [simp]:
  "1 \<le> d \<Longrightarrow> keys_at d (calls (ancestors_loop x c depth pie)) = []"
  by (induction x c depth pie rule: ancestors_loop.induct)
    (simp_all cong: if_cong split del: if_split)

lemma keys_at_ancestors [simp]:
  "0 \<le> d \<Longrightarrow> keys_at d (calls (logevt_process_image_exec_ancestors x c pie)) = []"
  by (simp add: logevt_process_image_exec_ancestors_def cong: if_cong split del: if_split)

lemma keys_at_process [simp]:
  "1 \<le> d \<Longrightarrow> keys_at d (calls (logevt_process x c p pp ie)) = []"
  by (simp add: logevt_process_def cong: if_cong option.case_cong split del: if_split)

lemma keys_process_pid:
  "0 < pp \<Longrightarrow>
   keys_at 0 (calls (logevt_process x c p pp ie)) =
     reconstructed_keys x ie @ [''pid''] @ attached_keys x c ie"
  by (simp add: logevt_process_def reconstructed_keys_def attached_keys_def
      cong: if_cong option.case_cong split del: if_split)

lemma keys_process_descriptor:
  "\<not> 0 < pp \<Longrightarrow>
   keys_at 0 (calls (logevt_process x c (Some p) pp ie)) =
     reconstructed_keys x ie @
     ''pid'' #
     id_keys c (getpwuid x) (auid p) ''auid'' ''auname'' @
     id_keys c (getpwuid x) (euid p) ''euid'' ''euname'' @
     (if \<not> omit_groups c then id_keys c (getgrgid x) (egid p) ''egid'' ''egname'' else []) @
     id_keys c (getpwuid x) (ruid p) ''ruid'' ''runame'' @
     (if \<not> omit_groups c then id_keys c (getgrgid x) (rgid p) ''rgid'' ''rgname'' else []) @
     (if \<not> omit_sid c then [''sid''] else []) @
     (if dev p \<noteq> - 1 then [''dev''] else []) @
     (if \<not> ipaddr_is_empty x (addr p) then [''addr''] else []) @
     attached_keys x c ie"
  by (simp add: logevt_process_def reconstructed_keys_def attached_keys_def
      cong: if_cong option.case_cong split del: if_split)

lemma keys_process_none:
  "\<not> 0 < pp \<Longrightarrow>
   keys_at 0 (calls (logevt_process x c None pp ie)) =
     reconstructed_keys x ie @ attached_keys x c ie"
  by (simp add: logevt_process_def reconstructed_keys_def attached_keys_def
      cong: if_cong option.case_cong split del: if_split)

lemma filter_disjoint:
  "filter (\<lambda>k. k \<notin> set A) ks = [] \<Longrightarrow> set K \<inter> set A = {} \<Longrightarrow>
   filter (\<lambda>k. k \<in> set K) ks = []"
  by (auto simp add: filter_empty_conv)

lemma pimage_no_credentials [simp]:
  "filter (\<lambda>k. k \<in> set credential_keys)
     (dict_keys (calls (logevt_process_image_exec x c ie))) = []"
  by (rule filter_disjoint [OF pimage_other_keys])
    (simp add: credential_keys_def image_context_keys_def)

lemma ancestors_no_credentials [simp]:
  "filter (\<lambda>k. k \<in> set credential_keys)
     (dict_keys (calls (logevt_process_image_exec_ancestors x c pie))) = []"
proof -
  have "filter (\<lambda>k. k \<in> set credential_keys)
     (dict_keys (calls (ancestors_loop x c 0 pie))) = []"
    by (rule filter_disjoint [OF ancestors_loop_other_keys])
      (simp add: credential_keys_def image_context_keys_def)
  then show ?thesis
    by (simp add: logevt_process_image_exec_ancestors_def filter_if
        cong: if_cong split del: if_split)
qed

lemma process_pid_no_credentials:
  "0 < pp \<Longrightarrow>
   filter (\<lambda>k. k \<in> set credential_keys) (dict_keys (calls (logevt_process x c p pp ie))) = []"
  by (simp add: logevt_process_def filter_if filter_case_option
      cong: if_cong option.case_cong split del: if_split)
    (simp add: credential_keys_def cong: if_cong option.case_cong split del: if_split)

lemma is_lookup_pimage [simp]:
  "filter is_lookup (calls (logevt_process_image_exec x c ie)) = []"
  by (simp add: logevt_process_image_exec_def filter_if filter_case_option
      cong: if_cong option.case_cong split del: if_split)

lemma is_lookup_ancestors_loop [simp]:
  "filter is_lookup (calls (ancestors_loop x c depth pie)) = []"
  by (induction x c depth pie rule: ancestors_loop.induct)
    (simp_all add: filter_if cong: if_cong split del: if_split)

lemma process_pid_no_lookup:
  "0 < pp \<Longrightarrow> filter is_lookup (calls (logevt_process x c p pp ie)) = []"
  by (simp add: logevt_process_def logevt_process_image_exec_ancestors_def
      filter_if filter_case_option cong: if_cong option.case_cong split del: if_split)

lemma process_pid_ignores_descriptor:
  "0 < pp \<Longrightarrow> logevt_process x c p pp ie = logevt_process x c None pp ie"
  by (simp add: logevt_process_def)

lemma process_pid_value:
  "0 < pp \<Longrightarrow>
   take 2 (dropWhile (\<lambda>k. k \<noteq> Dict_item ''pid'') (calls (logevt_process x c p pp ie))) =
     [Dict_item ''pid'', Value_int pp]"
  by (simp add: logevt_process_def dropWhile_key_append push
      cong: if_cong option.case_cong split del: if_split)

lemma process_descriptor_pid_value:
  "\<not> 0 < pp \<Longrightarrow>
   take 2 (dropWhile (\<lambda>k. k \<noteq> Dict_item ''pid'')
     (calls (logevt_process x c (Some p) pp ie))) =
     [Dict_item ''pid'', Value_int (audit_proc.pid p)]"
  by (simp add: logevt_process_def dropWhile_key_append push
      cong: if_cong option.case_cong split del: if_split)

lemma process_reconstructed_first:
  "image_exec.flags i AND EIFLAG_PIDLOOKUP x \<noteq> 0 \<Longrightarrow>
   take 3 (calls (logevt_process x c p pp (Some i))) =
     [Dict_begin, Dict_item ''reconstructed'', Value_bool True]"
  by (simp add: logevt_process_def cong: if_cong option.case_cong split del: if_split)

lemma process_not_reconstructed:
  "reconstructed_keys x ie = [] \<Longrightarrow>
   ''reconstructed'' \<notin> set (dict_keys (calls (logevt_process x c p pp ie)))"
  by (cases ie)
    (simp_all add: logevt_process_def reconstructed_keys_def id_keys_iff push
      image_context_keys_def cong: if_cong option.case_cong split del: if_split
      split: if_split_asm)

lemma keys_image_exec:
  "keys_at 0 (calls (logevt_image_exec x c (Some ie))) =
     [''version'', ''time'', ''eventcode''] @
     reconstructed_keys x (Some ie) @
     present (argv ie) ''argv'' @ present (envv ie) ''env'' @ present (cwd ie) ''cwd'' @
     [''image''] @ present (script ie) ''script'' @ [''subject'']"
  by (simp add: reconstructed_keys_def present_def
      cong: if_cong option.case_cong split del: if_split)

lemma image_exec_reconstructed_calls:
  "image_exec.flags ie AND EIFLAG_PIDLOOKUP x \<noteq> 0 \<Longrightarrow>
   take 2 (drop 8 (calls (logevt_image_exec x c (Some ie)))) =
     [Dict_item ''reconstructed'', Value_bool True]"
  by (simp cong: if_cong option.case_cong split del: if_split)

text \<open>
  C7. With an object pid (\<^verbatim>\<open>processpid > 0\<close>) the descriptor is ignored: the process
  dictionary has the key \<open>pid\<close> with the object pid, then only the keys of the attached
  image, after \<open>reconstructed\<close> if that applies; no key of a credential occurs at any
  depth and no name is looked up. Without an object pid and with a descriptor, the keys
  of the dictionary are \<open>pid\<close> with the pid of the descriptor, then those of auid, euid,
  egid, ruid and rgid as \<^verbatim>\<open>logevt_uid\<close> and \<^verbatim>\<open>logevt_gid\<close> emit them, the groups unless
  \<^verbatim>\<open>omit_groups\<close> is set, then \<open>sid\<close> unless \<^verbatim>\<open>omit_sid\<close> is set, then \<open>dev\<close> if the
  device is not (dev_t)-1, then \<open>addr\<close> if the address is not empty, then the keys of the
  attached image. With neither, there is no \<open>pid\<close> at all.
\<close>

theorem process_dictionary:
  "(0 < pp \<longrightarrow>
      logevt_process x c p pp ie = logevt_process x c None pp ie \<and>
      keys_at 0 (calls (logevt_process x c p pp ie)) =
        reconstructed_keys x ie @ [''pid''] @ attached_keys x c ie \<and>
      take 2 (dropWhile (\<lambda>k. k \<noteq> Dict_item ''pid'') (calls (logevt_process x c p pp ie))) =
        [Dict_item ''pid'', Value_int pp] \<and>
      filter (\<lambda>k. k \<in> set credential_keys)
        (dict_keys (calls (logevt_process x c p pp ie))) = [] \<and>
      filter is_lookup (calls (logevt_process x c p pp ie)) = []) \<and>
   (\<not> 0 < pp \<longrightarrow>
      keys_at 0 (calls (logevt_process x c (Some pr) pp ie)) =
        reconstructed_keys x ie @
        ''pid'' #
        id_keys c (getpwuid x) (auid pr) ''auid'' ''auname'' @
        id_keys c (getpwuid x) (euid pr) ''euid'' ''euname'' @
        (if \<not> omit_groups c
         then id_keys c (getgrgid x) (egid pr) ''egid'' ''egname'' else []) @
        id_keys c (getpwuid x) (ruid pr) ''ruid'' ''runame'' @
        (if \<not> omit_groups c
         then id_keys c (getgrgid x) (rgid pr) ''rgid'' ''rgname'' else []) @
        (if \<not> omit_sid c then [''sid''] else []) @
        (if dev pr \<noteq> - 1 then [''dev''] else []) @
        (if \<not> ipaddr_is_empty x (addr pr) then [''addr''] else []) @
        attached_keys x c ie \<and>
      take 2 (dropWhile (\<lambda>k. k \<noteq> Dict_item ''pid'')
        (calls (logevt_process x c (Some pr) pp ie))) =
        [Dict_item ''pid'', Value_int (audit_proc.pid pr)] \<and>
      keys_at 0 (calls (logevt_process x c None pp ie)) =
        reconstructed_keys x ie @ attached_keys x c ie)"
proof (intro conjI impI)
  assume "0 < pp"
  then show "logevt_process x c p pp ie = logevt_process x c None pp ie"
    and "keys_at 0 (calls (logevt_process x c p pp ie)) =
        reconstructed_keys x ie @ [''pid''] @ attached_keys x c ie"
    and "take 2 (dropWhile (\<lambda>k. k \<noteq> Dict_item ''pid'')
        (calls (logevt_process x c p pp ie))) = [Dict_item ''pid'', Value_int pp]"
    and "filter (\<lambda>k. k \<in> set credential_keys)
        (dict_keys (calls (logevt_process x c p pp ie))) = []"
    and "filter is_lookup (calls (logevt_process x c p pp ie)) = []"
    by (rule process_pid_ignores_descriptor, rule keys_process_pid, rule process_pid_value,
        rule process_pid_no_credentials, rule process_pid_no_lookup)
next
  assume "\<not> 0 < pp"
  then show "keys_at 0 (calls (logevt_process x c (Some pr) pp ie)) =
        reconstructed_keys x ie @
        ''pid'' #
        id_keys c (getpwuid x) (auid pr) ''auid'' ''auname'' @
        id_keys c (getpwuid x) (euid pr) ''euid'' ''euname'' @
        (if \<not> omit_groups c
         then id_keys c (getgrgid x) (egid pr) ''egid'' ''egname'' else []) @
        id_keys c (getpwuid x) (ruid pr) ''ruid'' ''runame'' @
        (if \<not> omit_groups c
         then id_keys c (getgrgid x) (rgid pr) ''rgid'' ''rgname'' else []) @
        (if \<not> omit_sid c then [''sid''] else []) @
        (if dev pr \<noteq> - 1 then [''dev''] else []) @
        (if \<not> ipaddr_is_empty x (addr pr) then [''addr''] else []) @
        attached_keys x c ie"
    and "take 2 (dropWhile (\<lambda>k. k \<noteq> Dict_item ''pid'')
        (calls (logevt_process x c (Some pr) pp ie))) =
        [Dict_item ''pid'', Value_int (audit_proc.pid pr)]"
    and "keys_at 0 (calls (logevt_process x c None pp ie)) =
        reconstructed_keys x ie @ attached_keys x c ie"
    by (rule keys_process_descriptor, rule process_descriptor_pid_value,
        rule keys_process_none)
qed

theorem process_dictionary_witness:
  "0 < (4242 :: int) \<and> \<not> 0 < (0 :: int) \<and>
   keys_at 0 (calls (logevt_process ex_extern ex_config (Some ex_proc) 4242 (Some ex_ls))) =
     [''pid'', ''fork_time'', ''image'', ''ancestors''] \<and>
   take 2 (dropWhile (\<lambda>k. k \<noteq> Dict_item ''pid'')
     (calls (logevt_process ex_extern ex_config (Some ex_proc) 4242 (Some ex_ls)))) =
     [Dict_item ''pid'', Value_int 4242] \<and>
   keys_at 0 (calls (logevt_process ex_extern ex_config (Some ex_proc) 0 (Some ex_ls))) =
     [''pid'', ''auid'', ''euid'', ''euname'', ''egid'', ''egname'', ''ruid'', ''rgid'',
      ''sid'', ''dev'', ''fork_time'', ''image'', ''ancestors''] \<and>
   take 2 (dropWhile (\<lambda>k. k \<noteq> Dict_item ''pid'')
     (calls (logevt_process ex_extern ex_config (Some ex_proc) 0 (Some ex_ls)))) =
     [Dict_item ''pid'', Value_int 4243]"
proof -
  have keys: "reconstructed_keys ex_extern (Some ex_ls) = []"
    "attached_keys ex_extern ex_config (Some ex_ls) = [''fork_time'', ''image'', ''ancestors'']"
    by (simp_all add: reconstructed_keys_def attached_keys_def aborted_pimage ex_ls_def
        ex_extern_def ex_config_def ex_time_def)
  have ids: "id_keys ex_config (getpwuid ex_extern) (auid ex_proc) ''auid'' ''auname'' = [''auid'']"
    "id_keys ex_config (getpwuid ex_extern) (euid ex_proc) ''euid'' ''euname'' =
       [''euid'', ''euname'']"
    "id_keys ex_config (getgrgid ex_extern) (egid ex_proc) ''egid'' ''egname'' =
       [''egid'', ''egname'']"
    "id_keys ex_config (getpwuid ex_extern) (ruid ex_proc) ''ruid'' ''runame'' = [''ruid'']"
    "id_keys ex_config (getgrgid ex_extern) (rgid ex_proc) ''rgid'' ''rgname'' = [''rgid'']"
    by (simp_all add: id_keys_def ex_proc_def ex_extern_def ex_config_def)
  have switches: "\<not> omit_groups ex_config" "\<not> omit_sid ex_config" "dev ex_proc \<noteq> - 1"
    "ipaddr_is_empty ex_extern (addr ex_proc)" "audit_proc.pid ex_proc = 4243"
    by (simp_all add: ex_proc_def ex_extern_def ex_config_def)
  have paths: "0 < (4242 :: int)" "\<not> 0 < (0 :: int)"
    by simp_all
  note by_pid = process_dictionary [where pp = 4242 and x = ex_extern and c = ex_config
      and p = "Some ex_proc" and ie = "Some ex_ls", THEN conjunct1, rule_format,
      OF paths(1), THEN conjunct2]
  note by_descriptor = process_dictionary [where pp = 0 and x = ex_extern
      and c = ex_config and pr = ex_proc and ie = "Some ex_ls", THEN conjunct2,
      rule_format, OF paths(2)]
  from by_pid by_descriptor show ?thesis
    by (simp add: keys ids switches)
qed

text \<open>
  C10. When the flag \<^verbatim>\<open>EIFLAG_PIDLOOKUP\<close> of the attached image is set,
  \<^verbatim>\<open>logevt_process\<close> opens the dictionary and emits the key \<open>reconstructed\<close> with the
  value true before anything else, and \<^verbatim>\<open>logevt_image_exec\<close> emits it for its image right
  after the three keys of the header, as the fourth key of the record. When the flag is
  clear, or no image is attached, \<^verbatim>\<open>logevt_process\<close> emits no key \<open>reconstructed\<close> at
  all, and the record of \<^verbatim>\<open>logevt_image_exec\<close> has no such key at its top level (its
  subject is rendered from the predecessor, whose flag decides for the subject).
\<close>

theorem reconstructed_field:
  "(image_exec.flags i AND EIFLAG_PIDLOOKUP x \<noteq> 0 \<longrightarrow>
      take 3 (calls (logevt_process x c p pp (Some i))) =
        [Dict_begin, Dict_item ''reconstructed'', Value_bool True] \<and>
      take 2 (drop 8 (calls (logevt_image_exec x c (Some i)))) =
        [Dict_item ''reconstructed'', Value_bool True] \<and>
      take 4 (keys_at 0 (calls (logevt_image_exec x c (Some i)))) =
        [''version'', ''time'', ''eventcode'', ''reconstructed'']) \<and>
   (image_exec.flags i AND EIFLAG_PIDLOOKUP x = 0 \<longrightarrow>
      ''reconstructed'' \<notin> set (dict_keys (calls (logevt_process x c p pp (Some i)))) \<and>
      ''reconstructed'' \<notin> set (keys_at 0 (calls (logevt_image_exec x c (Some i))))) \<and>
   ''reconstructed'' \<notin> set (dict_keys (calls (logevt_process x c p pp None)))"
proof (intro conjI impI)
  assume set: "image_exec.flags i AND EIFLAG_PIDLOOKUP x \<noteq> 0"
  then show "take 3 (calls (logevt_process x c p pp (Some i))) =
        [Dict_begin, Dict_item ''reconstructed'', Value_bool True]"
    and "take 2 (drop 8 (calls (logevt_image_exec x c (Some i)))) =
        [Dict_item ''reconstructed'', Value_bool True]"
    by (rule process_reconstructed_first, rule image_exec_reconstructed_calls)
  from set show "take 4 (keys_at 0 (calls (logevt_image_exec x c (Some i)))) =
        [''version'', ''time'', ''eventcode'', ''reconstructed'']"
    by (simp add: keys_image_exec reconstructed_keys_def del: logevt_image_exec.simps)
next
  assume clear: "image_exec.flags i AND EIFLAG_PIDLOOKUP x = 0"
  then show "''reconstructed'' \<notin> set (dict_keys (calls (logevt_process x c p pp (Some i))))"
    by (intro process_not_reconstructed) (simp add: reconstructed_keys_def)
  from clear show "''reconstructed'' \<notin> set (keys_at 0 (calls (logevt_image_exec x c (Some i))))"
    by (simp add: keys_image_exec reconstructed_keys_def del: logevt_image_exec.simps)
next
  show "''reconstructed'' \<notin> set (dict_keys (calls (logevt_process x c p pp None)))"
    by (intro process_not_reconstructed) (simp add: reconstructed_keys_def)
qed

theorem reconstructed_field_witness:
  "image_exec.flags ex_top AND EIFLAG_PIDLOOKUP ex_extern \<noteq> 0 \<and>
   image_exec.flags ex_ls AND EIFLAG_PIDLOOKUP ex_extern = 0 \<and>
   take 3 (calls (logevt_process ex_extern ex_config None 77 (Some ex_top))) =
     [Dict_begin, Dict_item ''reconstructed'', Value_bool True] \<and>
   take 4 (keys_at 0 (calls (logevt_image_exec ex_extern ex_config (Some ex_top)))) =
     [''version'', ''time'', ''eventcode'', ''reconstructed''] \<and>
   ''reconstructed'' \<notin> set (dict_keys
     (calls (logevt_process ex_extern ex_config None 77 (Some ex_ls)))) \<and>
   ''reconstructed'' \<notin> set (keys_at 0
     (calls (logevt_image_exec ex_extern ex_config (Some ex_ls))))"
proof -
  have flags: "image_exec.flags ex_top AND EIFLAG_PIDLOOKUP ex_extern \<noteq> 0"
    "image_exec.flags ex_ls AND EIFLAG_PIDLOOKUP ex_extern = 0"
    by (simp_all add: ex_top_def ex_ls_def ex_extern_def)
  with reconstructed_field [of ex_top ex_extern ex_config None 77]
    reconstructed_field [of ex_ls ex_extern ex_config None 77]
  show ?thesis by blast
qed

subsection \<open>The script of an image\<close>

lemma pimage_signed_script:
  "script ie = Some scr \<Longrightarrow> image_exec.codesign scr \<noteq> None \<Longrightarrow>
   dropWhile (\<lambda>k. k \<noteq> Dict_item ''script'') (calls (logevt_process_image_exec x c ie)) =
     [Dict_item ''script'', Dict_begin, Dict_item ''path'', Value_string (image_exec.path scr)]"
  by (simp add: logevt_process_image_exec_def dropWhile_key_append push
      cong: if_cong option.case_cong split del: if_split)

lemma pimage_script_keys:
  "script ie = Some scr \<Longrightarrow> image_exec.codesign scr = None \<Longrightarrow>
   keys_at (- 1) (calls (logevt_process_image_exec x c ie)) =
     ''path'' # (if image_exec.flags scr AND EIFLAG_HASHES x \<noteq> 0 then hash_keys x c else [])"
  by (simp add: logevt_process_image_exec_def hash_keys_def
      cong: if_cong option.case_cong split del: if_split)

lemma dict_keys_strv_loop [simp]: "dict_keys (calls (strv_loop l vs)) = []"
  by (induction vs) simp_all

lemma no_script_key_image [simp]:
  "''script'' \<notin> set (dict_keys (calls (logevt_image_exec_image x c ie)))"
  by (simp add: logevt_image_exec_image_def id_keys_iff push
      cong: if_cong option.case_cong split del: if_split)

lemma image_exec_script:
  "script ie = Some scr \<Longrightarrow>
   take (Suc (length (calls (logevt_image_exec_image x c scr))))
     (dropWhile (\<lambda>k. k \<noteq> Dict_item ''script'') (calls (logevt_image_exec x c (Some ie)))) =
     Dict_item ''script'' # calls (logevt_image_exec_image x c scr)"
  by (simp add: dropWhile_key_append push
      cong: if_cong option.case_cong split del: if_split)

lemma aborted_image_exec:
  "aborted (logevt_image_exec x c (Some ie)) =
     aborted (logevt_process x c
       (if image_exec.flags ie AND EIFLAG_PIDLOOKUP x \<noteq> 0 then None
        else Some (image_exec.subject ie)) 0 (prev ie))"
  by (simp cong: if_cong option.case_cong split del: if_split)

lemma snd_returning_aborted:
  "snd (returning v r) = (if aborted (returning v r) then None else Some v)"
  by (simp add: snd_returning)

lemma snd_logevt_xnumon_ops:
  "snd (logevt_xnumon_ops x c a) = (if aborted (logevt_xnumon_ops x c a) then None else Some 0)"
  by (cases a) (simp_all only: logevt_xnumon_ops.simps snd_returning_aborted)

lemma snd_logevt_xnumon_stats:
  "snd (logevt_xnumon_stats x c a) = (if aborted (logevt_xnumon_stats x c a) then None else Some 0)"
  by (cases a) (simp_all only: logevt_xnumon_stats.simps snd_returning_aborted)

lemma snd_logevt_image_exec:
  "snd (logevt_image_exec x c a) = (if aborted (logevt_image_exec x c a) then None else Some 0)"
  by (cases a) (simp_all only: logevt_image_exec.simps snd_returning_aborted)

lemma snd_logevt_process_access:
  "snd (logevt_process_access x c a) = (if aborted (logevt_process_access x c a) then None else Some 0)"
  by (cases a) (simp_all only: logevt_process_access.simps snd_returning_aborted)

lemma snd_logevt_launchd_add:
  "snd (logevt_launchd_add x c a) = (if aborted (logevt_launchd_add x c a) then None else Some 0)"
  by (cases a) (simp_all only: logevt_launchd_add.simps snd_returning_aborted)

lemma snd_logevt_socket_listen:
  "snd (logevt_socket_listen x c a) = (if aborted (logevt_socket_listen x c a) then None else Some 0)"
  by (cases a) (simp_all only: logevt_socket_listen.simps snd_returning_aborted)

lemma snd_logevt_socket_accept:
  "snd (logevt_socket_accept x c a) = (if aborted (logevt_socket_accept x c a) then None else Some 0)"
  by (cases a) (simp_all only: logevt_socket_accept.simps snd_returning_aborted)

lemma snd_logevt_socket_connect:
  "snd (logevt_socket_connect x c a) = (if aborted (logevt_socket_connect x c a) then None else Some 0)"
  by (cases a) (simp_all only: logevt_socket_connect.simps snd_returning_aborted)

text \<open>
  C8. The code departs from the specification in the object-image rendering. The input
  is the shell of the example: \<^verbatim>\<open>/bin/sh\<close>, without a signature and without a
  predecessor, whose script \<^verbatim>\<open>/tmp/run.sh\<close> has a code signature attached. \<^verbatim>\<open>logevt_image_exec\<close> returns 0,
  and its record has under the key \<open>script\<close> the fields \<open>signature\<close>, \<open>origin\<close>,
  \<open>cdhash\<close> and \<open>ident\<close> of the signature of the script. \<^verbatim>\<open>logevt_process\<close>, on the
  same image, stops at the assertion of \<^verbatim>\<open>logevt_process_image_exec\<close>, right after the
  path of the script.
\<close>

theorem script_signature_emitted:
  "logevt_image_exec ex_extern ex_config (Some ex_run) =
     ([Record_begin, Dict_begin, Dict_item ''version'', Value_uint 1,
      Dict_item ''time'', Value_timespec \<lparr>tv_sec = 1546300800, tv_nsec = 0\<rparr>,
      Dict_item ''eventcode'', Value_uint 2,
      Dict_item ''argv'', List_begin, List_item ''arg'', Value_string ''sh'',
      List_item ''arg'', Value_string ''/tmp/run.sh'', List_end,
      Dict_item ''image'', Dict_begin, Dict_item ''path'', Value_string ''/bin/sh'',
      Dict_item ''md5'', Value_buf_hex (replicate 16 1) 16,
      Dict_item ''sha1'', Value_buf_hex (replicate 20 2) 20,
      Dict_item ''sha256'', Value_buf_hex (replicate 32 3) 32, Dict_end,
      Dict_item ''script'', Dict_begin, Dict_item ''path'', Value_string ''/tmp/run.sh'',
      Dict_item ''signature'', Value_string ''good'',
      Dict_item ''origin'', Value_string ''system'',
      Dict_item ''cdhash'', Value_buf_hex (replicate 20 4) 20,
      Dict_item ''ident'', Value_string ''com.apple.ls'', Dict_end,
      Dict_item ''subject'', Dict_begin, Dict_item ''pid'', Value_int 4243,
      Dict_item ''auid'', Value_uint 501, Getpwuid 501,
      Dict_item ''euid'', Value_uint 0, Getpwuid 0,
      Dict_item ''euname'', Value_string ''root'',
      Dict_item ''egid'', Value_uint 0, Getgrgid 0,
      Dict_item ''egname'', Value_string ''wheel'',
      Dict_item ''ruid'', Value_uint 501, Getpwuid 501,
      Dict_item ''rgid'', Value_uint 20, Getgrgid 20,
      Dict_item ''sid'', Value_uint 100, Dict_item ''dev'', Value_ttydev 5,
      Dict_end, Dict_end, Record_end],
      Some 0) \<and>
   logevt_process ex_extern ex_config (Some ex_proc) 0 (Some ex_run) =
     ([Dict_begin, Dict_item ''pid'', Value_int 4243,
      Dict_item ''auid'', Value_uint 501, Getpwuid 501,
      Dict_item ''euid'', Value_uint 0, Getpwuid 0,
      Dict_item ''euname'', Value_string ''root'',
      Dict_item ''egid'', Value_uint 0, Getgrgid 0,
      Dict_item ''egname'', Value_string ''wheel'',
      Dict_item ''ruid'', Value_uint 501, Getpwuid 501,
      Dict_item ''rgid'', Value_uint 20, Getgrgid 20,
      Dict_item ''sid'', Value_uint 100, Dict_item ''dev'', Value_ttydev 5,
      Dict_item ''fork_time'',
      Value_timespec \<lparr>tv_sec = 1546300800, tv_nsec = 0\<rparr>,
      Dict_item ''image'', Dict_begin,
      Dict_item ''exec_time'',
      Value_timespec \<lparr>tv_sec = 1546300800, tv_nsec = 0\<rparr>,
      Dict_item ''exec_pid'', Value_int 4300,
      Dict_item ''path'', Value_string ''/bin/sh'',
      Dict_item ''md5'', Value_buf_hex (replicate 16 1) 16,
      Dict_item ''sha1'', Value_buf_hex (replicate 20 2) 20,
      Dict_item ''sha256'', Value_buf_hex (replicate 32 3) 32,
      Dict_item ''script'', Dict_begin, Dict_item ''path'', Value_string ''/tmp/run.sh''],
      None)"
  by (simp add: logevt_image_exec_image_def logevt_process_def logevt_process_image_exec_def
      logevt_process_image_exec_ancestors_def logevt_uid_def logevt_gid_def logevt_header_def
      logevt_footer_def ex_run_def ex_script_def ex_config_def ex_extern_def ex_proc_def
      ex_stat_def ex_hashes_def ex_codesign_def ex_header_def ex_time_def
      seq.simps emit_def skip_def assert_def returning_def)

text \<open>
  The script of an image in general. In the process-context rendering a script with a
  signature fails the assertion: the rendering is aborted right after the path of the
  script, so that no field of a signature of the script is emitted; a script without a
  signature is rendered with its path and its hashes, and nothing else aborts this
  rendering. The object-image rendering never aborts. In the record of
  \<^verbatim>\<open>logevt_image_exec\<close> the key \<open>script\<close> is followed by the object-image rendering of the
  script, which has the keys of the signature when one is attached; that serializer is
  aborted only by the rendering of its subject process.
\<close>

theorem script_of_image:
  "(\<forall>scr. script ie = Some scr \<longrightarrow>
      (image_exec.codesign scr \<noteq> None \<longrightarrow>
         aborted (logevt_process_image_exec x c ie) \<and>
         dropWhile (\<lambda>k. k \<noteq> Dict_item ''script'')
           (calls (logevt_process_image_exec x c ie)) =
         [Dict_item ''script'', Dict_begin, Dict_item ''path'',
          Value_string (image_exec.path scr)]) \<and>
      (image_exec.codesign scr = None \<longrightarrow>
         \<not> aborted (logevt_process_image_exec x c ie) \<and>
         keys_at (- 1) (calls (logevt_process_image_exec x c ie)) =
         ''path'' #
         (if image_exec.flags scr AND EIFLAG_HASHES x \<noteq> 0 then hash_keys x c else [])) \<and>
      \<not> aborted (logevt_image_exec_image x c scr) \<and>
      take (Suc (length (calls (logevt_image_exec_image x c scr))))
        (dropWhile (\<lambda>k. k \<noteq> Dict_item ''script'')
           (calls (logevt_image_exec x c (Some ie)))) =
      Dict_item ''script'' # calls (logevt_image_exec_image x c scr) \<and>
      filter (\<lambda>k. k \<in> set signature_keys)
        (dict_keys (calls (logevt_image_exec_image x c scr))) =
      (case image_exec.codesign scr of
         None \<Rightarrow> []
       | Some cs \<Rightarrow>
           ''signature'' # (if origin cs \<noteq> 0 then [''origin''] else []) @
           present (cdhash cs) ''cdhash'' @ present (ident cs) ''ident'' @
           present (teamid cs) ''teamid'' @ present (certcn cs) ''certcn'')) \<and>
   (script ie = None \<longrightarrow> \<not> aborted (logevt_process_image_exec x c ie)) \<and>
   aborted (logevt_image_exec x c (Some ie)) =
     aborted (logevt_process x c
       (if image_exec.flags ie AND EIFLAG_PIDLOOKUP x \<noteq> 0 then None
        else Some (image_exec.subject ie)) 0 (prev ie))"
proof (intro conjI allI impI)
  fix scr
  assume scr: "script ie = Some scr"
  {
    assume "image_exec.codesign scr \<noteq> None"
    with scr show "aborted (logevt_process_image_exec x c ie)"
      by (simp add: aborted_pimage)
  next
    assume "image_exec.codesign scr \<noteq> None"
    with scr show "dropWhile (\<lambda>k. k \<noteq> Dict_item ''script'')
           (calls (logevt_process_image_exec x c ie)) =
         [Dict_item ''script'', Dict_begin, Dict_item ''path'',
          Value_string (image_exec.path scr)]"
      by (rule pimage_signed_script)
  next
    assume "image_exec.codesign scr = None"
    with scr show "\<not> aborted (logevt_process_image_exec x c ie)"
      by (simp add: aborted_pimage)
  next
    assume "image_exec.codesign scr = None"
    with scr show "keys_at (- 1) (calls (logevt_process_image_exec x c ie)) =
         ''path'' #
         (if image_exec.flags scr AND EIFLAG_HASHES x \<noteq> 0 then hash_keys x c else [])"
      by (rule pimage_script_keys)
  }
  show "\<not> aborted (logevt_image_exec_image x c scr)"
    by simp
  from scr show "take (Suc (length (calls (logevt_image_exec_image x c scr))))
        (dropWhile (\<lambda>k. k \<noteq> Dict_item ''script'')
           (calls (logevt_image_exec x c (Some ie)))) =
      Dict_item ''script'' # calls (logevt_image_exec_image x c scr)"
    by (rule image_exec_script)
  show "filter (\<lambda>k. k \<in> set signature_keys)
        (dict_keys (calls (logevt_image_exec_image x c scr))) =
      (case image_exec.codesign scr of
         None \<Rightarrow> []
       | Some cs \<Rightarrow>
           ''signature'' # (if origin cs \<noteq> 0 then [''origin''] else []) @
           present (cdhash cs) ''cdhash'' @ present (ident cs) ''ident'' @
           present (teamid cs) ''teamid'' @ present (certcn cs) ''certcn'')"
    by (rule image_signature_keys)
next
  assume "script ie = None"
  then show "\<not> aborted (logevt_process_image_exec x c ie)"
    by (simp add: aborted_pimage)
next
  show "aborted (logevt_image_exec x c (Some ie)) =
     aborted (logevt_process x c
       (if image_exec.flags ie AND EIFLAG_PIDLOOKUP x \<noteq> 0 then None
        else Some (image_exec.subject ie)) 0 (prev ie))"
    by (rule aborted_image_exec)
qed

theorem script_of_image_example:
  "script ex_run = Some ex_script \<and> image_exec.codesign ex_script \<noteq> None \<and>
   aborted (logevt_process_image_exec ex_extern ex_config ex_run) \<and>
   dropWhile (\<lambda>k. k \<noteq> Dict_item ''script'')
     (calls (logevt_process_image_exec ex_extern ex_config ex_run)) =
   [Dict_item ''script'', Dict_begin, Dict_item ''path'', Value_string ''/tmp/run.sh''] \<and>
   script ex_ls = None \<and> \<not> aborted (logevt_process_image_exec ex_extern ex_config ex_ls)"
proof -
  have data: "script ex_run = Some ex_script" "image_exec.codesign ex_script \<noteq> None"
    "image_exec.path ex_script = ''/tmp/run.sh''" "script ex_ls = None"
    by (simp_all add: ex_run_def ex_script_def ex_ls_def)
  from script_of_image [of ex_run ex_extern ex_config]
    script_of_image [of ex_ls ex_extern ex_config]
  show ?thesis using data by simp
qed

subsection \<open>Failures of the sink\<close>

lemma fst_drive_append:
  "fst (drive w s (ks @ ks')) = fst (drive w (fst (drive w s ks)) ks')"
  by (induction ks arbitrary: s) (simp_all add: split_beta)

lemma fst_drive_recording: "fst (drive (recording ok) log ks) = log @ ks"
  by (induction ks arbitrary: log) (simp_all add: recording_def split_beta)

text \<open>
  Every statement of the functions on a sink follows the statement of the run it was
  written beside.
\<close>

lemma follows_put: "\<not> is_lookup k \<Longrightarrow> follows w (put w k) (emit k)"
  by (simp add: follows_def put_def emit_def calls_def split_beta)

lemma follows_lookup: "is_lookup k \<Longrightarrow> follows w pass (emit k)"
  by (simp add: follows_def pass_def emit_def calls_def)

lemma follows_pass: "follows w pass skip"
  by (simp add: follows_def pass_def skip_def calls_def)

lemma follows_check: "follows w (check b) (assert b)"
  by (simp add: follows_def check_def assert_def calls_def)

lemma follows_steps_Nil: "follows w (steps []) (seq [])"
  by (simp add: follows_def seq.simps pass_def skip_def calls_def)

lemma follows_steps_Cons:
  "follows w a r \<Longrightarrow> follows w (steps as) (seq rs) \<Longrightarrow>
   follows w (steps (a # as)) (seq (r # rs))"
  by (cases "snd r") (simp_all add: follows_def seq.simps calls_def fst_drive_append)

declare steps.simps [simp del]

lemma follows_giving: "follows w a r \<Longrightarrow> follows w (giving v a) (returning v r)"
  by (cases "snd r") (simp_all add: follows_def giving_def returning_def calls_def)

lemma follows_if:
  "(b \<Longrightarrow> follows w a r) \<Longrightarrow> (\<not> b \<Longrightarrow> follows w a' r') \<Longrightarrow>
   follows w (if b then a else a') (if b then r else r')"
  by simp

lemma follows_case_option:
  "(v = None \<Longrightarrow> follows w a r) \<Longrightarrow> (\<And>y. v = Some y \<Longrightarrow> follows w (f y) (g y)) \<Longrightarrow>
   follows w (case v of None \<Rightarrow> a | Some y \<Rightarrow> f y) (case v of None \<Rightarrow> r | Some y \<Rightarrow> g y)"
  by (cases v) simp_all

lemmas follows_intros =
  follows_steps_Nil follows_steps_Cons follows_giving follows_if follows_case_option
  follows_pass follows_check

lemma follows_logevt_uid: "follows w (logevt_uid_on w x c u il nl) (logevt_uid x c u il nl)"
  unfolding logevt_uid_on_def logevt_uid_def
  by (intro follows_intros follows_put follows_lookup) simp_all

lemma follows_logevt_gid: "follows w (logevt_gid_on w x c g il nl) (logevt_gid x c g il nl)"
  unfolding logevt_gid_on_def logevt_gid_def
  by (intro follows_intros follows_put follows_lookup) simp_all

lemma follows_logevt_header: "follows w (logevt_header_on w x h) (logevt_header x h)"
  unfolding logevt_header_on_def logevt_header_def
  by (intro follows_intros follows_put) simp_all

lemma follows_logevt_footer: "follows w (logevt_footer_on w) logevt_footer"
  unfolding logevt_footer_on_def logevt_footer_def
  by (intro follows_intros follows_put) simp_all

lemma follows_strv_loop: "follows w (strv_loop_on w label vs) (strv_loop label vs)"
  by (induction vs) (simp_all add: follows_pass follows_steps_Cons follows_steps_Nil follows_put)

lemma follows_counts_loop: "follows w (counts_loop_on w ns) (counts_loop ns)"
  by (induction ns) (simp_all add: follows_pass follows_steps_Cons follows_steps_Nil follows_put)

lemma follows_logevt_image_exec_image:
  "follows w (logevt_image_exec_image_on w x c ie) (logevt_image_exec_image x c ie)"
  unfolding logevt_image_exec_image_on_def logevt_image_exec_image_def
  by (intro follows_intros follows_put follows_logevt_uid follows_logevt_gid) simp_all

lemma follows_logevt_process_image_exec:
  "follows w (logevt_process_image_exec_on w x c ie) (logevt_process_image_exec x c ie)"
  unfolding logevt_process_image_exec_on_def logevt_process_image_exec_def
  by (intro follows_intros follows_put) simp_all

lemma follows_ancestors_loop:
  "follows w (ancestors_loop_on w x c depth pie) (ancestors_loop x c depth pie)"
proof (induction x c depth pie rule: ancestors_loop.induct)
  case (1 x c depth)
  show ?case
    by (simp add: follows_pass)
next
  case (2 x c depth pie)
  show ?case
    unfolding ancestors_loop_on.simps ancestors_loop.simps
    by (intro follows_intros follows_put follows_logevt_process_image_exec 2) simp_all
qed

lemma follows_logevt_process_image_exec_ancestors:
  "follows w (logevt_process_image_exec_ancestors_on w x c ie)
     (logevt_process_image_exec_ancestors x c ie)"
  unfolding logevt_process_image_exec_ancestors_on_def logevt_process_image_exec_ancestors_def
  by (intro follows_intros follows_put follows_ancestors_loop) simp_all

lemma follows_logevt_process:
  "follows w (logevt_process_on w x c p pp ie) (logevt_process x c p pp ie)"
  unfolding logevt_process_on_def logevt_process_def
  by (intro follows_intros follows_put follows_logevt_uid follows_logevt_gid
      follows_logevt_process_image_exec follows_logevt_process_image_exec_ancestors) simp_all

lemma follows_logevt_xnumon_ops:
  "follows w (logevt_xnumon_ops_on w x c a) (logevt_xnumon_ops x c a)"
proof (cases a)
  case None
  show ?thesis
    unfolding None logevt_xnumon_ops_on.simps logevt_xnumon_ops.simps
    by (intro follows_intros follows_logevt_header)
next
  case (Some e)
  show ?thesis
    unfolding Some logevt_xnumon_ops_on.simps logevt_xnumon_ops.simps
    by (intro follows_intros follows_put follows_logevt_header follows_logevt_footer
        follows_strv_loop follows_counts_loop) simp_all
qed

lemma follows_logevt_xnumon_stats:
  "follows w (logevt_xnumon_stats_on w x c a) (logevt_xnumon_stats x c a)"
proof (cases a)
  case None
  show ?thesis
    unfolding None logevt_xnumon_stats_on.simps logevt_xnumon_stats.simps
    by (intro follows_intros follows_logevt_header)
next
  case (Some e)
  show ?thesis
    unfolding Some logevt_xnumon_stats_on.simps logevt_xnumon_stats.simps
    by (intro follows_intros follows_put follows_logevt_header follows_logevt_footer
        follows_counts_loop) simp_all
qed

lemma follows_logevt_image_exec:
  "follows w (logevt_image_exec_on w x c a) (logevt_image_exec x c a)"
proof (cases a)
  case None
  show ?thesis
    unfolding None logevt_image_exec_on.simps logevt_image_exec.simps
    by (intro follows_intros follows_logevt_header)
next
  case (Some e)
  show ?thesis
    unfolding Some logevt_image_exec_on.simps logevt_image_exec.simps
    by (intro follows_intros follows_put follows_logevt_header follows_logevt_footer
        follows_strv_loop follows_logevt_image_exec_image follows_logevt_process) simp_all
qed

lemma follows_logevt_process_access:
  "follows w (logevt_process_access_on w x c a) (logevt_process_access x c a)"
proof (cases a)
  case None
  show ?thesis
    unfolding None logevt_process_access_on.simps logevt_process_access.simps
    by (intro follows_intros follows_logevt_header)
next
  case (Some e)
  show ?thesis
    unfolding Some logevt_process_access_on.simps logevt_process_access.simps
    by (intro follows_intros follows_put follows_logevt_header follows_logevt_footer
        follows_strv_loop follows_logevt_image_exec_image follows_logevt_process) simp_all
qed

lemma follows_logevt_launchd_add:
  "follows w (logevt_launchd_add_on w x c a) (logevt_launchd_add x c a)"
proof (cases a)
  case None
  show ?thesis
    unfolding None logevt_launchd_add_on.simps logevt_launchd_add.simps
    by (intro follows_intros follows_logevt_header)
next
  case (Some e)
  show ?thesis
    unfolding Some logevt_launchd_add_on.simps logevt_launchd_add.simps
    by (intro follows_intros follows_put follows_logevt_header follows_logevt_footer
        follows_strv_loop follows_logevt_image_exec_image follows_logevt_process) simp_all
qed

lemma follows_logevt_socket_listen:
  "follows w (logevt_socket_listen_on w x c a) (logevt_socket_listen x c a)"
proof (cases a)
  case None
  show ?thesis
    unfolding None logevt_socket_listen_on.simps logevt_socket_listen.simps
    by (intro follows_intros follows_logevt_header)
next
  case (Some e)
  show ?thesis
    unfolding Some logevt_socket_listen_on.simps logevt_socket_listen.simps
    by (intro follows_intros follows_put follows_logevt_header follows_logevt_footer
        follows_strv_loop follows_logevt_image_exec_image follows_logevt_process) simp_all
qed

lemma follows_logevt_socket_accept:
  "follows w (logevt_socket_accept_on w x c a) (logevt_socket_accept x c a)"
proof (cases a)
  case None
  show ?thesis
    unfolding None logevt_socket_accept_on.simps logevt_socket_accept.simps
    by (intro follows_intros follows_logevt_header)
next
  case (Some e)
  show ?thesis
    unfolding Some logevt_socket_accept_on.simps logevt_socket_accept.simps
    by (intro follows_intros follows_put follows_logevt_header follows_logevt_footer
        follows_strv_loop follows_logevt_image_exec_image follows_logevt_process) simp_all
qed

lemma follows_logevt_socket_connect:
  "follows w (logevt_socket_connect_on w x c a) (logevt_socket_connect x c a)"
proof (cases a)
  case None
  show ?thesis
    unfolding None logevt_socket_connect_on.simps logevt_socket_connect.simps
    by (intro follows_intros follows_logevt_header)
next
  case (Some e)
  show ?thesis
    unfolding Some logevt_socket_connect_on.simps logevt_socket_connect.simps
    by (intro follows_intros follows_put follows_logevt_header follows_logevt_footer
        follows_strv_loop follows_logevt_image_exec_image follows_logevt_process) simp_all
qed

text \<open>
  What an execution that follows the run of a serializer leaves and returns.
\<close>

lemma serializer_on_sink:
  assumes "follows w a r" and "snd r = (if aborted r then None else Some (0 :: int))"
  shows "a s = (fst (drive w s (filter (\<lambda>k. \<not> is_lookup k) (calls r))),
                if aborted r then None else Some 0)"
  using assms by (simp add: follows_def)

text \<open>
  C9, as the specification states it, fails: on a sink on which every write fails,
  \<^verbatim>\<open>logevt_socket_connect\<close> hands its 70 calls to the sink, each of which fails, and
  returns 0.
\<close>

theorem sink_failure_counterexample:
  "(\<forall>n k. \<not> snd (ex_broken_sink n k)) \<and>
   logevt_socket_connect_on ex_broken_sink ex_extern ex_config (Some ex_so) 0 = (70, Some 0)"
  by (simp add: logevt_process_on_def logevt_process_image_exec_on_def
      logevt_process_image_exec_ancestors_on_def logevt_uid_on_def logevt_gid_on_def
      logevt_header_on_def logevt_footer_on_def ex_so_def ex_sh_def ex_ls_def ex_launchd_def
      ex_config_def ex_extern_def ex_proc_def ex_stat_def ex_hashes_def ex_codesign_def
      ex_header_def ex_time_def ex_broken_sink_def steps.simps put_def pass_def check_def
      giving_def)

text \<open>
  C9, amended. A failure of a write is not propagated: on every sink, whatever the
  outcomes of the writes, each of the eight serializers returns 0 unless an assertion
  stops it. The serializer neither retries nor rewinds the record: from every state of
  the stream it leaves the state that the sink reaches when it is given the calls of the
  record, each once and in order; on the sink that keeps its calls, whichever of them
  fail, the calls of the record are appended once, in order, to what was there before.
\<close>

theorem sink_failures_ignored:
  "logevt_xnumon_ops_on w x c a1 s =
     (fst (drive w s (filter (\<lambda>k. \<not> is_lookup k) (calls (logevt_xnumon_ops x c a1)))),
      if aborted (logevt_xnumon_ops x c a1) then None else Some 0) \<and>
   logevt_xnumon_stats_on w x c a2 s =
     (fst (drive w s (filter (\<lambda>k. \<not> is_lookup k) (calls (logevt_xnumon_stats x c a2)))),
      if aborted (logevt_xnumon_stats x c a2) then None else Some 0) \<and>
   logevt_image_exec_on w x c a3 s =
     (fst (drive w s (filter (\<lambda>k. \<not> is_lookup k) (calls (logevt_image_exec x c a3)))),
      if aborted (logevt_image_exec x c a3) then None else Some 0) \<and>
   logevt_process_access_on w x c a4 s =
     (fst (drive w s (filter (\<lambda>k. \<not> is_lookup k) (calls (logevt_process_access x c a4)))),
      if aborted (logevt_process_access x c a4) then None else Some 0) \<and>
   logevt_launchd_add_on w x c a5 s =
     (fst (drive w s (filter (\<lambda>k. \<not> is_lookup k) (calls (logevt_launchd_add x c a5)))),
      if aborted (logevt_launchd_add x c a5) then None else Some 0) \<and>
   logevt_socket_listen_on w x c a6 s =
     (fst (drive w s (filter (\<lambda>k. \<not> is_lookup k) (calls (logevt_socket_listen x c a6)))),
      if aborted (logevt_socket_listen x c a6) then None else Some 0) \<and>
   logevt_socket_accept_on w x c a6 s =
     (fst (drive w s (filter (\<lambda>k. \<not> is_lookup k) (calls (logevt_socket_accept x c a6)))),
      if aborted (logevt_socket_accept x c a6) then None else Some 0) \<and>
   logevt_socket_connect_on w x c a6 s =
     (fst (drive w s (filter (\<lambda>k. \<not> is_lookup k) (calls (logevt_socket_connect x c a6)))),
      if aborted (logevt_socket_connect x c a6) then None else Some 0) \<and>
   logevt_xnumon_ops_on (recording ok) x c a1 log =
     (log @ filter (\<lambda>k. \<not> is_lookup k) (calls (logevt_xnumon_ops x c a1)),
      if aborted (logevt_xnumon_ops x c a1) then None else Some 0) \<and>
   logevt_xnumon_stats_on (recording ok) x c a2 log =
     (log @ filter (\<lambda>k. \<not> is_lookup k) (calls (logevt_xnumon_stats x c a2)),
      if aborted (logevt_xnumon_stats x c a2) then None else Some 0) \<and>
   logevt_image_exec_on (recording ok) x c a3 log =
     (log @ filter (\<lambda>k. \<not> is_lookup k) (calls (logevt_image_exec x c a3)),
      if aborted (logevt_image_exec x c a3) then None else Some 0) \<and>
   logevt_process_access_on (recording ok) x c a4 log =
     (log @ filter (\<lambda>k. \<not> is_lookup k) (calls (logevt_process_access x c a4)),
      if aborted (logevt_process_access x c a4) then None else Some 0) \<and>
   logevt_launchd_add_on (recording ok) x c a5 log =
     (log @ filter (\<lambda>k. \<not> is_lookup k) (calls (logevt_launchd_add x c a5)),
      if aborted (logevt_launchd_add x c a5) then None else Some 0) \<and>
   logevt_socket_listen_on (recording ok) x c a6 log =
     (log @ filter (\<lambda>k. \<not> is_lookup k) (calls (logevt_socket_listen x c a6)),
      if aborted (logevt_socket_listen x c a6) then None else Some 0) \<and>
   logevt_socket_accept_on (recording ok) x c a6 log =
     (log @ filter (\<lambda>k. \<not> is_lookup k) (calls (logevt_socket_accept x c a6)),
      if aborted (logevt_socket_accept x c a6) then None else Some 0) \<and>
   logevt_socket_connect_on (recording ok) x c a6 log =
     (log @ filter (\<lambda>k. \<not> is_lookup k) (calls (logevt_socket_connect x c a6)),
      if aborted (logevt_socket_connect x c a6) then None else Some 0)"
  by (simp only:
      serializer_on_sink [OF follows_logevt_xnumon_ops snd_logevt_xnumon_ops]
      serializer_on_sink [OF follows_logevt_xnumon_stats snd_logevt_xnumon_stats]
      serializer_on_sink [OF follows_logevt_image_exec snd_logevt_image_exec]
      serializer_on_sink [OF follows_logevt_process_access snd_logevt_process_access]
      serializer_on_sink [OF follows_logevt_launchd_add snd_logevt_launchd_add]
      serializer_on_sink [OF follows_logevt_socket_listen snd_logevt_socket_listen]
      serializer_on_sink [OF follows_logevt_socket_accept snd_logevt_socket_accept]
      serializer_on_sink [OF follows_logevt_socket_connect snd_logevt_socket_connect]
      fst_drive_recording simp_thms)

end
